theory Spec2Isabelle
  imports Main "HOL-Library.Word"
begin

unbundle bit_operations_syntax

section \<open>IEEE 802.11 link-layer ciphers of the NuttX port: CCMP and TKIP\<close>

text \<open>
  A shallow embedding of \<^verbatim>\<open>net/ieee80211/ieee80211_crypto_tkip.c\<close> and
  \<^verbatim>\<open>net/ieee80211/ieee80211_crypto_ccmp.c\<close>. Octets are 8-bit words, the
  counters are 64-bit words as the C code declares them, buffers are lists of octets.
\<close>

type_synonym byte = "8 word"
type_synonym u16b = "16 word"
type_synonym u32b = "32 word"
type_synonym u64 = "64 word"

text \<open>A C \<^verbatim>\<open>int\<close>: 32 bits, two's complement; \<open>sint\<close> reads the signed value, and
  \<open>+\<close>, \<open>-\<close> and \<open>*\<close> wrap around.\<close>

type_synonym s32b = "32 word"

subsection \<open>TKIP key mixing (Phase1 and Phase2)\<close>

text \<open>The macros of the key-mixing code, on 16-bit and 32-bit words.\<close>

definition RotR1 :: "u16b \<Rightarrow> u16b" where
  "RotR1 v16 = ((drop_bit 1 v16) AND 0x7FFF) XOR (push_bit 15 (v16 AND 1))"

definition Lo8 :: "u16b \<Rightarrow> byte" where
  "Lo8 v16 = ucast (v16 AND 0x00FF)"

definition Hi8 :: "u16b \<Rightarrow> byte" where
  "Hi8 v16 = ucast ((drop_bit 8 v16) AND 0x00FF)"

definition Lo16 :: "u32b \<Rightarrow> u16b" where
  "Lo16 v32 = ucast (v32 AND 0xFFFF)"

definition Hi16 :: "u32b \<Rightarrow> u16b" where
  "Hi16 v32 = ucast ((drop_bit 16 v32) AND 0xFFFF)"

definition Mk16 :: "byte \<Rightarrow> byte \<Rightarrow> u16b" where
  "Mk16 hi lo = ucast lo XOR push_bit 8 (ucast hi)"

text \<open>\<^verbatim>\<open>TK16(N)\<close>: the N-th 16-bit word of the temporal key, little-endian.\<close>

definition TK16 :: "byte list \<Rightarrow> nat \<Rightarrow> u16b" where
  "TK16 TK N = Mk16 (TK ! (2 * N + 1)) (TK ! (2 * N))"

text \<open>\<^verbatim>\<open>swap16\<close> exchanges the two octets of a 16-bit word.\<close>

definition swap16 :: "u16b \<Rightarrow> u16b" where
  "swap16 v = push_bit 8 (v AND 0x00FF) OR drop_bit 8 v"

definition Sbox :: "u16b list" where
  "Sbox = [
   0xC6A5, 0xF884, 0xEE99, 0xF68D, 0xFF0D, 0xD6BD, 0xDEB1, 0x9154,
   0x6050, 0x0203, 0xCEA9, 0x567D, 0xE719, 0xB562, 0x4DE6, 0xEC9A,
   0x8F45, 0x1F9D, 0x8940, 0xFA87, 0xEF15, 0xB2EB, 0x8EC9, 0xFB0B,
   0x41EC, 0xB367, 0x5FFD, 0x45EA, 0x23BF, 0x53F7, 0xE496, 0x9B5B,
   0x75C2, 0xE11C, 0x3DAE, 0x4C6A, 0x6C5A, 0x7E41, 0xF502, 0x834F,
   0x685C, 0x51F4, 0xD134, 0xF908, 0xE293, 0xAB73, 0x6253, 0x2A3F,
   0x080C, 0x9552, 0x4665, 0x9D5E, 0x3028, 0x37A1, 0x0A0F, 0x2FB5,
   0x0E09, 0x2436, 0x1B9B, 0xDF3D, 0xCD26, 0x4E69, 0x7FCD, 0xEA9F,
   0x121B, 0x1D9E, 0x5874, 0x342E, 0x362D, 0xDCB2, 0xB4EE, 0x5BFB,
   0xA4F6, 0x764D, 0xB761, 0x7DCE, 0x527B, 0xDD3E, 0x5E71, 0x1397,
   0xA6F5, 0xB968, 0x0000, 0xC12C, 0x4060, 0xE31F, 0x79C8, 0xB6ED,
   0xD4BE, 0x8D46, 0x67D9, 0x724B, 0x94DE, 0x98D4, 0xB0E8, 0x854A,
   0xBB6B, 0xC52A, 0x4FE5, 0xED16, 0x86C5, 0x9AD7, 0x6655, 0x1194,
   0x8ACF, 0xE910, 0x0406, 0xFE81, 0xA0F0, 0x7844, 0x25BA, 0x4BE3,
   0xA2F3, 0x5DFE, 0x80C0, 0x058A, 0x3FAD, 0x21BC, 0x7048, 0xF104,
   0x63DF, 0x77C1, 0xAF75, 0x4263, 0x2030, 0xE51A, 0xFD0E, 0xBF6D,
   0x814C, 0x1814, 0x2635, 0xC32F, 0xBEE1, 0x35A2, 0x88CC, 0x2E39,
   0x9357, 0x55F2, 0xFC82, 0x7A47, 0xC8AC, 0xBAE7, 0x322B, 0xE695,
   0xC0A0, 0x1998, 0x9ED1, 0xA37F, 0x4466, 0x547E, 0x3BAB, 0x0B83,
   0x8CCA, 0xC729, 0x6BD3, 0x283C, 0xA779, 0xBCE2, 0x161D, 0xAD76,
   0xDB3B, 0x6456, 0x744E, 0x141E, 0x92DB, 0x0C0A, 0x486C, 0xB8E4,
   0x9F5D, 0xBD6E, 0x43EF, 0xC4A6, 0x39A8, 0x31A4, 0xD337, 0xF28B,
   0xD532, 0x8B43, 0x6E59, 0xDAB7, 0x018C, 0xB164, 0x9CD2, 0x49E0,
   0xD8B4, 0xACFA, 0xF307, 0xCF25, 0xCAAF, 0xF48E, 0x47E9, 0x1018,
   0x6FD5, 0xF088, 0x4A6F, 0x5C72, 0x3824, 0x57F1, 0x73C7, 0x9751,
   0xCB23, 0xA17C, 0xE89C, 0x3E21, 0x96DD, 0x61DC, 0x0D86, 0x0F85,
   0xE090, 0x7C42, 0x71C4, 0xCCAA, 0x90D8, 0x0605, 0xF701, 0x1C12,
   0xC2A3, 0x6A5F, 0xAEF9, 0x69D0, 0x1791, 0x9958, 0x3A27, 0x27B9,
   0xD938, 0xEB13, 0x2BB3, 0x2233, 0xD2BB, 0xA970, 0x0789, 0x33A7,
   0x2DB6, 0x3C22, 0x1592, 0xC920, 0x8749, 0xAAFF, 0x5078, 0xA57A,
   0x038F, 0x59F8, 0x0980, 0x1A17, 0x65DA, 0xD731, 0x84C6, 0xD0B8,
   0x82C3, 0x29B0, 0x5A77, 0x1E11, 0x7BCB, 0xA8FC, 0x6DD6, 0x2C3A]"

text \<open>\<^verbatim>\<open>_S_(v16)\<close>: the 16-bit S-box lookup.\<close>

definition S_lookup :: "u16b \<Rightarrow> u16b" where
  "S_lookup v16 = (Sbox ! unat (Lo8 v16)) XOR swap16 (Sbox ! unat (Hi8 v16))"

text \<open>
  One round of the loop of \<^verbatim>\<open>Phase1\<close>; the five words of \<^verbatim>\<open>P1K\<close> are a list.
  Every addition is modulo \<open>2^16\<close>, as the stores into \<^verbatim>\<open>u16b\<close> make it.
\<close>

definition Phase1_round :: "byte list \<Rightarrow> u16b list \<Rightarrow> nat \<Rightarrow> u16b list" where
  "Phase1_round TK P1K i =
    (let j = i mod 2;
         p0 = P1K ! 0 + S_lookup (P1K ! 4 XOR TK16 TK (j + 0));
         p1 = P1K ! 1 + S_lookup (p0 XOR TK16 TK (j + 2));
         p2 = P1K ! 2 + S_lookup (p1 XOR TK16 TK (j + 4));
         p3 = P1K ! 3 + S_lookup (p2 XOR TK16 TK (j + 6));
         p4 = P1K ! 4 + S_lookup (p3 XOR TK16 TK (j + 0));
         p4' = p4 + of_nat i
     in [p0, p1, p2, p3, p4'])"

definition Phase1 :: "byte list \<Rightarrow> byte list \<Rightarrow> u32b \<Rightarrow> u16b list" where
  "Phase1 TK TA IV32 =
    foldl (Phase1_round TK)
      [Lo16 IV32, Hi16 IV32, Mk16 (TA ! 1) (TA ! 0), Mk16 (TA ! 3) (TA ! 2), Mk16 (TA ! 5) (TA ! 4)]
      [0 ..< 8]"

text \<open>
  \<^verbatim>\<open>Phase2\<close>. \<^verbatim>\<open>PPK\<close> overlays \<^verbatim>\<open>RC4KEY[4..15]\<close>; each word is left in
  little-endian octet order (on a big-endian host by the final \<^verbatim>\<open>swap16\<close> loop), so
  the sixteen octets of the result are the same on both kinds of host.
\<close>

definition Phase2_PPK :: "byte list \<Rightarrow> u16b list \<Rightarrow> u16b \<Rightarrow> u16b list" where
  "Phase2_PPK TK P1K IV16 =
    (let q0 = P1K ! 0; q1 = P1K ! 1; q2 = P1K ! 2; q3 = P1K ! 3; q4 = P1K ! 4;
         q5 = P1K ! 4 + IV16;
         r0 = q0 + S_lookup (q5 XOR TK16 TK 0);
         r1 = q1 + S_lookup (r0 XOR TK16 TK 1);
         r2 = q2 + S_lookup (r1 XOR TK16 TK 2);
         r3 = q3 + S_lookup (r2 XOR TK16 TK 3);
         r4 = q4 + S_lookup (r3 XOR TK16 TK 4);
         r5 = q5 + S_lookup (r4 XOR TK16 TK 5);
         t0 = r0 + RotR1 (r5 XOR TK16 TK 6);
         t1 = r1 + RotR1 (t0 XOR TK16 TK 7);
         t2 = r2 + RotR1 t1;
         t3 = r3 + RotR1 t2;
         t4 = r4 + RotR1 t3;
         t5 = r5 + RotR1 t4
     in [t0, t1, t2, t3, t4, t5])"

definition Phase2 :: "byte list \<Rightarrow> u16b list \<Rightarrow> u16b \<Rightarrow> byte list" where
  "Phase2 TK P1K IV16 =
    (let PPK = Phase2_PPK TK P1K IV16
     in [Hi8 IV16,
         (Hi8 IV16 OR 0x20) AND 0x7F,
         Lo8 IV16,
         Lo8 (drop_bit 1 (PPK ! 5 XOR TK16 TK 0))]
        @ concat (map (\<lambda>w. [Lo8 w, Hi8 w]) PPK))"


subsection \<open>Constants of the 802.11 headers\<close>

text \<open>
  The frame-control masks, the cipher header and trailer lengths and the interface flag
  are declared in \<^verbatim>\<open>ieee80211.h\<close>, \<^verbatim>\<open>ieee80211_crypto.h\<close> and
  \<^verbatim>\<open>ieee80211_var.h\<close>; their values are those of IEEE Std 802.11 and of the
  specification's table of constants (header and MIC lengths 8, CRC length 4).
\<close>

definition IEEE80211_FC0_TYPE_MASK :: byte where "IEEE80211_FC0_TYPE_MASK = 0x0c"
definition IEEE80211_FC0_TYPE_MGT :: byte where "IEEE80211_FC0_TYPE_MGT = 0x00"
definition IEEE80211_FC0_TYPE_DATA :: byte where "IEEE80211_FC0_TYPE_DATA = 0x08"
definition IEEE80211_FC0_SUBTYPE_MASK :: byte where "IEEE80211_FC0_SUBTYPE_MASK = 0xf0"
definition IEEE80211_FC0_SUBTYPE_QOS :: byte where "IEEE80211_FC0_SUBTYPE_QOS = 0x80"
definition IEEE80211_FC1_DIR_MASK :: byte where "IEEE80211_FC1_DIR_MASK = 0x03"
definition IEEE80211_FC1_DIR_NODS :: byte where "IEEE80211_FC1_DIR_NODS = 0x00"
definition IEEE80211_FC1_DIR_TODS :: byte where "IEEE80211_FC1_DIR_TODS = 0x01"
definition IEEE80211_FC1_DIR_FROMDS :: byte where "IEEE80211_FC1_DIR_FROMDS = 0x02"
definition IEEE80211_FC1_DIR_DSTODS :: byte where "IEEE80211_FC1_DIR_DSTODS = 0x03"
definition IEEE80211_FC1_RETRY :: byte where "IEEE80211_FC1_RETRY = 0x08"
definition IEEE80211_FC1_PWR_MGT :: byte where "IEEE80211_FC1_PWR_MGT = 0x10"
definition IEEE80211_FC1_MORE_DATA :: byte where "IEEE80211_FC1_MORE_DATA = 0x20"
definition IEEE80211_FC1_PROTECTED :: byte where "IEEE80211_FC1_PROTECTED = 0x40"
definition IEEE80211_FC1_ORDER :: byte where "IEEE80211_FC1_ORDER = 0x80"
definition IEEE80211_QOS_TID :: u16b where "IEEE80211_QOS_TID = 0x000f"
definition IEEE80211_WEP_EXTIV :: byte where "IEEE80211_WEP_EXTIV = 0x20"
definition IEEE80211_ADDR_LEN :: nat where "IEEE80211_ADDR_LEN = 6"
definition IEEE80211_CCMP_HDRLEN :: nat where "IEEE80211_CCMP_HDRLEN = 8"
definition IEEE80211_CCMP_MICLEN :: nat where "IEEE80211_CCMP_MICLEN = 8"
definition IEEE80211_TKIP_HDRLEN :: nat where "IEEE80211_TKIP_HDRLEN = 8"
definition IEEE80211_TKIP_MICLEN :: nat where "IEEE80211_TKIP_MICLEN = 8"
definition IEEE80211_WEP_CRCLEN :: nat where "IEEE80211_WEP_CRCLEN = 4"
definition IEEE80211_TKIP_TAILLEN :: nat where
  "IEEE80211_TKIP_TAILLEN = IEEE80211_TKIP_MICLEN + IEEE80211_WEP_CRCLEN"
definition IEEE80211_TKIP_OVHD :: nat where
  "IEEE80211_TKIP_OVHD = IEEE80211_TKIP_HDRLEN + IEEE80211_TKIP_TAILLEN"
definition IEEE80211_F_COUNTERM :: u32b where "IEEE80211_F_COUNTERM = 0x00800000"

subsection \<open>Header inspection\<close>

text \<open>
  A frame header \<open>wh\<close> is the octet array at the start of the first buffer of a chain.
  \<^verbatim>\<open>struct ieee80211_frame\<close> lays out \<^verbatim>\<open>i_fc[2]\<close> at 0, \<^verbatim>\<open>i_dur[2]\<close> at 2,
  \<^verbatim>\<open>i_addr1\<close> at 4, \<^verbatim>\<open>i_addr2\<close> at 10, \<^verbatim>\<open>i_addr3\<close> at 16, \<^verbatim>\<open>i_seq[2]\<close> at 22;
  the four-address variant adds \<^verbatim>\<open>i_addr4\<close> at 24; the QoS control field follows.
  \<open>bytes_at wh off n\<close> reads \<open>n\<close> octets at offset \<open>off\<close>.
\<close>

definition bytes_at :: "byte list \<Rightarrow> nat \<Rightarrow> nat \<Rightarrow> byte list" where
  "bytes_at wh off n = map (\<lambda>i. wh ! i) [off ..< off + n]"

definition i_fc0 :: "byte list \<Rightarrow> byte" where "i_fc0 wh = wh ! 0"
definition i_fc1 :: "byte list \<Rightarrow> byte" where "i_fc1 wh = wh ! 1"
definition i_addr1 :: "byte list \<Rightarrow> byte list" where "i_addr1 wh = bytes_at wh 4 IEEE80211_ADDR_LEN"
definition i_addr2 :: "byte list \<Rightarrow> byte list" where "i_addr2 wh = bytes_at wh 10 IEEE80211_ADDR_LEN"
definition i_addr3 :: "byte list \<Rightarrow> byte list" where "i_addr3 wh = bytes_at wh 16 IEEE80211_ADDR_LEN"
definition i_seq0 :: "byte list \<Rightarrow> byte" where "i_seq0 wh = wh ! 22"
definition i_addr4 :: "byte list \<Rightarrow> byte list" where "i_addr4 wh = bytes_at wh 24 IEEE80211_ADDR_LEN"

text \<open>
  Modelled from the spec: the header helpers \<^verbatim>\<open>ieee80211_has_addr4\<close>,
  \<^verbatim>\<open>ieee80211_has_qos\<close>, \<^verbatim>\<open>ieee80211_has_htc\<close>, \<^verbatim>\<open>ieee80211_get_qos\<close> and
  \<^verbatim>\<open>ieee80211_get_hdrlen\<close> are inline functions of headers that are not among the
  sources. Section 4.1 of the specification: four-address mode is the direction DSTODS,
  QoS is a property of the first frame-control octet, the header length is computed
  from the two frame-control octets, and the TID is the low four bits of the QoS control
  field read little-endian.
\<close>

definition ieee80211_has_addr4 :: "byte list \<Rightarrow> bool" where
  "ieee80211_has_addr4 wh \<longleftrightarrow>
     (i_fc1 wh AND IEEE80211_FC1_DIR_MASK) = IEEE80211_FC1_DIR_DSTODS"

definition ieee80211_has_qos :: "byte list \<Rightarrow> bool" where
  "ieee80211_has_qos wh \<longleftrightarrow>
     (i_fc0 wh AND (IEEE80211_FC0_TYPE_MASK OR IEEE80211_FC0_SUBTYPE_QOS)) =
     (IEEE80211_FC0_TYPE_DATA OR IEEE80211_FC0_SUBTYPE_QOS)"

definition ieee80211_has_htc :: "byte list \<Rightarrow> bool" where
  "ieee80211_has_htc wh \<longleftrightarrow>
     (i_fc1 wh AND IEEE80211_FC1_ORDER) \<noteq> 0 \<and>
     (ieee80211_has_qos wh \<or>
      (i_fc0 wh AND IEEE80211_FC0_TYPE_MASK) = IEEE80211_FC0_TYPE_MGT)"

definition ieee80211_get_qos :: "byte list \<Rightarrow> u16b" where
  "ieee80211_get_qos wh =
     (let off = (if ieee80211_has_addr4 wh then 30 else 24)
      in ucast (wh ! off) OR push_bit 8 (ucast (wh ! (off + 1))))"

definition ieee80211_get_hdrlen :: "byte list \<Rightarrow> nat" where
  "ieee80211_get_hdrlen wh =
     24 + (if ieee80211_has_addr4 wh then IEEE80211_ADDR_LEN else 0)
        + (if ieee80211_has_qos wh then 2 else 0)
        + (if ieee80211_has_htc wh then 4 else 0)"

subsection \<open>Keys, contexts, interface state and the environment\<close>

text \<open>
  The cipher primitives are external to these sources (AES block encryption, RC4,
  Michael, the little-endian CRC-32). They are parameters of the model:
  \<^item> \<open>rijndael_encrypt ks blk\<close> is one AES block encryption under the key schedule \<open>ks\<close>;
  \<^item> \<open>rc4_keystream key n\<close> is the \<open>n\<close>-th keystream octet RC4 produces after
    \<^verbatim>\<open>rc4_keysetup\<close> with \<open>key\<close>;
  \<^item> \<open>michael_mic key msg\<close> is the Michael MIC of \<open>msg\<close> under the 8-octet \<open>key\<close>
    (\<^verbatim>\<open>michael_init\<close>, \<^verbatim>\<open>michael_key\<close>, the \<^verbatim>\<open>michael_update\<close> calls over the
    pieces of \<open>msg\<close> in order, \<^verbatim>\<open>michael_final\<close>);
  \<^item> \<open>crc32_le_byte crc x\<close> is the CRC register after one more octet \<open>x\<close>.
\<close>

record primitives =
  rijndael_encrypt :: "byte list \<Rightarrow> byte list \<Rightarrow> byte list"
  rc4_keystream :: "byte list \<Rightarrow> nat \<Rightarrow> byte"
  michael_mic :: "byte list \<Rightarrow> byte list \<Rightarrow> byte list"
  crc32_le_byte :: "u32b \<Rightarrow> byte \<Rightarrow> u32b"

text \<open>
  Build options and globals: \<^verbatim>\<open>CONFIG_IEEE80211_BUFSIZE\<close>, whether
  \<^verbatim>\<open>CONFIG_IEEE80211_AP\<close> is defined, and the clock rate \<^verbatim>\<open>hz\<close>, an \<^verbatim>\<open>int\<close>
  like the clock counter \<^verbatim>\<open>ticks\<close> it is used with.
\<close>

record config =
  CONFIG_IEEE80211_BUFSIZE :: nat
  CONFIG_IEEE80211_AP :: bool
  hz :: s32b

text \<open>The RC4 context: the key it was set up with and the keystream position.\<close>

record rc4_ctx =
  rc4_key :: "byte list"
  rc4_pos :: nat

text \<open>
  \<^verbatim>\<open>struct ieee80211_tkip_ctx\<close>. \<^verbatim>\<open>txmic\<close> and \<^verbatim>\<open>rxmic\<close> point into
  \<^verbatim>\<open>k_key\<close>; the model keeps the offset.
\<close>

record ieee80211_tkip_ctx =
  rc4 :: rc4_ctx
  txmic :: nat
  rxmic :: nat
  txttak :: "u16b list"
  rxttak :: "u16b list"
  txttak_ok :: byte
  rxttak_ok :: byte

text \<open>\<^verbatim>\<open>struct ieee80211_ccmp_ctx\<close>: the AES key schedule, kept as the 128-bit key.\<close>

record ieee80211_ccmp_ctx =
  rijndael :: "byte list"

datatype priv_ctx = CCMP_ctx ieee80211_ccmp_ctx | TKIP_ctx ieee80211_tkip_ctx

text \<open>
  \<^verbatim>\<open>struct ieee80211_key\<close>, the fields the two ciphers use. \<^verbatim>\<open>k_rsc\<close> is the array
  of per-TID receive counters, indexed by a TID below 16; \<^verbatim>\<open>k_priv\<close> is \<open>None\<close> for
  a null pointer.
\<close>

record ieee80211_key =
  k_id :: u16b
  k_key :: "byte list"
  k_tsc :: u64
  k_rsc :: "nat \<Rightarrow> u64"
  k_mgmt_rsc :: u64
  k_priv :: "priv_ctx option"

datatype ieee80211_opmode =
  IEEE80211_M_STA | IEEE80211_M_IBSS | IEEE80211_M_AHDEMO | IEEE80211_M_HOSTAP | IEEE80211_M_MONITOR

datatype ieee80211_cipher =
  IEEE80211_CIPHER_NONE | IEEE80211_CIPHER_USEGROUP | IEEE80211_CIPHER_WEP40
  | IEEE80211_CIPHER_TKIP | IEEE80211_CIPHER_CCMP | IEEE80211_CIPHER_WEP104

datatype ieee80211_node_state =
  IEEE80211_STA_CACHE | IEEE80211_STA_BSS | IEEE80211_STA_AUTH | IEEE80211_STA_ASSOC
  | IEEE80211_STA_COLLECT

record ieee80211_node =
  ni_macaddr :: "byte list"
  ni_state :: ieee80211_node_state
  ni_rsncipher :: ieee80211_cipher
  ni_rsngroupcipher :: ieee80211_cipher

text \<open>
  What the countermeasures code asks of the rest of the stack, in the order of the
  calls: \<^verbatim>\<open>IEEE80211_SEND_MGMT\<close> of a deauthentication with reason MIC failure,
  \<^verbatim>\<open>ieee80211_node_leave\<close>, \<^verbatim>\<open>ieee80211_send_eapol_key_req\<close> with a TSC, and
  \<^verbatim>\<open>ieee80211_new_state\<close> to the scan state.
\<close>

datatype action =
  Send_deauth_mic_failure ieee80211_node
  | Node_leave ieee80211_node
  | Send_eapol_key_req ieee80211_node u64
  | New_state_scan

text \<open>
  \<^verbatim>\<open>struct ieee80211_s\<close>, the fields the TKIP code uses; \<open>ic_nodes\<close> is the node table
  \<^verbatim>\<open>ieee80211_iterate_nodes\<close> walks, \<open>ic_calls\<close> the requests made so far.
  \<open>ic_tkip_micfail\<close> holds a value of \<^verbatim>\<open>ticks\<close> and is an \<^verbatim>\<open>int\<close> like it.
\<close>

record ieee80211_s =
  ic_opmode :: ieee80211_opmode
  ic_flags :: u32b
  ic_bss :: ieee80211_node
  ic_nodes :: "ieee80211_node list"
  ic_tkip_micfail :: s32b
  ic_tkip_micfail_last_tsc :: u64
  ic_calls :: "action list"

subsection \<open>Key installation\<close>

datatype errno = ENOMEM

text \<open>
  \<^verbatim>\<open>ieee80211_tkip_set_key\<close>. \<open>mem\<close> is what \<^verbatim>\<open>kmalloc\<close> returns: \<open>None\<close> for a
  null pointer, otherwise the block with whatever it holds (the function writes the two
  Michael key pointers only).
\<close>

definition ieee80211_tkip_set_key ::
  "config \<Rightarrow> ieee80211_tkip_ctx option \<Rightarrow> ieee80211_s \<Rightarrow> ieee80211_key \<Rightarrow> errno + ieee80211_key" where
  "ieee80211_tkip_set_key cfg mem ic k =
     (case mem of
        None \<Rightarrow> Inl ENOMEM
      | Some ctx \<Rightarrow>
          (let ctx' =
             (if CONFIG_IEEE80211_AP cfg \<and> ic_opmode ic = IEEE80211_M_HOSTAP
              then ctx\<lparr>txmic := 16, rxmic := 24\<rparr>
              else ctx\<lparr>rxmic := 16, txmic := 24\<rparr>)
           in Inr (k\<lparr>k_priv := Some (TKIP_ctx ctx')\<rparr>)))"

text \<open>The Michael key a pointer of the context designates: eight octets of \<^verbatim>\<open>k_key\<close>.\<close>

definition michael_key_at :: "ieee80211_key \<Rightarrow> nat \<Rightarrow> byte list" where
  "michael_key_at k off = bytes_at (k_key k) off 8"

text \<open>\<^verbatim>\<open>ieee80211_ccmp_set_key\<close>: the key schedule is built from the first 128 bits.\<close>

definition ieee80211_ccmp_set_key ::
  "bool \<Rightarrow> ieee80211_s \<Rightarrow> ieee80211_key \<Rightarrow> errno + ieee80211_key" where
  "ieee80211_ccmp_set_key kmalloc_ok ic k =
     (if \<not> kmalloc_ok then Inl ENOMEM
      else Inr (k\<lparr>k_priv := Some (CCMP_ctx \<lparr>rijndael = take 16 (k_key k)\<rparr>)\<rparr>))"

subsection \<open>TKIP countermeasures\<close>

text \<open>\<^verbatim>\<open>ieee80211_tkip_deauth\<close>, the callback of the node iteration (HostAP builds).\<close>

definition ieee80211_tkip_deauth :: "ieee80211_s \<Rightarrow> ieee80211_node \<Rightarrow> ieee80211_s" where
  "ieee80211_tkip_deauth ic ni =
     (if ni_state ni = IEEE80211_STA_ASSOC \<and>
         (ni_rsngroupcipher (ic_bss ic) = IEEE80211_CIPHER_TKIP \<or>
          ni_rsncipher ni = IEEE80211_CIPHER_TKIP)
      then ic\<lparr>ic_calls := ic_calls ic @ [Send_deauth_mic_failure ni, Node_leave ni]\<rparr>
      else ic)"

text \<open>
  \<^verbatim>\<open>ieee80211_michael_mic_failure\<close>; \<open>ticks\<close> is the value of the global clock
  counter (\<^verbatim>\<open>extern int ticks\<close>) at the call. The test
  \<^verbatim>\<open>ticks - (ic->ic_tkip_micfail + 60 * hz) >= 0\<close> is evaluated in \<^verbatim>\<open>int\<close>: the sum and
  the difference wrap around at 32 bits and the result is read as a signed number. The
  \<^verbatim>\<open>case IEEE80211_M_HOSTAP\<close> exists only when \<^verbatim>\<open>CONFIG_IEEE80211_AP\<close> is defined.
\<close>

definition ieee80211_michael_mic_failure ::
  "config \<Rightarrow> s32b \<Rightarrow> ieee80211_s \<Rightarrow> u64 \<Rightarrow> ieee80211_s" where
  "ieee80211_michael_mic_failure cfg ticks ic tsc =
     (if ic_flags ic AND IEEE80211_F_COUNTERM \<noteq> 0 then ic
      else if ic_tkip_micfail ic = 0 \<or> 0 \<le> sint (ticks - (ic_tkip_micfail ic + 60 * hz cfg))
      then ic\<lparr>ic_tkip_micfail := ticks, ic_tkip_micfail_last_tsc := tsc\<rparr>
      else
        (let ic1 =
           (if CONFIG_IEEE80211_AP cfg \<and> ic_opmode ic = IEEE80211_M_HOSTAP
            then foldl ieee80211_tkip_deauth
                   (ic\<lparr>ic_flags := ic_flags ic OR IEEE80211_F_COUNTERM\<rparr>) (ic_nodes ic)
            else if ic_opmode ic = IEEE80211_M_STA
            then ic\<lparr>ic_calls := ic_calls ic @
                   [Send_eapol_key_req (ic_bss ic) (ic_tkip_micfail_last_tsc ic),
                    Send_eapol_key_req (ic_bss ic) tsc,
                    Send_deauth_mic_failure (ic_bss ic),
                    New_state_scan]\<rparr>
            else ic)
         in ic1\<lparr>ic_tkip_micfail := ticks, ic_tkip_micfail_last_tsc := tsc\<rparr>))"

subsection \<open>CCMP: nonce and additional authenticated data\<close>

text \<open>
  The octets \<^verbatim>\<open>ieee80211_ccmp_phase1\<close> writes through \<^verbatim>\<open>aad\<close>, starting at
  \<^verbatim>\<open>auth[2]\<close>; their number is \<^verbatim>\<open>la\<close>.
\<close>

definition ccmp_tid :: "byte list \<Rightarrow> byte" where
  "ccmp_tid wh =
     (if ieee80211_has_qos wh then ucast (ieee80211_get_qos wh AND IEEE80211_QOS_TID) else 0)"

definition ccmp_aad :: "byte list \<Rightarrow> byte list" where
  "ccmp_aad wh =
     [if (i_fc0 wh AND IEEE80211_FC0_TYPE_MASK) = IEEE80211_FC0_TYPE_DATA
      then i_fc0 wh AND NOT IEEE80211_FC0_SUBTYPE_MASK else i_fc0 wh,
      if ieee80211_has_htc wh
      then (i_fc1 wh AND NOT (IEEE80211_FC1_RETRY OR IEEE80211_FC1_PWR_MGT OR IEEE80211_FC1_MORE_DATA))
             AND NOT IEEE80211_FC1_ORDER
      else i_fc1 wh AND NOT (IEEE80211_FC1_RETRY OR IEEE80211_FC1_PWR_MGT OR IEEE80211_FC1_MORE_DATA)]
     @ i_addr1 wh @ i_addr2 wh @ i_addr3 wh
     @ [i_seq0 wh AND NOT 0xf0, 0]
     @ (if ieee80211_has_addr4 wh then i_addr4 wh else [])
     @ (if ieee80211_has_qos wh then [ccmp_tid wh, 0] else [])"

text \<open>
  The 32 octets of \<^verbatim>\<open>auth\<close>: \<^verbatim>\<open>la\<close> big-endian, the AAD, and the
  \<^verbatim>\<open>memset(aad, 0, 30 - la)\<close>.
\<close>

definition ccmp_auth :: "byte list \<Rightarrow> byte list" where
  "ccmp_auth wh =
     (let aad = ccmp_aad wh; la = length aad
      in [of_nat (la div 256), of_nat (la mod 256)] @ aad @ replicate (30 - la) 0)"

definition ccmp_nonce :: "byte list \<Rightarrow> u64 \<Rightarrow> byte list" where
  "ccmp_nonce wh pn =
     [if (i_fc0 wh AND IEEE80211_FC0_TYPE_MASK) = IEEE80211_FC0_TYPE_MGT
      then ccmp_tid wh OR push_bit 4 1 else ccmp_tid wh]
     @ i_addr2 wh
     @ [ucast (drop_bit 40 pn), ucast (drop_bit 32 pn), ucast (drop_bit 24 pn),
        ucast (drop_bit 16 pn), ucast (drop_bit 8 pn), ucast pn]"

text \<open>\<^verbatim>\<open>for (i = 0; i < 16; i++) b[i] ^= x[i]\<close>.\<close>

definition xor16 :: "byte list \<Rightarrow> byte list \<Rightarrow> byte list" where
  "xor16 b x = map (\<lambda>i. b ! i XOR x ! i) [0 ..< 16]"

text \<open>
  \<^verbatim>\<open>ieee80211_ccmp_phase1\<close>: the CBC-MAC state \<open>b\<close> after \<open>B_0\<close> and the two
  authentication blocks, the counter block \<open>a\<close>, and \<open>S_0\<close>. \<open>lm\<close> is the length of the
  frame body, a C \<^verbatim>\<open>int\<close>: \<^verbatim>\<open>lm >> 8\<close> and \<^verbatim>\<open>lm & 0xff\<close> stored into octets.
\<close>

definition ieee80211_ccmp_phase1 ::
  "primitives \<Rightarrow> byte list \<Rightarrow> byte list \<Rightarrow> u64 \<Rightarrow> int \<Rightarrow> byte list \<times> byte list \<times> byte list" where
  "ieee80211_ccmp_phase1 P ctx wh pn lm =
     (let auth = ccmp_auth wh;
          nonce = ccmp_nonce wh pn;
          b0 = rijndael_encrypt P ctx ([89] @ nonce @ [of_int (lm div 256), of_int (lm mod 256)]);
          b1 = rijndael_encrypt P ctx (xor16 b0 (take 16 auth));
          b2 = rijndael_encrypt P ctx (xor16 b1 (drop 16 auth));
          a = [1] @ nonce @ [0, 0];
          s0 = rijndael_encrypt P ctx a
      in (b2, a, s0))"


subsection \<open>Buffer chains\<close>

text \<open>
  \<^verbatim>\<open>struct iob_s\<close>: the filled length and the data area of one buffer. A chain is its
  head buffer, the packet length the head carries, and the buffers reached through
  \<^verbatim>\<open>io_flink\<close>.
\<close>

record iob_s =
  io_len :: nat
  io_data :: "byte list"

record iob_chain =
  io_pktlen :: nat
  io_head :: iob_s
  io_flink :: "iob_s list"

definition chain_iobs :: "iob_chain \<Rightarrow> iob_s list" where
  "chain_iobs m = io_head m # io_flink m"

definition mk_chain :: "nat \<Rightarrow> iob_s list \<Rightarrow> iob_chain" where
  "mk_chain pktlen iobs = \<lparr>io_pktlen = pktlen, io_head = hd iobs, io_flink = tl iobs\<rparr>"

text \<open>The filled octets of a buffer, and of a list of buffers in chain order.\<close>

definition iob_bytes :: "iob_s \<Rightarrow> byte list" where
  "iob_bytes b = take (io_len b) (io_data b)"

definition iobs_bytes :: "iob_s list \<Rightarrow> byte list" where
  "iobs_bytes bs = concat (map iob_bytes bs)"

definition chain_bytes :: "iob_chain \<Rightarrow> byte list" where
  "chain_bytes m = iobs_bytes (chain_iobs m)"

text \<open>\<open>store d off xs\<close>: the data area \<open>d\<close> after the octets \<open>xs\<close> are written at \<open>off\<close>.\<close>

definition store :: "byte list \<Rightarrow> nat \<Rightarrow> byte list \<Rightarrow> byte list" where
  "store d off xs = take off d @ xs @ drop (off + length xs) d"

text \<open>
  Modelled from the spec: the buffer-chain primitives are a dependency (section 6:
  \<^verbatim>\<open>alloc() -> segment | absent\<close>, \<^verbatim>\<open>clone(dst, src)\<close> a shape clone, not data,
  \<^verbatim>\<open>copyout(dst, chain, offset, len)\<close>). Within one operation the \<open>n\<close>-th call of
  \<^verbatim>\<open>iob_alloc\<close> returns a buffer iff \<open>alloc_ok env n\<close>, and \<^verbatim>\<open>iob_clone\<close> succeeds
  (copying the packet length) iff \<open>clone_ok env\<close>; \<open>ticks env\<close> is the global clock
  counter \<^verbatim>\<open>ticks\<close> at the call. A new buffer has length 0 and a data
  area of \<^verbatim>\<open>CONFIG_IEEE80211_BUFSIZE\<close> octets; its contents are indeterminate in C and
  zero here. \<^verbatim>\<open>IOB_FREESPACE\<close> is the data area less the filled length.
\<close>

record environment =
  alloc_ok :: "nat \<Rightarrow> bool"
  clone_ok :: bool
  ticks :: s32b

definition iob_fresh :: "config \<Rightarrow> byte list" where
  "iob_fresh cfg = replicate (CONFIG_IEEE80211_BUFSIZE cfg) 0"

definition IOB_FREESPACE :: "config \<Rightarrow> iob_s \<Rightarrow> nat" where
  "IOB_FREESPACE cfg b = CONFIG_IEEE80211_BUFSIZE cfg - io_len b"

definition iob_copyout :: "iob_s list \<Rightarrow> nat \<Rightarrow> nat \<Rightarrow> byte list" where
  "iob_copyout iobs off len = take len (drop off (iobs_bytes iobs))"

text \<open>
  How a call ends without a frame. Every constructor but \<open>Fault\<close> is a \<^verbatim>\<open>return NULL\<close>
  of the source; \<open>Fault\<close> stands for the places where the C code has no defined
  behaviour (a null \<^verbatim>\<open>io_flink\<close> or \<^verbatim>\<open>k_priv\<close> followed, a negative length, a write
  past a data area).
\<close>

datatype fail =
  Nospace | Too_short | No_extiv | Replay | Bad_mic | Bad_icv | Michael_failure | Fault

subsection \<open>The loop over the frame body\<close>

text \<open>
  The four functions share one loop, \<^verbatim>\<open>while (left > 0)\<close>, that walks the source chain
  (\<^verbatim>\<open>iob\<close>, \<^verbatim>\<open>moff\<close>) and the output chain (\<^verbatim>\<open>next\<close>, \<^verbatim>\<open>noff\<close>); they differ in
  what is done with the \<^verbatim>\<open>len\<close> octets of each round, the parameter \<open>crypt\<close> here.
  \<open>ls_iob\<close> is \<^verbatim>\<open>iob\<close> with its successors (\<open>[]\<close> for a null pointer), \<open>ls_done\<close> the
  output buffers before \<^verbatim>\<open>next\<close>, \<open>ls_nalloc\<close> the number of \<^verbatim>\<open>iob_alloc\<close> calls so
  far, \<open>ls_cipher\<close> the cipher's running state.

  The loop has no bound of its own: the result is \<open>None\<close> when it never ends.
\<close>

record 'c loop_state =
  ls_iob :: "iob_s list"
  ls_moff :: nat
  ls_done :: "iob_s list"
  ls_next :: iob_s
  ls_noff :: nat
  ls_left :: nat
  ls_nalloc :: nat
  ls_cipher :: 'c

partial_function (option) body_loop ::
  "('c \<Rightarrow> byte list \<Rightarrow> 'c \<times> byte list) \<Rightarrow> config \<Rightarrow> environment \<Rightarrow> 'c loop_state
     \<Rightarrow> (fail option \<times> 'c loop_state) option" where
  "body_loop crypt cfg env st =
     (if \<not> 0 < ls_left st then Some (None, st)
      else case ls_iob st of
        [] \<Rightarrow> Some (Some Fault, st)
      | iob # flink \<Rightarrow>
          let st1 = (if ls_moff st = io_len iob
                     then st\<lparr>ls_iob := flink, ls_moff := 0\<rparr> else st)
          in if ls_noff st1 = io_len (ls_next st1) \<and> \<not> alloc_ok env (ls_nalloc st1)
             then Some (Some Nospace, st1\<lparr>ls_nalloc := Suc (ls_nalloc st1)\<rparr>)
             else
               let st2 = (if ls_noff st1 = io_len (ls_next st1)
                          then st1\<lparr>ls_done := ls_done st1 @ [ls_next st1],
                                  ls_next := \<lparr>io_len = (if 0 > ls_left st1 then ls_left st1 else 0),
                                              io_data = iob_fresh cfg\<rparr>,
                                  ls_noff := 0,
                                  ls_nalloc := Suc (ls_nalloc st1)\<rparr>
                          else st1)
               in case ls_iob st2 of
                    [] \<Rightarrow> Some (Some Fault, st2)
                  | cur # rest \<Rightarrow>
                      if io_len cur < ls_moff st2 \<or> io_len (ls_next st2) < ls_noff st2
                      then Some (Some Fault, st2)
                      else
                        let len = min (io_len cur - ls_moff st2) (io_len (ls_next st2) - ls_noff st2);
                            r = crypt (ls_cipher st2) (take len (drop (ls_moff st2) (io_data cur)))
                        in body_loop crypt cfg env
                             (st2\<lparr>ls_next := (ls_next st2)\<lparr>io_data :=
                                       store (io_data (ls_next st2)) (ls_noff st2) (snd r)\<rparr>,
                                   ls_moff := ls_moff st2 + len,
                                   ls_noff := ls_noff st2 + len,
                                   ls_left := ls_left st2 - len,
                                   ls_cipher := fst r\<rparr>))"

declare body_loop.simps [code]

subsection \<open>CCMP encapsulation and decapsulation\<close>

text \<open>
  The running state of CCM over the frame body: the CBC-MAC block \<open>b\<close>, the counter
  block \<open>a\<close>, the key-stream block \<open>s\<close>, the 16-bit counter and the position \<open>j\<close> in the
  current block.
\<close>

record ccm_state =
  ccm_b :: "byte list"
  ccm_a :: "byte list"
  ccm_s :: "byte list"
  ccm_ctr :: u16b
  ccm_j :: nat

text \<open>The counter block with \<^verbatim>\<open>a[14] = ctr >> 8; a[15] = ctr & 0xff\<close>.\<close>

definition ccm_set_ctr :: "byte list \<Rightarrow> u16b \<Rightarrow> byte list" where
  "ccm_set_ctr a ctr = a[14 := ucast (drop_bit 8 ctr), 15 := ucast (ctr AND 0xff)]"

text \<open>The end of a round of the inner \<^verbatim>\<open>for\<close> loop: \<^verbatim>\<open>if (++j < 16) continue;\<close> and the
  block update that follows.\<close>

definition ccm_advance :: "primitives \<Rightarrow> byte list \<Rightarrow> ccm_state \<Rightarrow> ccm_state" where
  "ccm_advance P ctx c =
     (if ccm_j c + 1 < 16 then c\<lparr>ccm_j := ccm_j c + 1\<rparr>
      else
        (let ctr = ccm_ctr c + 1;
             a = ccm_set_ctr (ccm_a c) ctr
         in c\<lparr>ccm_b := rijndael_encrypt P ctx (ccm_b c),
              ccm_a := a,
              ccm_s := rijndael_encrypt P ctx a,
              ccm_ctr := ctr,
              ccm_j := 0\<rparr>))"

definition ccm_encrypt_byte :: "primitives \<Rightarrow> byte list \<Rightarrow> ccm_state \<Rightarrow> byte \<Rightarrow> ccm_state \<times> byte" where
  "ccm_encrypt_byte P ctx c x =
     (let j = ccm_j c
      in (ccm_advance P ctx (c\<lparr>ccm_b := (ccm_b c)[j := ccm_b c ! j XOR x]\<rparr>),
          x XOR ccm_s c ! j))"

definition ccm_decrypt_byte :: "primitives \<Rightarrow> byte list \<Rightarrow> ccm_state \<Rightarrow> byte \<Rightarrow> ccm_state \<times> byte" where
  "ccm_decrypt_byte P ctx c x =
     (let j = ccm_j c;
          y = x XOR ccm_s c ! j
      in (ccm_advance P ctx (c\<lparr>ccm_b := (ccm_b c)[j := ccm_b c ! j XOR y]\<rparr>), y))"

text \<open>A run of octets through a byte-wise cipher step, as \<^verbatim>\<open>for (i = 0; i < len; i++)\<close>.\<close>

fun crypt_bytes :: "('c \<Rightarrow> byte \<Rightarrow> 'c \<times> byte) \<Rightarrow> 'c \<Rightarrow> byte list \<Rightarrow> 'c \<times> byte list" where
  "crypt_bytes f c [] = (c, [])"
| "crypt_bytes f c (x # xs) =
     (let r = f c x; rs = crypt_bytes f (fst r) xs
      in (fst rs, snd r # snd rs))"

text \<open>The first output buffer: \<^verbatim>\<open>io_len = CONFIG_IEEE80211_BUFSIZE\<close>, clamped to the
  packet length.\<close>

definition first_len :: "config \<Rightarrow> nat \<Rightarrow> nat" where
  "first_len cfg pktlen =
     (if CONFIG_IEEE80211_BUFSIZE cfg > pktlen then pktlen else CONFIG_IEEE80211_BUFSIZE cfg)"

text \<open>The start of the CCM body loop: \<open>S_1\<close> and \<open>j = 0\<close>.\<close>

definition ccm_start :: "primitives \<Rightarrow> byte list \<Rightarrow> byte list \<times> byte list \<times> byte list \<Rightarrow> ccm_state" where
  "ccm_start P ctx bas =
     (let a1 = ccm_set_ctr (fst (snd bas)) 1
      in \<lparr>ccm_b = fst bas, ccm_a = a1, ccm_s = rijndael_encrypt P ctx a1, ccm_ctr = 1, ccm_j = 0\<rparr>)"

text \<open>\<^verbatim>\<open>if (j != 0) rijndael_encrypt(b, b)\<close>, then the first eight octets of \<open>b XOR S_0\<close>.\<close>

definition ccm_mic :: "primitives \<Rightarrow> byte list \<Rightarrow> ccm_state \<Rightarrow> byte list \<Rightarrow> byte list" where
  "ccm_mic P ctx c s0 =
     (let b = (if ccm_j c \<noteq> 0 then rijndael_encrypt P ctx (ccm_b c) else ccm_b c)
      in map (\<lambda>i. b ! i XOR s0 ! i) [0 ..< IEEE80211_CCMP_MICLEN])"

text \<open>The eight octets of the CCMP header for the packet number and key id.\<close>

definition ccmp_ivp :: "u64 \<Rightarrow> u16b \<Rightarrow> byte list" where
  "ccmp_ivp tsc kid =
     [ucast tsc, ucast (drop_bit 8 tsc), 0,
      ucast (push_bit 6 kid) OR IEEE80211_WEP_EXTIV,
      ucast (drop_bit 16 tsc), ucast (drop_bit 24 tsc),
      ucast (drop_bit 32 tsc), ucast (drop_bit 40 tsc)]"

text \<open>
  The state in which \<^verbatim>\<open>ieee80211_ccmp_encrypt\<close> enters the body loop: the first
  output buffer holds the 802.11 header and the CCMP header; \<open>k1\<close> is the key after
  the increment of the packet number.
\<close>

definition ccmp_encrypt_init ::
  "primitives \<Rightarrow> config \<Rightarrow> iob_chain \<Rightarrow> ieee80211_key \<Rightarrow> byte list \<Rightarrow> ccm_state loop_state" where
  "ccmp_encrypt_init P cfg iob0 k1 ctx =
     (let wh = io_data (io_head iob0);
          hdrlen = ieee80211_get_hdrlen wh;
          d = store (store (iob_fresh cfg) 0 (bytes_at wh 0 hdrlen)) hdrlen
                (ccmp_ivp (k_tsc k1) (k_id k1));
          bas = ieee80211_ccmp_phase1 P ctx wh (k_tsc k1) (int (io_pktlen iob0) - int hdrlen)
      in \<lparr>ls_iob = chain_iobs iob0, ls_moff = hdrlen, ls_done = [],
          ls_next = \<lparr>io_len = first_len cfg (io_pktlen iob0 + IEEE80211_CCMP_HDRLEN),
                      io_data = d\<rparr>,
          ls_noff = hdrlen + IEEE80211_CCMP_HDRLEN,
          ls_left = io_pktlen iob0 - hdrlen,
          ls_nalloc = 1,
          ls_cipher = ccm_start P ctx bas\<rparr>)"

text \<open>
  The end of \<^verbatim>\<open>ieee80211_ccmp_encrypt\<close>, from \<^verbatim>\<open>/* Reserve trailing space for MIC */\<close>
  on: \<open>st\<close> is the state the body loop ended in, \<open>s0\<close> the block \<open>S_0\<close>, \<open>pktlen\<close> the
  packet length of the output chain so far.
\<close>

definition ccmp_encrypt_tail ::
  "primitives \<Rightarrow> config \<Rightarrow> environment \<Rightarrow> byte list \<Rightarrow> byte list \<Rightarrow> nat
     \<Rightarrow> ccm_state loop_state \<Rightarrow> fail + iob_chain" where
  "ccmp_encrypt_tail P cfg env ctx s0 pktlen st =
     (if IOB_FREESPACE cfg (ls_next st) < IEEE80211_CCMP_MICLEN \<and> \<not> alloc_ok env (ls_nalloc st)
      then Inl Nospace
      else
        let st' = (if IOB_FREESPACE cfg (ls_next st) < IEEE80211_CCMP_MICLEN
                   then st\<lparr>ls_done := ls_done st @ [ls_next st],
                           ls_next := \<lparr>io_len = 0, io_data = iob_fresh cfg\<rparr>\<rparr>
                   else st);
            mic = ccm_mic P ctx (ls_cipher st') s0;
            next = (ls_next st')\<lparr>
              io_data := store (io_data (ls_next st')) (io_len (ls_next st')) mic,
              io_len := io_len (ls_next st') + IEEE80211_CCMP_MICLEN\<rparr>
        in Inr (mk_chain (pktlen + IEEE80211_CCMP_MICLEN) (ls_done st' @ [next])))"

text \<open>
  \<^verbatim>\<open>ieee80211_ccmp_encrypt\<close>. The result is \<open>None\<close> when the call does not return;
  otherwise the frame chain or the reason for its absence, and the key record as the
  call leaves it.
\<close>

definition ieee80211_ccmp_encrypt ::
  "primitives \<Rightarrow> config \<Rightarrow> environment \<Rightarrow> iob_chain \<Rightarrow> ieee80211_key
     \<Rightarrow> ((fail + iob_chain) \<times> ieee80211_key) option" where
  "ieee80211_ccmp_encrypt P cfg env iob0 k =
     (case k_priv k of
        Some (CCMP_ctx ctx) \<Rightarrow>
          if \<not> alloc_ok env 0 then Some (Inl Nospace, k)
          else if \<not> clone_ok env then Some (Inl Nospace, k)
          else if CONFIG_IEEE80211_BUFSIZE cfg <
                    ieee80211_get_hdrlen (io_data (io_head iob0)) + IEEE80211_CCMP_HDRLEN
          then Some (Inl Fault, k)
          else
            let k1 = k\<lparr>k_tsc := k_tsc k + 1\<rparr>;
                s0 = snd (snd (ieee80211_ccmp_phase1 P (rijndael ctx) (io_data (io_head iob0))
                       (k_tsc k1)
                       (int (io_pktlen iob0) - int (ieee80211_get_hdrlen (io_data (io_head iob0))))))
            in case body_loop (crypt_bytes (ccm_encrypt_byte P (rijndael ctx))) cfg env
                      (ccmp_encrypt_init P cfg iob0 k1 (rijndael ctx)) of
                 None \<Rightarrow> None
               | Some (Some e, st) \<Rightarrow> Some (Inl e, k1)
               | Some (None, st) \<Rightarrow>
                   Some (ccmp_encrypt_tail P cfg env (rijndael ctx) s0
                           (io_pktlen iob0 + IEEE80211_CCMP_HDRLEN) st, k1)
      | _ \<Rightarrow> Some (Inl Fault, k))"

text \<open>The 48-bit packet number in a CCMP header.\<close>

definition ccmp_pn :: "byte list \<Rightarrow> u64" where
  "ccmp_pn ivp =
     ucast (ivp ! 0) OR push_bit 8 (ucast (ivp ! 1)) OR push_bit 16 (ucast (ivp ! 4))
     OR push_bit 24 (ucast (ivp ! 5)) OR push_bit 32 (ucast (ivp ! 6))
     OR push_bit 40 (ucast (ivp ! 7))"

text \<open>The TID of a frame: the low four bits of the QoS control field, 0 without one.\<close>

definition frame_tid :: "byte list \<Rightarrow> nat" where
  "frame_tid wh =
     (if ieee80211_has_qos wh then unat (ieee80211_get_qos wh AND IEEE80211_QOS_TID) else 0)"

text \<open>The receive counter \<^verbatim>\<open>prsc\<close> points to in \<^verbatim>\<open>ieee80211_ccmp_decrypt\<close>, read and written.\<close>

definition ccmp_is_data :: "byte list \<Rightarrow> bool" where
  "ccmp_is_data wh \<longleftrightarrow> (i_fc0 wh AND IEEE80211_FC0_TYPE_MASK) = IEEE80211_FC0_TYPE_DATA"

definition ccmp_prsc :: "ieee80211_key \<Rightarrow> byte list \<Rightarrow> u64" where
  "ccmp_prsc k wh = (if ccmp_is_data wh then k_rsc k (frame_tid wh) else k_mgmt_rsc k)"

definition ccmp_prsc_update :: "ieee80211_key \<Rightarrow> byte list \<Rightarrow> u64 \<Rightarrow> ieee80211_key" where
  "ccmp_prsc_update k wh pn =
     (if ccmp_is_data wh then k\<lparr>k_rsc := (k_rsc k)(frame_tid wh := pn)\<rparr>
      else k\<lparr>k_mgmt_rsc := pn\<rparr>)"

text \<open>
  The state in which \<^verbatim>\<open>ieee80211_ccmp_decrypt\<close> enters the body loop: the first
  output buffer holds the 802.11 header with the PROTECTED bit cleared; \<open>pktlen\<close> is the
  packet length of the output chain, \<open>pn\<close> the received packet number.
\<close>

definition ccmp_decrypt_init ::
  "primitives \<Rightarrow> config \<Rightarrow> iob_chain \<Rightarrow> byte list \<Rightarrow> u64 \<Rightarrow> nat \<Rightarrow> ccm_state loop_state" where
  "ccmp_decrypt_init P cfg iob0 ctx pn pktlen =
     (let wh = io_data (io_head iob0);
          hdrlen = ieee80211_get_hdrlen wh;
          bas = ieee80211_ccmp_phase1 P ctx wh pn (int pktlen - int hdrlen);
          d0 = store (iob_fresh cfg) 0 (bytes_at wh 0 hdrlen);
          d = d0[1 := d0 ! 1 AND NOT IEEE80211_FC1_PROTECTED]
      in \<lparr>ls_iob = chain_iobs iob0,
          ls_moff = hdrlen + IEEE80211_CCMP_HDRLEN, ls_done = [],
          ls_next = \<lparr>io_len = first_len cfg pktlen, io_data = d\<rparr>,
          ls_noff = hdrlen,
          ls_left = pktlen - hdrlen,
          ls_nalloc = 1,
          ls_cipher = ccm_start P ctx bas\<rparr>)"

text \<open>The packet number in the CCMP header of the frame \<^verbatim>\<open>iob0\<close>.\<close>

definition ccmp_frame_pn :: "iob_chain \<Rightarrow> u64" where
  "ccmp_frame_pn iob0 =
     ccmp_pn (bytes_at (io_data (io_head iob0)) (ieee80211_get_hdrlen (io_data (io_head iob0)))
                IEEE80211_CCMP_HDRLEN)"

text \<open>\<^verbatim>\<open>ieee80211_ccmp_decrypt\<close>.\<close>

definition ieee80211_ccmp_decrypt ::
  "primitives \<Rightarrow> config \<Rightarrow> environment \<Rightarrow> iob_chain \<Rightarrow> ieee80211_key
     \<Rightarrow> ((fail + iob_chain) \<times> ieee80211_key) option" where
  "ieee80211_ccmp_decrypt P cfg env iob0 k =
     (case k_priv k of
        Some (CCMP_ctx ctx) \<Rightarrow>
          let wh = io_data (io_head iob0);
              hdrlen = ieee80211_get_hdrlen wh;
              ivp = bytes_at wh hdrlen IEEE80211_CCMP_HDRLEN;
              pn = ccmp_frame_pn iob0;
              pktlen = io_pktlen iob0 - (IEEE80211_CCMP_HDRLEN + IEEE80211_CCMP_MICLEN)
          in if io_pktlen iob0 < hdrlen + IEEE80211_CCMP_HDRLEN + IEEE80211_CCMP_MICLEN
             then Some (Inl Too_short, k)
             else if ivp ! 3 AND IEEE80211_WEP_EXTIV = 0 then Some (Inl No_extiv, k)
             else if pn \<le> ccmp_prsc k wh then Some (Inl Replay, k)
             else if \<not> alloc_ok env 0 then Some (Inl Nospace, k)
             else if \<not> clone_ok env then Some (Inl Nospace, k)
             else if CONFIG_IEEE80211_BUFSIZE cfg < hdrlen then Some (Inl Fault, k)
             else
               case body_loop (crypt_bytes (ccm_decrypt_byte P (rijndael ctx))) cfg env
                      (ccmp_decrypt_init P cfg iob0 (rijndael ctx) pn pktlen) of
                 None \<Rightarrow> None
               | Some (Some e, st) \<Rightarrow> Some (Inl e, k)
               | Some (None, st) \<Rightarrow>
                   if iob_copyout (ls_iob st) (ls_moff st) IEEE80211_CCMP_MICLEN
                      \<noteq> ccm_mic P (rijndael ctx) (ls_cipher st)
                           (snd (snd (ieee80211_ccmp_phase1 P (rijndael ctx) wh pn
                                        (int pktlen - int hdrlen))))
                   then Some (Inl Bad_mic, k)
                   else Some (Inr (mk_chain pktlen (ls_done st @ [ls_next st])),
                              ccmp_prsc_update k wh pn)
      | _ \<Rightarrow> Some (Inl Fault, k))"

subsection \<open>TKIP encapsulation and decapsulation\<close>

text \<open>
  Modelled from the spec: \<^verbatim>\<open>rc4_keysetup\<close>, \<^verbatim>\<open>rc4_crypt\<close> and
  \<^verbatim>\<open>ether_crc32_le_update\<close> are external primitives (section 1). RC4 is a stream
  cipher: an octet of the data is combined by XOR with the next octet of the key stream;
  the CRC is updated octet by octet.
\<close>

definition rc4_keysetup :: "byte list \<Rightarrow> nat \<Rightarrow> rc4_ctx" where
  "rc4_keysetup key len = \<lparr>rc4_key = take len key, rc4_pos = 0\<rparr>"

definition rc4_byte :: "primitives \<Rightarrow> rc4_ctx \<Rightarrow> byte \<Rightarrow> rc4_ctx \<times> byte" where
  "rc4_byte P c x =
     (c\<lparr>rc4_pos := rc4_pos c + 1\<rparr>, x XOR rc4_keystream P (rc4_key c) (rc4_pos c))"

definition rc4_crypt :: "primitives \<Rightarrow> rc4_ctx \<Rightarrow> byte list \<Rightarrow> rc4_ctx \<times> byte list" where
  "rc4_crypt P c src = crypt_bytes (rc4_byte P) c src"

definition ether_crc32_le_update :: "primitives \<Rightarrow> u32b \<Rightarrow> byte list \<Rightarrow> u32b" where
  "ether_crc32_le_update P crc buf = foldl (crc32_le_byte P) crc buf"

text \<open>A 32-bit word as four octets, least significant first, and back.\<close>

definition le32_bytes :: "u32b \<Rightarrow> byte list" where
  "le32_bytes w = [ucast w, ucast (drop_bit 8 w), ucast (drop_bit 16 w), ucast (drop_bit 24 w)]"

definition le32_word :: "byte list \<Rightarrow> u32b" where
  "le32_word bs =
     ucast (bs ! 0) OR push_bit 8 (ucast (bs ! 1)) OR push_bit 16 (ucast (bs ! 2))
     OR push_bit 24 (ucast (bs ! 3))"

text \<open>
  \<^verbatim>\<open>ieee80211_tkip_mic\<close>: the Michael MIC over the pseudo-header and the chain from
  \<open>off\<close> octets into its first buffer.
\<close>

definition ieee80211_tkip_mic :: "primitives \<Rightarrow> iob_chain \<Rightarrow> nat \<Rightarrow> byte list \<Rightarrow> byte list" where
  "ieee80211_tkip_mic P m0 off key =
     (let wh = io_data (io_head m0);
          dir = i_fc1 wh AND IEEE80211_FC1_DIR_MASK;
          da = (if dir = IEEE80211_FC1_DIR_NODS then i_addr1 wh
                else if dir = IEEE80211_FC1_DIR_TODS then i_addr3 wh
                else if dir = IEEE80211_FC1_DIR_FROMDS then i_addr1 wh
                else i_addr3 wh);
          sa = (if dir = IEEE80211_FC1_DIR_NODS then i_addr2 wh
                else if dir = IEEE80211_FC1_DIR_TODS then i_addr2 wh
                else if dir = IEEE80211_FC1_DIR_FROMDS then i_addr3 wh
                else i_addr4 wh);
          pri = (if ieee80211_has_qos wh
                 then ucast (ieee80211_get_qos wh AND IEEE80211_QOS_TID) else 0);
          wht = da @ sa @ [pri, 0, 0, 0];
          msg = wht @ drop off (iob_bytes (io_head m0)) @ iobs_bytes (io_flink m0);
          mic = michael_mic P key msg
      in map (\<lambda>i. mic ! i) [0 ..< IEEE80211_TKIP_MICLEN])"

text \<open>The eight octets of the TKIP header.\<close>

definition tkip_ivp :: "u64 \<Rightarrow> u16b \<Rightarrow> byte list" where
  "tkip_ivp tsc kid =
     [ucast (drop_bit 8 tsc),
      (ucast (drop_bit 8 tsc) OR 0x20) AND 0x7f,
      ucast tsc,
      ucast (push_bit 6 kid) OR IEEE80211_WEP_EXTIV,
      ucast (drop_bit 16 tsc), ucast (drop_bit 24 tsc),
      ucast (drop_bit 32 tsc), ucast (drop_bit 40 tsc)]"

text \<open>The 48-bit TSC in a TKIP header.\<close>

definition tkip_tsc :: "byte list \<Rightarrow> u64" where
  "tkip_tsc ivp =
     ucast (ivp ! 2) OR push_bit 8 (ucast (ivp ! 0)) OR push_bit 16 (ucast (ivp ! 4))
     OR push_bit 24 (ucast (ivp ! 5)) OR push_bit 32 (ucast (ivp ! 6))
     OR push_bit 40 (ucast (ivp ! 7))"

text \<open>What the body loop does with a run of octets: the RC4 context and the running CRC.\<close>

definition tkip_encrypt_chunk ::
  "primitives \<Rightarrow> rc4_ctx \<times> u32b \<Rightarrow> byte list \<Rightarrow> (rc4_ctx \<times> u32b) \<times> byte list" where
  "tkip_encrypt_chunk P c src =
     (let crc = ether_crc32_le_update P (snd c) src;
          r = rc4_crypt P (fst c) src
      in ((fst r, crc), snd r))"

definition tkip_decrypt_chunk ::
  "primitives \<Rightarrow> rc4_ctx \<times> u32b \<Rightarrow> byte list \<Rightarrow> (rc4_ctx \<times> u32b) \<times> byte list" where
  "tkip_decrypt_chunk P c src =
     (let r = rc4_crypt P (fst c) src;
          crc = ether_crc32_le_update P (snd c) (snd r)
      in ((fst r, crc), snd r))"

text \<open>The transmit side of \<^verbatim>\<open>/* compute WEP seed */\<close>: Phase1 when the cached TTAK is
  not valid or the low 16 bits of the TSC are zero.\<close>

definition tkip_tx_ttak :: "ieee80211_tkip_ctx \<Rightarrow> ieee80211_key \<Rightarrow> byte list \<Rightarrow> ieee80211_tkip_ctx" where
  "tkip_tx_ttak ctx k wh =
     (if txttak_ok ctx = 0 \<or> (k_tsc k AND 0xffff) = 0
      then ctx\<lparr>txttak := Phase1 (k_key k) (i_addr2 wh) (ucast (drop_bit 16 (k_tsc k))),
               txttak_ok := 1\<rparr>
      else ctx)"

text \<open>
  The state in which \<^verbatim>\<open>ieee80211_tkip_encrypt\<close> enters the body loop; \<open>k1\<close> is the
  key after the increment of the TSC, \<open>ctx1\<close> the context after the WEP seed step.
\<close>

definition tkip_encrypt_init ::
  "config \<Rightarrow> iob_chain \<Rightarrow> ieee80211_key \<Rightarrow> ieee80211_tkip_ctx \<Rightarrow> (rc4_ctx \<times> u32b) loop_state" where
  "tkip_encrypt_init cfg m0 k1 ctx1 =
     (let wh = io_data (io_head m0);
          hdrlen = ieee80211_get_hdrlen wh;
          d = store (store (iob_fresh cfg) 0 (bytes_at wh 0 hdrlen)) hdrlen
                (tkip_ivp (k_tsc k1) (k_id k1));
          wepseed = Phase2 (k_key k1) (txttak ctx1) (ucast (k_tsc k1 AND 0xffff))
      in \<lparr>ls_iob = chain_iobs m0, ls_moff = hdrlen, ls_done = [],
          ls_next = \<lparr>io_len = first_len cfg (io_pktlen m0 + IEEE80211_TKIP_HDRLEN),
                      io_data = d\<rparr>,
          ls_noff = hdrlen + IEEE80211_TKIP_HDRLEN,
          ls_left = io_pktlen m0 - hdrlen,
          ls_nalloc = 1,
          ls_cipher = (rc4_keysetup wepseed 16, NOT 0)\<rparr>)"

text \<open>
  The end of \<^verbatim>\<open>ieee80211_tkip_encrypt\<close>, from
  \<^verbatim>\<open>/* Reserve trailing space for TKIP MIC and WEP ICV */\<close> on. The result is the
  frame chain or the failure, and the RC4 context as the call leaves it.
\<close>

definition tkip_encrypt_tail ::
  "primitives \<Rightarrow> config \<Rightarrow> environment \<Rightarrow> iob_chain \<Rightarrow> byte list \<Rightarrow> nat
     \<Rightarrow> (rc4_ctx \<times> u32b) loop_state \<Rightarrow> (fail + iob_chain) \<times> rc4_ctx" where
  "tkip_encrypt_tail P cfg env m0 txkey pktlen st =
     (if IOB_FREESPACE cfg (ls_next st) < IEEE80211_TKIP_TAILLEN \<and> \<not> alloc_ok env (ls_nalloc st)
      then (Inl Nospace, fst (ls_cipher st))
      else
        let st' = (if IOB_FREESPACE cfg (ls_next st) < IEEE80211_TKIP_TAILLEN
                   then st\<lparr>ls_done := ls_done st @ [ls_next st],
                           ls_next := \<lparr>io_len = 0, io_data = iob_fresh cfg\<rparr>\<rparr>
                   else st);
            mic = ieee80211_tkip_mic P m0 (ieee80211_get_hdrlen (io_data (io_head m0))) txkey;
            crc = ether_crc32_le_update P (snd (ls_cipher st')) mic;
            r1 = rc4_crypt P (fst (ls_cipher st')) mic;
            next1 = (ls_next st')\<lparr>
              io_data := store (io_data (ls_next st')) (io_len (ls_next st')) (snd r1),
              io_len := io_len (ls_next st') + IEEE80211_TKIP_MICLEN\<rparr>;
            r2 = rc4_crypt P (fst r1) (le32_bytes (NOT crc));
            next2 = next1\<lparr>
              io_data := store (io_data next1) (io_len next1) (snd r2),
              io_len := io_len next1 + IEEE80211_WEP_CRCLEN\<rparr>
        in (Inr (mk_chain (pktlen + IEEE80211_TKIP_TAILLEN) (ls_done st' @ [next2])), fst r2))"

text \<open>\<^verbatim>\<open>ieee80211_tkip_encrypt\<close>.\<close>

definition ieee80211_tkip_encrypt ::
  "primitives \<Rightarrow> config \<Rightarrow> environment \<Rightarrow> iob_chain \<Rightarrow> ieee80211_key
     \<Rightarrow> ((fail + iob_chain) \<times> ieee80211_key) option" where
  "ieee80211_tkip_encrypt P cfg env m0 k =
     (case k_priv k of
        Some (TKIP_ctx ctx) \<Rightarrow>
          if \<not> alloc_ok env 0 then Some (Inl Nospace, k)
          else if \<not> clone_ok env then Some (Inl Nospace, k)
          else if CONFIG_IEEE80211_BUFSIZE cfg <
                    ieee80211_get_hdrlen (io_data (io_head m0)) + IEEE80211_TKIP_HDRLEN
          then Some (Inl Fault, k)
          else
            let k1 = k\<lparr>k_tsc := k_tsc k + 1\<rparr>;
                ctx1 = tkip_tx_ttak ctx k1 (io_data (io_head m0))
            in case body_loop (tkip_encrypt_chunk P) cfg env (tkip_encrypt_init cfg m0 k1 ctx1) of
                 None \<Rightarrow> None
               | Some (Some e, st) \<Rightarrow>
                   Some (Inl e, k1\<lparr>k_priv := Some (TKIP_ctx (ctx1\<lparr>rc4 := fst (ls_cipher st)\<rparr>))\<rparr>)
               | Some (None, st) \<Rightarrow>
                   (let r = tkip_encrypt_tail P cfg env m0 (michael_key_at k1 (txmic ctx1))
                              (io_pktlen m0 + IEEE80211_TKIP_HDRLEN) st
                    in Some (fst r, k1\<lparr>k_priv := Some (TKIP_ctx (ctx1\<lparr>rc4 := snd r\<rparr>))\<rparr>))
      | _ \<Rightarrow> Some (Inl Fault, k))"

text \<open>The receive side of \<^verbatim>\<open>/* compute WEP seed */\<close>: when the cached TTAK is not valid
  or the upper 32 bits of the TSC differ from those of the stored counter, the flag is
  cleared and Phase1 is run.\<close>

definition tkip_rx_recompute :: "ieee80211_tkip_ctx \<Rightarrow> u64 \<Rightarrow> u64 \<Rightarrow> bool" where
  "tkip_rx_recompute ctx tsc prsc \<longleftrightarrow>
     rxttak_ok ctx = 0 \<or> drop_bit 16 tsc \<noteq> drop_bit 16 prsc"

definition tkip_rx_ttak ::
  "ieee80211_tkip_ctx \<Rightarrow> ieee80211_key \<Rightarrow> byte list \<Rightarrow> u64 \<Rightarrow> u64 \<Rightarrow> ieee80211_tkip_ctx" where
  "tkip_rx_ttak ctx k wh tsc prsc =
     (if tkip_rx_recompute ctx tsc prsc
      then ctx\<lparr>rxttak_ok := 0,
               rxttak := Phase1 (k_key k) (i_addr2 wh) (ucast (drop_bit 16 tsc))\<rparr>
      else ctx)"

text \<open>
  \<^verbatim>\<open>buf\<close> after \<^verbatim>\<open>iob_copyout(buf, iob, moff, IEEE80211_TKIP_TAILLEN)\<close> and the
  \<^verbatim>\<open>rc4_crypt\<close> in place: the decrypted MIC and ICV of the frame, and the RC4 context.
\<close>

definition tkip_tail_buf :: "primitives \<Rightarrow> (rc4_ctx \<times> u32b) loop_state \<Rightarrow> rc4_ctx \<times> byte list" where
  "tkip_tail_buf P st =
     rc4_crypt P (fst (ls_cipher st))
       (iob_copyout (ls_iob st) (ls_moff st) IEEE80211_TKIP_TAILLEN)"

text \<open>The CRC the receiver computes (over the decrypted body and MIC, complemented) and
  the ICV it finds in the frame.\<close>

definition tkip_rx_crc :: "primitives \<Rightarrow> (rc4_ctx \<times> u32b) loop_state \<Rightarrow> u32b" where
  "tkip_rx_crc P st =
     NOT (ether_crc32_le_update P (snd (ls_cipher st))
            (take IEEE80211_TKIP_MICLEN (snd (tkip_tail_buf P st))))"

definition tkip_rx_icv :: "primitives \<Rightarrow> (rc4_ctx \<times> u32b) loop_state \<Rightarrow> u32b" where
  "tkip_rx_icv P st = le32_word (drop IEEE80211_TKIP_MICLEN (snd (tkip_tail_buf P st)))"

text \<open>The header of the frame, its TID, the TSC in its TKIP header and the packet length
  of the decapsulated frame, as \<^verbatim>\<open>ieee80211_tkip_decrypt\<close> computes them from \<^verbatim>\<open>m0\<close>.\<close>

definition tkip_frame_hdrlen :: "iob_chain \<Rightarrow> nat" where
  "tkip_frame_hdrlen m0 = ieee80211_get_hdrlen (io_data (io_head m0))"

definition tkip_frame_tid :: "iob_chain \<Rightarrow> nat" where
  "tkip_frame_tid m0 = frame_tid (io_data (io_head m0))"

definition tkip_frame_tsc :: "iob_chain \<Rightarrow> u64" where
  "tkip_frame_tsc m0 =
     tkip_tsc (bytes_at (io_data (io_head m0)) (tkip_frame_hdrlen m0) IEEE80211_TKIP_HDRLEN)"

definition tkip_rx_pktlen :: "iob_chain \<Rightarrow> nat" where
  "tkip_rx_pktlen m0 = io_pktlen m0 - IEEE80211_TKIP_OVHD"

text \<open>
  The end of \<^verbatim>\<open>ieee80211_tkip_decrypt\<close>, from
  \<^verbatim>\<open>/* Extract and decrypt TKIP MIC and WEP ICV from m0's tail */\<close> on: \<open>st\<close> is
  the state the body loop ended in, \<open>ctx1\<close> the context after the WEP seed was computed.
\<close>

definition tkip_decrypt_tail ::
  "primitives \<Rightarrow> config \<Rightarrow> environment \<Rightarrow> ieee80211_s \<Rightarrow> iob_chain \<Rightarrow> ieee80211_key
     \<Rightarrow> ieee80211_tkip_ctx \<Rightarrow> (rc4_ctx \<times> u32b) loop_state
     \<Rightarrow> (fail + iob_chain) \<times> ieee80211_key \<times> ieee80211_s" where
  "tkip_decrypt_tail P cfg env ic m0 k ctx1 st =
     (let ctx2 = ctx1\<lparr>rc4 := fst (tkip_tail_buf P st)\<rparr>;
          mic0 = take IEEE80211_TKIP_MICLEN (snd (tkip_tail_buf P st));
          next0 = mk_chain (tkip_rx_pktlen m0) (ls_done st @ [ls_next st])
      in if tkip_rx_crc P st \<noteq> tkip_rx_icv P st
         then (Inl Bad_icv, k\<lparr>k_priv := Some (TKIP_ctx ctx2)\<rparr>, ic)
         else if mic0 \<noteq> ieee80211_tkip_mic P next0 (tkip_frame_hdrlen m0)
                           (michael_key_at k (rxmic ctx2))
         then (Inl Michael_failure, k\<lparr>k_priv := Some (TKIP_ctx ctx2)\<rparr>,
               ieee80211_michael_mic_failure cfg (ticks env) ic (tkip_frame_tsc m0))
         else (Inr next0,
               k\<lparr>k_rsc := (k_rsc k)(tkip_frame_tid m0 := tkip_frame_tsc m0),
                 k_priv := Some (TKIP_ctx (ctx2\<lparr>rxttak_ok := 1\<rparr>))\<rparr>,
               ic))"

text \<open>
  The state in which \<^verbatim>\<open>ieee80211_tkip_decrypt\<close> enters the body loop; the data area of
  the first output buffer is the 802.11 header with the PROTECTED bit cleared, \<open>ctx1\<close> is
  the context after the WEP seed step.
\<close>

definition tkip_decrypt_hdr :: "config \<Rightarrow> byte list \<Rightarrow> byte list" where
  "tkip_decrypt_hdr cfg wh =
     (let d0 = store (iob_fresh cfg) 0 (bytes_at wh 0 (ieee80211_get_hdrlen wh))
      in d0[1 := d0 ! 1 AND NOT IEEE80211_FC1_PROTECTED])"

definition tkip_decrypt_init ::
  "config \<Rightarrow> iob_chain \<Rightarrow> ieee80211_key \<Rightarrow> ieee80211_tkip_ctx \<Rightarrow> (rc4_ctx \<times> u32b) loop_state" where
  "tkip_decrypt_init cfg m0 k ctx1 =
     (let wepseed = Phase2 (k_key k) (rxttak ctx1) (ucast (tkip_frame_tsc m0 AND 0xffff))
      in \<lparr>ls_iob = chain_iobs m0,
          ls_moff = tkip_frame_hdrlen m0 + IEEE80211_TKIP_HDRLEN, ls_done = [],
          ls_next = \<lparr>io_len = first_len cfg (tkip_rx_pktlen m0),
                      io_data = tkip_decrypt_hdr cfg (io_data (io_head m0))\<rparr>,
          ls_noff = tkip_frame_hdrlen m0,
          ls_left = tkip_rx_pktlen m0 - tkip_frame_hdrlen m0,
          ls_nalloc = 1,
          ls_cipher = (rc4_keysetup wepseed 16, NOT 0)\<rparr>)"

text \<open>The checks of \<^verbatim>\<open>ieee80211_tkip_decrypt\<close> before the WEP seed is computed: the
  failure they end in, if any.\<close>

definition tkip_decrypt_checks ::
  "config \<Rightarrow> environment \<Rightarrow> iob_chain \<Rightarrow> ieee80211_key \<Rightarrow> fail option" where
  "tkip_decrypt_checks cfg env m0 k =
     (let ivp = bytes_at (io_data (io_head m0)) (tkip_frame_hdrlen m0) IEEE80211_TKIP_HDRLEN
      in if io_pktlen m0 < tkip_frame_hdrlen m0 + IEEE80211_TKIP_OVHD then Some Too_short
         else if ivp ! 3 AND IEEE80211_WEP_EXTIV = 0 then Some No_extiv
         else if tkip_frame_tsc m0 \<le> k_rsc k (tkip_frame_tid m0) then Some Replay
         else if \<not> alloc_ok env 0 then Some Nospace
         else if \<not> clone_ok env then Some Nospace
         else if CONFIG_IEEE80211_BUFSIZE cfg < tkip_frame_hdrlen m0 then Some Fault
         else None)"

text \<open>The context after \<^verbatim>\<open>/* compute WEP seed */\<close>, and the body loop of the receive
  side run from there.\<close>

definition tkip_rx_ctx1 ::
  "config \<Rightarrow> iob_chain \<Rightarrow> ieee80211_key \<Rightarrow> ieee80211_tkip_ctx \<Rightarrow> ieee80211_tkip_ctx" where
  "tkip_rx_ctx1 cfg m0 k ctx =
     tkip_rx_ttak ctx k (tkip_decrypt_hdr cfg (io_data (io_head m0)))
       (tkip_frame_tsc m0) (k_rsc k (tkip_frame_tid m0))"

definition tkip_rx_loop ::
  "primitives \<Rightarrow> config \<Rightarrow> environment \<Rightarrow> iob_chain \<Rightarrow> ieee80211_key \<Rightarrow> ieee80211_tkip_ctx
     \<Rightarrow> (fail option \<times> (rc4_ctx \<times> u32b) loop_state) option" where
  "tkip_rx_loop P cfg env m0 k ctx =
     body_loop (tkip_decrypt_chunk P) cfg env
       (tkip_decrypt_init cfg m0 k (tkip_rx_ctx1 cfg m0 k ctx))"

text \<open>\<^verbatim>\<open>ieee80211_tkip_decrypt\<close>.\<close>

definition ieee80211_tkip_decrypt ::
  "primitives \<Rightarrow> config \<Rightarrow> environment \<Rightarrow> ieee80211_s \<Rightarrow> iob_chain \<Rightarrow> ieee80211_key
     \<Rightarrow> ((fail + iob_chain) \<times> ieee80211_key \<times> ieee80211_s) option" where
  "ieee80211_tkip_decrypt P cfg env ic m0 k =
     (case k_priv k of
        Some (TKIP_ctx ctx) \<Rightarrow>
          (case tkip_decrypt_checks cfg env m0 k of
             Some e \<Rightarrow> Some (Inl e, k, ic)
           | None \<Rightarrow>
               (case tkip_rx_loop P cfg env m0 k ctx of
                  None \<Rightarrow> None
                | Some (Some e, st) \<Rightarrow>
                    Some (Inl e,
                          k\<lparr>k_priv := Some (TKIP_ctx
                               ((tkip_rx_ctx1 cfg m0 k ctx)\<lparr>rc4 := fst (ls_cipher st)\<rparr>))\<rparr>,
                          ic)
                | Some (None, st) \<Rightarrow>
                    Some (tkip_decrypt_tail P cfg env ic m0 k (tkip_rx_ctx1 cfg m0 k ctx) st)))
      | _ \<Rightarrow> Some (Inl Fault, k, ic))"

section \<open>Notions used in the statements\<close>

text \<open>A buffer is well formed when its filled length lies within its data area.\<close>

definition wf_iob :: "iob_s \<Rightarrow> bool" where
  "wf_iob b \<longleftrightarrow> io_len b \<le> length (io_data b)"

text \<open>
  A chunk function is streaming when running it over a concatenation is running it
  over the pieces in order, and the output is as long as the input.
\<close>

definition streaming :: "('c \<Rightarrow> byte list \<Rightarrow> 'c \<times> byte list) \<Rightarrow> bool" where
  "streaming f \<longleftrightarrow>
     (\<forall>c. f c [] = (c, [])) \<and>
     (\<forall>c xs ys. f c (xs @ ys) =
        (fst (f (fst (f c xs)) ys), snd (f c xs) @ snd (f (fst (f c xs)) ys))) \<and>
     (\<forall>c xs. length (snd (f c xs)) = length xs)"

text \<open>What a call returned: a frame chain, or a given failure.\<close>

definition returns_frame :: "((fail + iob_chain) \<times> 's) option \<Rightarrow> bool" where
  "returns_frame r = (case r of Some (Inr F, s) \<Rightarrow> True | _ \<Rightarrow> False)"

definition returns_fail :: "fail \<Rightarrow> ((fail + iob_chain) \<times> 's) option \<Rightarrow> bool" where
  "returns_fail e r = (case r of Some (Inl e', s) \<Rightarrow> e' = e | _ \<Rightarrow> False)"

definition loop_ends :: "(fail option \<times> 'c loop_state) option \<Rightarrow> bool" where
  "loop_ends r = (case r of Some (None, st) \<Rightarrow> True | _ \<Rightarrow> False)"


text \<open>
  The end of an output chain after \<open>t\<close> is appended to it: in the last buffer when it
  has room for all of \<open>t\<close>, in a fresh buffer otherwise (the code under
  \<^verbatim>\<open>/* Reserve trailing space for MIC */\<close>).
\<close>

definition append_tail :: "config \<Rightarrow> iob_s \<Rightarrow> byte list \<Rightarrow> iob_s list" where
  "append_tail cfg next t =
     (if IOB_FREESPACE cfg next < length t
      then [next, \<lparr>io_len = length t, io_data = store (iob_fresh cfg) 0 t\<rparr>]
      else [next\<lparr>io_data := store (io_data next) (io_len next) t,
                 io_len := io_len next + length t\<rparr>])"
section \<open>Concrete inputs\<close>

text \<open>
  Small instances used to evaluate the functions: stand-ins for the four primitives,
  a build with 64-octet buffers, an environment in which every allocation succeeds,
  and frames with a 24-octet header.
\<close>

definition toy_prims :: primitives where
  "toy_prims =
     \<lparr>rijndael_encrypt = (\<lambda>ks blk. map (\<lambda>x. x + 1) blk),
      rc4_keystream = (\<lambda>key n. of_nat n + key ! 3),
      michael_mic = (\<lambda>key msg. key),
      crc32_le_byte = (\<lambda>crc x. crc + ucast x)\<rparr>"

definition cfg64 :: config where
  "cfg64 = \<lparr>CONFIG_IEEE80211_BUFSIZE = 64, CONFIG_IEEE80211_AP = True, hz = 100\<rparr>"

definition env_ok :: environment where
  "env_ok = \<lparr>alloc_ok = (\<lambda>n. True), clone_ok = True, ticks = 1000\<rparr>"

definition hdr_nods :: "byte list" where
  "hdr_nods = [0x08, 0x40, 0, 0, 1, 1, 1, 1, 1, 1, 2, 2, 2, 2, 2, 2, 3, 3, 3, 3, 3, 3, 0x10, 0]"

definition hdr_dstods_qos :: "byte list" where
  "hdr_dstods_qos =
     [0x88, 0x43, 0, 0, 1, 1, 1, 1, 1, 1, 2, 2, 2, 2, 2, 2, 3, 3, 3, 3, 3, 3, 0x10, 0,
      4, 4, 4, 4, 4, 4, 5, 0]"

definition frame30 :: iob_chain where
  "frame30 =
     \<lparr>io_pktlen = 30,
      io_head = \<lparr>io_len = 26, io_data = hdr_nods @ [10, 11]\<rparr>,
      io_flink = [\<lparr>io_len = 4, io_data = [12, 13, 14, 15, 99, 99]\<rparr>]\<rparr>"

definition node0 :: ieee80211_node where
  "node0 = \<lparr>ni_macaddr = [2, 2, 2, 2, 2, 2], ni_state = IEEE80211_STA_ASSOC,
            ni_rsncipher = IEEE80211_CIPHER_TKIP, ni_rsngroupcipher = IEEE80211_CIPHER_TKIP\<rparr>"

definition ic_sta :: ieee80211_s where
  "ic_sta =
     \<lparr>ic_opmode = IEEE80211_M_STA, ic_flags = 0, ic_bss = node0, ic_nodes = [],
      ic_tkip_micfail = 0, ic_tkip_micfail_last_tsc = 0, ic_calls = []\<rparr>"

definition ic_ap :: ieee80211_s where
  "ic_ap = ic_sta\<lparr>ic_opmode := IEEE80211_M_HOSTAP, ic_nodes := [node0]\<rparr>"

definition tkip_mem :: ieee80211_tkip_ctx where
  "tkip_mem =
     \<lparr>rc4 = \<lparr>rc4_key = [], rc4_pos = 0\<rparr>, txmic = 0, rxmic = 0,
      txttak = [], rxttak = [], txttak_ok = 0, rxttak_ok = 0\<rparr>"

definition key0 :: ieee80211_key where
  "key0 =
     \<lparr>k_id = 1, k_key = map of_nat [0 ..< 32], k_tsc = 5, k_rsc = (\<lambda>tid. 0),
      k_mgmt_rsc = 0, k_priv = None\<rparr>"

definition ccmp_key0 :: ieee80211_key where
  "ccmp_key0 = key0\<lparr>k_priv := Some (CCMP_ctx \<lparr>rijndael = take 16 (k_key key0)\<rparr>)\<rparr>"

definition tkip_key0 :: ieee80211_key where
  "tkip_key0 = key0\<lparr>k_priv := Some (TKIP_ctx (tkip_mem\<lparr>rxmic := 16, txmic := 24\<rparr>))\<rparr>"


text \<open>The peer's installation of the same TKIP key (the Michael sub-keys exchanged).\<close>

definition tkip_peer0 :: ieee80211_key where
  "tkip_peer0 = key0\<lparr>k_priv := Some (TKIP_ctx (tkip_mem\<lparr>txmic := 16, rxmic := 24\<rparr>))\<rparr>"

text \<open>The chains \<open>frame30\<close> is encapsulated into under \<open>ccmp_key0\<close> and \<open>tkip_key0\<close>
  (lemmas \<open>ccmp_enc0_eq\<close> and \<open>tkip_enc0_eq\<close> below), and the keys after the calls.\<close>

definition ccmp_wire0 :: iob_chain where
  "ccmp_wire0 =
     \<lparr>io_pktlen = 46,
      io_head = \<lparr>io_len = 46,
        io_data = hdr_nods @ [6, 0, 0, 96, 0, 0, 0, 0] @ [8, 10, 15, 14, 13, 12]
                    @ [86, 25, 30, 69, 19, 12, 6, 6] @ replicate 18 0\<rparr>,
      io_flink = []\<rparr>"

definition ccmp_key1 :: ieee80211_key where
  "ccmp_key1 = ccmp_key0\<lparr>k_tsc := 6\<rparr>"

definition ccmp_key2 :: ieee80211_key where
  "ccmp_key2 = ccmp_key1\<lparr>k_rsc := (k_rsc ccmp_key1)(0 := 6)\<rparr>"

definition tkip_wire0 :: iob_chain where
  "tkip_wire0 =
     \<lparr>io_pktlen = 50,
      io_head = \<lparr>io_len = 50,
        io_data = hdr_nods @ [0, 32, 6, 96, 0, 0, 0, 0] @ [229, 251, 253, 255, 253, 251]
                    @ [237, 239, 237, 227, 229, 231, 229, 227] @ [36, 0, 0, 255]
                    @ replicate 14 0\<rparr>,
      io_flink = []\<rparr>"

definition tkip_key1 :: ieee80211_key where
  "tkip_key1 = snd (the (ieee80211_tkip_encrypt toy_prims cfg64 env_ok frame30 tkip_key0))"

definition tkip_peer1 :: ieee80211_key where
  "tkip_peer1 =
     fst (snd (the (ieee80211_tkip_decrypt toy_prims cfg64 env_ok ic_sta tkip_wire0 tkip_peer0)))"


text \<open>A 60-octet frame in one buffer: with the 8-octet CCMP or TKIP header it does not fit
  a 64-octet output buffer. An allocator that hands out three buffers and no more.\<close>

definition frame60 :: iob_chain where
  "frame60 =
     \<lparr>io_pktlen = 60,
      io_head = \<lparr>io_len = 60, io_data = hdr_nods @ map of_nat [0 ..< 36]\<rparr>,
      io_flink = []\<rparr>"

definition env_pool3 :: environment where
  "env_pool3 = \<lparr>alloc_ok = (\<lambda>n. n < 3), clone_ok = True, ticks = 1000\<rparr>"

text \<open>The station after one Michael failure reported at tick 100 with TSC 1.\<close>

definition ic_sta_failed :: ieee80211_s where
  "ic_sta_failed = ic_sta\<lparr>ic_tkip_micfail := 100, ic_tkip_micfail_last_tsc := 1\<rparr>"



text \<open>
  A management frame (an Action frame) and a QoS data frame in four-address format with
  TID 5, each with the body of \<open>frame30\<close>; the chains they are encapsulated into under
  \<open>ccmp_key0\<close> and \<open>tkip_key0\<close>.
\<close>

definition hdr_mgt :: "byte list" where
  "hdr_mgt = [0xd0, 0x40, 0, 0, 1, 1, 1, 1, 1, 1, 2, 2, 2, 2, 2, 2, 3, 3, 3, 3, 3, 3, 0x10, 0]"

definition frame_mgt :: iob_chain where
  "frame_mgt =
     \<lparr>io_pktlen = 30,
      io_head = \<lparr>io_len = 26, io_data = hdr_mgt @ [10, 11]\<rparr>,
      io_flink = [\<lparr>io_len = 4, io_data = [12, 13, 14, 15, 99, 99]\<rparr>]\<rparr>"

definition frame_qos :: iob_chain where
  "frame_qos =
     \<lparr>io_pktlen = 38,
      io_head = \<lparr>io_len = 34, io_data = hdr_dstods_qos @ [10, 11]\<rparr>,
      io_flink = [\<lparr>io_len = 4, io_data = [12, 13, 14, 15, 99, 99]\<rparr>]\<rparr>"

definition ccmp_wire_mgt :: iob_chain where
  "ccmp_wire_mgt =
     \<lparr>io_pktlen = 46,
      io_head = \<lparr>io_len = 46,
        io_data = hdr_mgt @ [6, 0, 0, 96, 0, 0, 0, 0] @ [8, 26, 15, 14, 13, 12]
                    @ [86, 25, 214, 69, 19, 12, 6, 6] @ replicate 18 0\<rparr>,
      io_flink = []\<rparr>"

definition ccmp_wire_qos :: iob_chain where
  "ccmp_wire_qos =
     \<lparr>io_pktlen = 54,
      io_head = \<lparr>io_len = 54,
        io_data = hdr_dstods_qos @ [6, 0, 0, 96, 0, 0, 0, 0] @ [8, 13, 15, 14, 13, 12]
                    @ [86, 23, 30, 76, 19, 12, 6, 6] @ replicate 10 0\<rparr>,
      io_flink = []\<rparr>"

definition tkip_wire_mgt :: iob_chain where
  "tkip_wire_mgt =
     \<lparr>io_pktlen = 50,
      io_head = \<lparr>io_len = 50,
        io_data = hdr_mgt @ [0, 32, 6, 96, 0, 0, 0, 0] @ [229, 251, 253, 255, 253, 251]
                    @ [237, 239, 237, 227, 229, 231, 229, 227] @ [36, 0, 0, 255]
                    @ replicate 14 0\<rparr>,
      io_flink = []\<rparr>"

definition tkip_wire_qos :: iob_chain where
  "tkip_wire_qos =
     \<lparr>io_pktlen = 58,
      io_head = \<lparr>io_len = 58,
        io_data = hdr_dstods_qos @ [0, 32, 6, 96, 0, 0, 0, 0] @ [229, 251, 253, 255, 253, 251]
                    @ [237, 239, 237, 227, 229, 231, 229, 227] @ [36, 0, 0, 255]
                    @ replicate 6 0\<rparr>,
      io_flink = []\<rparr>"

text \<open>\<open>ccmp_wire0\<close> with the last octet of its MIC changed.\<close>

definition ccmp_wire0_bad :: iob_chain where
  "ccmp_wire0_bad =
     ccmp_wire0\<lparr>io_head := (io_head ccmp_wire0)\<lparr>io_data :=
       (io_data (io_head ccmp_wire0))[45 := 7]\<rparr>\<rparr>"

text \<open>The peer's key with a management counter ahead of every packet number used here.\<close>

definition tkip_peer_mgt :: ieee80211_key where
  "tkip_peer_mgt = tkip_peer0\<lparr>k_mgmt_rsc := 100\<rparr>"

text \<open>
  A 68-octet data frame and its TKIP encapsulation under \<open>tkip_key0\<close> with TSC 6, 88
  octets in two 64-octet buffers; a build with 128-octet buffers.
\<close>

definition frame68 :: iob_chain where
  "frame68 =
     \<lparr>io_pktlen = 68,
      io_head = \<lparr>io_len = 60, io_data = hdr_nods @ map of_nat [0 ..< 36]\<rparr>,
      io_flink = [\<lparr>io_len = 8, io_data = map of_nat [36 ..< 44]\<rparr>]\<rparr>"

definition tkip_wire_big :: iob_chain where
  "tkip_wire_big =
     \<lparr>io_pktlen = 88,
      io_head = \<lparr>io_len = 64,
        io_data = hdr_nods @ [0, 32, 6, 96, 0, 0, 0, 0]
          @ [239, 241, 243, 241, 247, 241, 243, 241, 255, 241, 243, 241, 247, 241, 243, 241,
             239, 17, 19, 17, 23, 17, 19, 17, 31, 17, 19, 17, 23, 17, 19, 17]\<rparr>,
      io_flink = [\<lparr>io_len = 24,
        io_data = [47, 49, 51, 49, 55, 49, 51, 49, 63, 49, 51, 49]
          @ [3, 5, 7, 5, 3, 61, 63, 61] @ [81, 223, 218, 217] @ replicate 40 0\<rparr>]\<rparr>"

definition cfg128 :: config where
  "cfg128 = \<lparr>CONFIG_IEEE80211_BUFSIZE = 128, CONFIG_IEEE80211_AP = True, hz = 100\<rparr>"
section \<open>Lemmas\<close>

subsection \<open>Results of calls\<close>

lemma returns_frameD:
  assumes "returns_frame r"
  shows "r = Some (Inr (projr (fst (the r))), snd (the r))"
proof (cases r)
  case None
  with assms show ?thesis by (simp add: returns_frame_def)
next
  case (Some p)
  obtain x s where p: "p = (x, s)" by (cases p)
  show ?thesis
  proof (cases x)
    case (Inl e)
    with assms Some p show ?thesis by (simp add: returns_frame_def)
  next
    case (Inr E)
    with Some p show ?thesis by simp
  qed
qed

lemma returns_failD:
  assumes "returns_fail e r"
  shows "r = Some (Inl e, snd (the r))"
proof (cases r)
  case None
  with assms show ?thesis by (simp add: returns_fail_def)
next
  case (Some p)
  obtain x s where p: "p = (x, s)" by (cases p)
  show ?thesis
  proof (cases x)
    case (Inl e')
    with assms Some p show ?thesis by (simp add: returns_fail_def)
  next
    case (Inr E)
    with assms Some p show ?thesis by (simp add: returns_fail_def)
  qed
qed

lemma loop_endsD:
  assumes "loop_ends r"
  shows "r = Some (None, snd (the r))"
proof (cases r)
  case None
  with assms show ?thesis by (simp add: loop_ends_def)
next
  case (Some p)
  obtain x s where p: "p = (x, s)" by (cases p)
  show ?thesis
  proof (cases x)
    case None
    with Some p show ?thesis by simp
  next
    case (Some e)
    with assms \<open>r = Some p\<close> p show ?thesis by (simp add: loop_ends_def)
  qed
qed

lemma loop_caseE:
  assumes "(case r of Some (None, st) \<Rightarrow> Q st | _ \<Rightarrow> False)"
  obtains st where "r = Some (None, st)" and "Q st"
proof (cases r)
  case None
  with assms show ?thesis by simp
next
  case (Some p)
  obtain x st where p: "p = (x, st)" by (cases p)
  show ?thesis
  proof (cases x)
    case None
    with assms Some p that show ?thesis by simp
  next
    case (Some e)
    with assms \<open>r = Some p\<close> p show ?thesis by simp
  qed
qed

subsection \<open>Buffers and stores\<close>

lemma length_iob_bytes: "wf_iob b \<Longrightarrow> length (iob_bytes b) = io_len b"
  by (simp add: wf_iob_def iob_bytes_def)

lemma iobs_bytes_Cons: "iobs_bytes (b # bs) = iob_bytes b @ iobs_bytes bs"
  by (simp add: iobs_bytes_def)

lemma iobs_bytes_Nil: "iobs_bytes [] = []"
  by (simp add: iobs_bytes_def)

lemma iobs_bytes_append: "iobs_bytes (as @ bs) = iobs_bytes as @ iobs_bytes bs"
  by (simp add: iobs_bytes_def)

lemma store_Nil: "store d n [] = d"
  by (simp add: store_def)

lemma length_store: "n + length a \<le> length d \<Longrightarrow> length (store d n a) = length d"
  by (simp add: store_def)

lemma store_store: "n \<le> length d \<Longrightarrow> store (store d n a) (n + length a) b = store d n (a @ b)"
  by (simp add: store_def ac_simps)

lemma take_store: "n \<le> length d \<Longrightarrow> take n (store d n a) = take n d"
  by (simp add: store_def)

lemma chunk_in_iob:
  "moff + len \<le> io_len b \<Longrightarrow> take len (drop moff (io_data b)) = take len (drop moff (iob_bytes b))"
  by (simp add: iob_bytes_def take_drop min_def)

subsection \<open>The body loop when the output fits the first buffer\<close>

text \<open>
  When the room left in \<^verbatim>\<open>next\<close> is exactly \<^verbatim>\<open>left\<close> and the source chain holds
  \<^verbatim>\<open>left\<close> more octets, the loop ends without allocating: it has run the cipher over
  the next \<^verbatim>\<open>left\<close> octets of the source, in order, and stored the output at
  \<^verbatim>\<open>noff\<close>.
\<close>

lemma body_loop_fits:
  assumes str: "streaming crypt"
  shows "list_all wf_iob (ls_iob st) \<Longrightarrow> ls_iob st \<noteq> [] \<Longrightarrow>
     ls_moff st \<le> io_len (hd (ls_iob st)) \<Longrightarrow>
     ls_moff st + ls_left st \<le> length (iobs_bytes (ls_iob st)) \<Longrightarrow>
     ls_noff st + ls_left st = io_len (ls_next st) \<Longrightarrow>
     io_len (ls_next st) \<le> length (io_data (ls_next st)) \<Longrightarrow>
     \<exists>st'. body_loop crypt cfg env st = Some (None, st') \<and>
       ls_done st' = ls_done st \<and> ls_nalloc st' = ls_nalloc st \<and>
       io_len (ls_next st') = io_len (ls_next st) \<and>
       io_data (ls_next st') = store (io_data (ls_next st)) (ls_noff st)
          (snd (crypt (ls_cipher st)
                  (take (ls_left st) (drop (ls_moff st) (iobs_bytes (ls_iob st)))))) \<and>
       ls_cipher st' = fst (crypt (ls_cipher st)
                  (take (ls_left st) (drop (ls_moff st) (iobs_bytes (ls_iob st))))) \<and>
       drop (ls_moff st') (iobs_bytes (ls_iob st')) =
         drop (ls_moff st + ls_left st) (iobs_bytes (ls_iob st))"
proof (induction "ls_left st + length (ls_iob st)" arbitrary: st rule: less_induct)
  case less
  note s1 = str[unfolded streaming_def, THEN conjunct1, rule_format]
  note s2 = str[unfolded streaming_def, THEN conjunct2, THEN conjunct1, rule_format]
  note s3 = str[unfolded streaming_def, THEN conjunct2, THEN conjunct2, rule_format]
  show ?case
  proof (cases "ls_left st = 0")
    case True
    then show ?thesis
      by (subst body_loop.simps) (simp add: s1 store_Nil)
  next
    case False
    then have left: "0 < ls_left st" by simp
    from less.prems(2) obtain iob flink where iobs: "ls_iob st = iob # flink"
      by (cases "ls_iob st") auto
    have wfi: "wf_iob iob" and wff: "list_all wf_iob flink"
      using less.prems(1) iobs by auto
    have moff: "ls_moff st \<le> io_len iob" using less.prems(3) iobs by simp
    have noff: "ls_noff st \<noteq> io_len (ls_next st)" using less.prems(5) left by linarith
    define st1 where
      "st1 = (if ls_moff st = io_len iob then st\<lparr>ls_iob := flink, ls_moff := 0\<rparr> else st)"
    have st1_ne: "ls_iob st1 \<noteq> []"
    proof (cases "ls_moff st = io_len iob")
      case True
      have "ls_moff st + ls_left st \<le> io_len iob + length (iobs_bytes flink)"
        using less.prems(4) iobs wfi by (simp add: iobs_bytes_Cons length_iob_bytes)
      with True left have "0 < length (iobs_bytes flink)" by linarith
      then have "flink \<noteq> []" by (auto simp: iobs_bytes_Nil)
      then show ?thesis using True by (simp add: st1_def)
    next
      case False
      then show ?thesis using iobs by (simp add: st1_def)
    qed
    then obtain cur rest where cur: "ls_iob st1 = cur # rest"
      by (cases "ls_iob st1") auto
    have wfc: "wf_iob cur" and wf1: "list_all wf_iob (ls_iob st1)"
      using cur wfi wff iobs by (auto simp: st1_def split: if_splits)
    have same1: "ls_noff st1 = ls_noff st" "ls_next st1 = ls_next st" "ls_left st1 = ls_left st"
      "ls_done st1 = ls_done st" "ls_nalloc st1 = ls_nalloc st" "ls_cipher st1 = ls_cipher st"
      by (simp_all add: st1_def)
    have moff1: "ls_moff st1 \<le> io_len cur"
      using cur moff iobs by (auto simp: st1_def split: if_splits)
    have drop1: "drop (ls_moff st1) (iobs_bytes (ls_iob st1)) =
                 drop (ls_moff st) (iobs_bytes (ls_iob st))"
      using iobs wfi by (auto simp: st1_def iobs_bytes_Cons length_iob_bytes)
    have avail1: "ls_moff st1 + ls_left st \<le> length (iobs_bytes (ls_iob st1))"
    proof -
      have "length (drop (ls_moff st) (iobs_bytes (ls_iob st))) \<ge> ls_left st"
        using less.prems(4) by simp
      then have "length (drop (ls_moff st1) (iobs_bytes (ls_iob st1))) \<ge> ls_left st"
        by (simp only: drop1)
      moreover have "ls_moff st1 \<le> length (iobs_bytes (ls_iob st1))"
        using moff1 cur wfc by (simp add: iobs_bytes_Cons length_iob_bytes)
      ultimately show ?thesis by simp
    qed
    define len where "len = min (io_len cur - ls_moff st1) (io_len (ls_next st) - ls_noff st)"
    have len_le: "len \<le> ls_left st" "ls_moff st1 + len \<le> io_len cur"
      using less.prems(5) moff1 by (auto simp: len_def)
    define chunk where "chunk = take len (drop (ls_moff st1) (io_data cur))"
    have chunk_eq: "chunk = take len (drop (ls_moff st1) (iobs_bytes (ls_iob st1)))"
    proof -
      have "chunk = take len (drop (ls_moff st1) (iob_bytes cur))"
        unfolding chunk_def using len_le(2) by (rule chunk_in_iob)
      also have "\<dots> = take len (drop (ls_moff st1) (iob_bytes cur @ iobs_bytes rest))"
        using len_le(2) wfc by (simp add: length_iob_bytes)
      finally show ?thesis by (simp add: cur iobs_bytes_Cons)
    qed
    have chunk_len: "length chunk = len"
      using avail1 len_le(1) by (simp add: chunk_eq)
    define r where "r = crypt (ls_cipher st) chunk"
    define st3 where "st3 = st1\<lparr>ls_next := (ls_next st1)\<lparr>io_data :=
                                       store (io_data (ls_next st1)) (ls_noff st1) (snd r)\<rparr>,
                                   ls_moff := ls_moff st1 + len,
                                   ls_noff := ls_noff st1 + len,
                                   ls_left := ls_left st1 - len,
                                   ls_cipher := fst r\<rparr>"
    have step: "body_loop crypt cfg env st = body_loop crypt cfg env st3"
      apply (subst body_loop.simps)
      using left iobs noff cur moff1 less.prems(5)
      apply (simp add: Let_def st1_def[symmetric] same1 cur)
      apply (simp add: st3_def r_def chunk_def len_def same1)
      done
    have out_len: "length (snd r) = len" by (simp add: r_def s3 chunk_len)
    have measure: "ls_left st3 + length (ls_iob st3) < ls_left st + length (ls_iob st)"
    proof (cases "ls_moff st = io_len iob")
      case True
      then show ?thesis using left by (simp add: st3_def st1_def iobs)
    next
      case False
      then have "ls_moff st1 < io_len cur" using moff iobs cur by (auto simp: st1_def)
      then have "0 < len" using left less.prems(5) by (simp add: len_def)
      then show ?thesis using left len_le False by (simp add: st3_def st1_def)
    qed
    have p1: "list_all wf_iob (ls_iob st3)" using wf1 by (simp add: st3_def)
    have p2: "ls_iob st3 \<noteq> []" using cur by (simp add: st3_def)
    have p3: "ls_moff st3 \<le> io_len (hd (ls_iob st3))" using len_le cur by (simp add: st3_def)
    have p4: "ls_moff st3 + ls_left st3 \<le> length (iobs_bytes (ls_iob st3))"
      using avail1 len_le by (simp add: st3_def same1)
    have p5: "ls_noff st3 + ls_left st3 = io_len (ls_next st3)"
      using less.prems(5) len_le by (simp add: st3_def same1)
    have p6: "io_len (ls_next st3) \<le> length (io_data (ls_next st3))"
    proof -
      have "ls_noff st + length (snd r) \<le> length (io_data (ls_next st))"
        using less.prems(5,6) len_le out_len by simp
      then show ?thesis using less.prems(6) by (simp add: st3_def same1 length_store)
    qed
    from less.hyps[OF measure p1 p2 p3 p4 p5 p6]
    obtain st' where res: "body_loop crypt cfg env st3 = Some (None, st')"
      and d: "ls_done st' = ls_done st3" and na: "ls_nalloc st' = ls_nalloc st3"
      and il: "io_len (ls_next st') = io_len (ls_next st3)"
      and dat: "io_data (ls_next st') = store (io_data (ls_next st3)) (ls_noff st3)
          (snd (crypt (ls_cipher st3)
                  (take (ls_left st3) (drop (ls_moff st3) (iobs_bytes (ls_iob st3))))))"
      and ci: "ls_cipher st' = fst (crypt (ls_cipher st3)
                  (take (ls_left st3) (drop (ls_moff st3) (iobs_bytes (ls_iob st3)))))"
      and dr: "drop (ls_moff st') (iobs_bytes (ls_iob st')) =
                 drop (ls_moff st3 + ls_left st3) (iobs_bytes (ls_iob st3))"
      by blast
    define whole where "whole = take (ls_left st) (drop (ls_moff st) (iobs_bytes (ls_iob st)))"
    define rest_in where
      "rest_in = take (ls_left st3) (drop (ls_moff st3) (iobs_bytes (ls_iob st3)))"
    have split: "whole = chunk @ rest_in"
    proof -
      have "whole = take (len + (ls_left st - len)) (drop (ls_moff st1) (iobs_bytes (ls_iob st1)))"
        using len_le(1) by (simp add: whole_def drop1)
      also have "\<dots> = chunk @ take (ls_left st - len)
                           (drop len (drop (ls_moff st1) (iobs_bytes (ls_iob st1))))"
        by (simp only: take_add chunk_eq)
      also have "\<dots> = chunk @ rest_in"
        by (simp add: rest_in_def st3_def same1 add.commute)
      finally show ?thesis .
    qed
    have cw: "crypt (ls_cipher st) whole =
                (fst (crypt (fst r) rest_in), snd r @ snd (crypt (fst r) rest_in))"
      by (simp add: split s2 r_def)
    have c3: "ls_cipher st3 = fst r" by (simp add: st3_def)
    have noff_le: "ls_noff st \<le> length (io_data (ls_next st))"
      using less.prems(5,6) by simp
    have dat': "io_data (ls_next st') =
                  store (io_data (ls_next st)) (ls_noff st) (snd (crypt (ls_cipher st) whole))"
    proof -
      have "io_data (ls_next st') =
              store (store (io_data (ls_next st)) (ls_noff st) (snd r))
                (ls_noff st + length (snd r)) (snd (crypt (fst r) rest_in))"
        using dat by (simp add: rest_in_def[symmetric] c3) (simp add: st3_def same1 out_len)
      also have "\<dots> = store (io_data (ls_next st)) (ls_noff st)
                           (snd r @ snd (crypt (fst r) rest_in))"
        using noff_le by (rule store_store)
      finally show ?thesis by (simp add: cw)
    qed
    have ci': "ls_cipher st' = fst (crypt (ls_cipher st) whole)"
      using ci by (simp add: rest_in_def[symmetric] c3 cw)
    have dr': "drop (ls_moff st') (iobs_bytes (ls_iob st')) =
                 drop (ls_moff st + ls_left st) (iobs_bytes (ls_iob st))"
    proof -
      have "drop (ls_moff st3 + ls_left st3) (iobs_bytes (ls_iob st3)) =
            drop (ls_left st) (drop (ls_moff st1) (iobs_bytes (ls_iob st1)))"
        using len_le(1) by (simp add: st3_def same1 add.commute add.left_commute)
      also have "\<dots> = drop (ls_left st) (drop (ls_moff st) (iobs_bytes (ls_iob st)))"
        by (simp only: drop1)
      finally show ?thesis using dr by (simp add: add.commute)
    qed
    show ?thesis
      apply (rule exI[of _ st'])
      using res step d na il dat' ci' dr'
      by (simp add: whole_def st3_def same1)
  qed
qed

subsection \<open>Octets of counters\<close>

lemma lane64:
  "bit (push_bit k (ucast (ucast (drop_bit k (w::u64)) :: byte) :: u64)) n \<longleftrightarrow>
     k \<le> n \<and> n < k + 8 \<and> n < 64 \<and> bit w n"
  by (auto simp add: bit_simps)

lemma lane64_0:
  "bit (ucast (ucast (w::u64) :: byte) :: u64) n \<longleftrightarrow> n < 8 \<and> bit w n"
  by (auto simp add: bit_simps dest: bit_imp_le_length)

lemma lane32:
  "bit (push_bit k (ucast (ucast (drop_bit k (w::u32b)) :: byte) :: u32b)) n \<longleftrightarrow>
     k \<le> n \<and> n < k + 8 \<and> n < 32 \<and> bit w n"
  by (auto simp add: bit_simps)

lemma lane32_0:
  "bit (ucast (ucast (w::u32b) :: byte) :: u32b) n \<longleftrightarrow> n < 8 \<and> bit w n"
  by (auto simp add: bit_simps dest: bit_imp_le_length)

lemma six_octets:
  "ucast (ucast (w::u64) :: byte) OR push_bit 8 (ucast (ucast (drop_bit 8 w) :: byte))
   OR push_bit 16 (ucast (ucast (drop_bit 16 w) :: byte))
   OR push_bit 24 (ucast (ucast (drop_bit 24 w) :: byte))
   OR push_bit 32 (ucast (ucast (drop_bit 32 w) :: byte))
   OR push_bit 40 (ucast (ucast (drop_bit 40 w) :: byte)) = take_bit 48 w"
  apply (rule bit_word_eqI)
  apply (simp only: bit_or_iff lane64 lane64_0 bit_take_bit_iff)
  apply (auto dest: bit_imp_le_length)
  done

lemma four_octets:
  "ucast (ucast (w::u32b) :: byte) OR push_bit 8 (ucast (ucast (drop_bit 8 w) :: byte))
   OR push_bit 16 (ucast (ucast (drop_bit 16 w) :: byte))
   OR push_bit 24 (ucast (ucast (drop_bit 24 w) :: byte)) = w"
  apply (rule bit_word_eqI)
  apply (simp only: bit_or_iff lane32 lane32_0)
  apply (auto dest: bit_imp_le_length)
  done

lemma ccmp_pn_ivp: "ccmp_pn (ccmp_ivp tsc kid) = take_bit 48 tsc"
  by (simp add: ccmp_pn_def ccmp_ivp_def six_octets)

lemma tkip_tsc_ivp: "tkip_tsc (tkip_ivp tsc kid) = take_bit 48 tsc"
  by (simp add: tkip_tsc_def tkip_ivp_def six_octets)

lemma le32_roundtrip: "le32_word (le32_bytes w) = w"
  by (simp add: le32_word_def le32_bytes_def four_octets)

lemma extiv_set: "(ucast (push_bit 6 (kid::u16b)) OR IEEE80211_WEP_EXTIV) AND IEEE80211_WEP_EXTIV \<noteq> 0"
proof -
  have "(ucast (push_bit 6 kid) OR (0x20::byte)) AND 0x20 = 0x20"
    by (simp add: word_ao_absorbs or.commute)
  then show ?thesis by (simp add: IEEE80211_WEP_EXTIV_def)
qed

lemma ccmp_ivp_extiv: "ccmp_ivp tsc kid ! 3 AND IEEE80211_WEP_EXTIV \<noteq> 0"
  using extiv_set [of kid] by (simp add: ccmp_ivp_def)

lemma tkip_ivp_extiv: "tkip_ivp tsc kid ! 3 AND IEEE80211_WEP_EXTIV \<noteq> 0"
  using extiv_set [of kid] by (simp add: tkip_ivp_def)

lemma length_ccmp_ivp: "length (ccmp_ivp tsc kid) = 8"
  by (simp add: ccmp_ivp_def)

lemma length_tkip_ivp: "length (tkip_ivp tsc kid) = 8"
  by (simp add: tkip_ivp_def)

lemma take_bit_48_id: "(w::u64) < 2 ^ 48 \<Longrightarrow> take_bit 48 w = w"
  by (simp add: mod_word_less take_bit_eq_mod)

lemma tsc_succ_less: "(k::u64) < 2 ^ 48 - 1 \<Longrightarrow> k < k + 1 \<and> k + 1 < 2 ^ 48"
  by (simp add: word_less_nat_alt unat_word_ariths)

lemma protected_dir:
  "((x::byte) AND NOT IEEE80211_FC1_PROTECTED) AND IEEE80211_FC1_DIR_MASK
     = x AND IEEE80211_FC1_DIR_MASK"
  by (simp add: IEEE80211_FC1_PROTECTED_def IEEE80211_FC1_DIR_MASK_def and.assoc)

lemma protected_order:
  "((x::byte) AND NOT IEEE80211_FC1_PROTECTED) AND IEEE80211_FC1_ORDER
     = x AND IEEE80211_FC1_ORDER"
  by (simp add: IEEE80211_FC1_PROTECTED_def IEEE80211_FC1_ORDER_def and.assoc)

subsection \<open>Byte-wise ciphers\<close>

lemma crypt_bytes_append:
  "crypt_bytes f c (xs @ ys) =
     (fst (crypt_bytes f (fst (crypt_bytes f c xs)) ys),
      snd (crypt_bytes f c xs) @ snd (crypt_bytes f (fst (crypt_bytes f c xs)) ys))"
  by (induction xs arbitrary: c) (simp_all add: Let_def)

lemma length_crypt_bytes: "length (snd (crypt_bytes f c xs)) = length xs"
  by (induction xs arbitrary: c) (simp_all add: Let_def)

lemma streaming_crypt_bytes: "streaming (crypt_bytes f)"
  unfolding streaming_def
  by (intro conjI allI) (simp_all add: crypt_bytes_append [symmetric] length_crypt_bytes)

lemma crypt_bytes_inverse:
  assumes "\<And>c x. g c (snd (f c x)) = (fst (f c x), x)"
  shows "crypt_bytes g c (snd (crypt_bytes f c xs)) = (fst (crypt_bytes f c xs), xs)"
  by (induction xs arbitrary: c) (simp_all add: Let_def assms)

lemma ccm_decrypt_encrypt_byte:
  "ccm_decrypt_byte P ctx c (snd (ccm_encrypt_byte P ctx c x)) = (fst (ccm_encrypt_byte P ctx c x), x)"
  by (simp add: ccm_decrypt_byte_def ccm_encrypt_byte_def Let_def xor.assoc)

lemma ccm_decrypt_encrypt:
  "crypt_bytes (ccm_decrypt_byte P ctx) c (snd (crypt_bytes (ccm_encrypt_byte P ctx) c xs))
     = (fst (crypt_bytes (ccm_encrypt_byte P ctx) c xs), xs)"
  by (rule crypt_bytes_inverse) (rule ccm_decrypt_encrypt_byte)

lemma rc4_byte_inverse: "rc4_byte P c (snd (rc4_byte P c x)) = (fst (rc4_byte P c x), x)"
  by (simp add: rc4_byte_def xor.assoc)

lemma rc4_crypt_inverse:
  "rc4_crypt P c (snd (rc4_crypt P c xs)) = (fst (rc4_crypt P c xs), xs)"
  unfolding rc4_crypt_def by (rule crypt_bytes_inverse) (rule rc4_byte_inverse)

lemma rc4_crypt_append:
  "rc4_crypt P c (xs @ ys) =
     (fst (rc4_crypt P (fst (rc4_crypt P c xs)) ys),
      snd (rc4_crypt P c xs) @ snd (rc4_crypt P (fst (rc4_crypt P c xs)) ys))"
  unfolding rc4_crypt_def by (rule crypt_bytes_append)

lemma length_rc4_crypt: "length (snd (rc4_crypt P c xs)) = length xs"
  unfolding rc4_crypt_def by (rule length_crypt_bytes)

lemma crc_append:
  "ether_crc32_le_update P crc (xs @ ys) =
     ether_crc32_le_update P (ether_crc32_le_update P crc xs) ys"
  by (simp add: ether_crc32_le_update_def)

lemma rc4_crypt_Nil: "rc4_crypt P c [] = (c, [])"
  by (simp add: rc4_crypt_def)

lemma crc_Nil: "ether_crc32_le_update P crc [] = crc"
  by (simp add: ether_crc32_le_update_def)

lemma streaming_tkip_encrypt: "streaming (tkip_encrypt_chunk P)"
  unfolding streaming_def tkip_encrypt_chunk_def
  by (intro conjI allI)
     (simp_all add: Let_def rc4_crypt_append crc_append length_rc4_crypt rc4_crypt_Nil crc_Nil)

lemma streaming_tkip_decrypt: "streaming (tkip_decrypt_chunk P)"
  unfolding streaming_def tkip_decrypt_chunk_def
  by (intro conjI allI)
     (simp_all add: Let_def rc4_crypt_append crc_append length_rc4_crypt rc4_crypt_Nil crc_Nil)

lemma tkip_decrypt_encrypt_chunk:
  "tkip_decrypt_chunk P c (snd (tkip_encrypt_chunk P c xs)) = (fst (tkip_encrypt_chunk P c xs), xs)"
  by (simp add: tkip_decrypt_chunk_def tkip_encrypt_chunk_def Let_def rc4_crypt_inverse)

lemma length_tkip_chunk:
  "length (snd (tkip_encrypt_chunk P c xs)) = length xs"
  "length (snd (tkip_decrypt_chunk P c xs)) = length xs"
  by (simp_all add: tkip_encrypt_chunk_def tkip_decrypt_chunk_def Let_def length_rc4_crypt)

subsection \<open>The body loop when the output does not fit the first buffer\<close>

text \<open>
  When the room left in \<^verbatim>\<open>next\<close> is less than \<^verbatim>\<open>left\<close>, the loop never ends with
  \<^verbatim>\<open>left = 0\<close>: each buffer it allocates has \<^verbatim>\<open>io_len = 0\<close>, so \<^verbatim>\<open>len\<close> is 0 from
  then on. It returns only when \<^verbatim>\<open>iob_alloc\<close> fails.
\<close>

lemma body_loop_no_progress:
  assumes "body_loop crypt cfg env st = Some y"
    and "io_len (ls_next st) - ls_noff st < ls_left st"
    and "ls_noff st \<le> io_len (ls_next st)"
  shows "fst y \<noteq> None"
  using assms
proof (induction rule: body_loop.raw_induct [rotated 1, consumes 1])
  case (1 bl crypt cfg env st y)
  from "1.prems" have pos: "0 < ls_left st" by simp
  show ?case
  proof (cases "ls_iob st")
    case Nil
    with "1.hyps" pos show ?thesis by auto
  next
    case (Cons iob flink)
    define st1 where
      "st1 = (if ls_moff st = io_len iob then st\<lparr>ls_iob := flink, ls_moff := 0\<rparr> else st)"
    have same1: "ls_noff st1 = ls_noff st" "ls_next st1 = ls_next st" "ls_left st1 = ls_left st"
      by (simp_all add: st1_def)
    define st2 where
      "st2 = (if ls_noff st1 = io_len (ls_next st1)
              then st1\<lparr>ls_done := ls_done st1 @ [ls_next st1],
                      ls_next := \<lparr>io_len = 0, io_data = iob_fresh cfg\<rparr>,
                      ls_noff := 0,
                      ls_nalloc := Suc (ls_nalloc st1)\<rparr>
              else st1)"
    have inv2: "io_len (ls_next st2) - ls_noff st2 < ls_left st2"
       "ls_noff st2 \<le> io_len (ls_next st2)"
      using "1.prems" pos by (auto simp add: st2_def same1)
    define len where "len = min (io_len (hd (ls_iob st2)) - ls_moff st2) (io_len (ls_next st2) - ls_noff st2)"
    define r where "r = crypt (ls_cipher st2) (take len (drop (ls_moff st2) (io_data (hd (ls_iob st2)))))"
    define st3 where "st3 = st2\<lparr>ls_next := (ls_next st2)\<lparr>io_data :=
                                       store (io_data (ls_next st2)) (ls_noff st2) (snd r)\<rparr>,
                                   ls_moff := ls_moff st2 + len,
                                   ls_noff := ls_noff st2 + len,
                                   ls_left := ls_left st2 - len,
                                   ls_cipher := fst r\<rparr>"
    have alt: "fst y \<noteq> None \<or> bl crypt cfg env st3 = Some y"
      using "1.hyps" pos Cons
      by (cases st) (auto simp add: Let_def st1_def st2_def st3_def len_def r_def
            split: if_splits list.splits)
    have inv3: "io_len (ls_next st3) - ls_noff st3 < ls_left st3"
       "ls_noff st3 \<le> io_len (ls_next st3)"
      using inv2 by (auto simp add: st3_def len_def)
    from alt show ?thesis
    proof
      assume "bl crypt cfg env st3 = Some y"
      from "1.IH" [OF this inv3] show ?thesis .
    qed
  qed
qed

lemma body_loop_short_room:
  assumes "body_loop crypt cfg env st = Some y"
    and "io_len (ls_next st) - ls_noff st < ls_left st"
    and "ls_noff st \<le> io_len (ls_next st)"
    and "list_all wf_iob (ls_iob st)"
    and "ls_iob st \<noteq> [] \<longrightarrow> ls_moff st \<le> io_len (hd (ls_iob st))"
    and "ls_moff st + ls_left st \<le> length (iobs_bytes (ls_iob st))"
  shows "fst y = Some Nospace \<and> (\<exists>n. \<not> alloc_ok env n)"
  using assms
proof (induction rule: body_loop.raw_induct [rotated 1, consumes 1])
  case (1 bl crypt cfg env st y)
  from "1.prems" have pos: "0 < ls_left st" by simp
  with "1.prems"(5) have "ls_iob st \<noteq> []" by (auto simp: iobs_bytes_Nil)
  then obtain iob flink where Cons: "ls_iob st = iob # flink" by (cases "ls_iob st") auto
  have wfi: "wf_iob iob" and wff: "list_all wf_iob flink"
    using "1.prems"(3) Cons by auto
  have moff: "ls_moff st \<le> io_len iob" using "1.prems"(4) Cons by simp
  define st1 where
    "st1 = (if ls_moff st = io_len iob then st\<lparr>ls_iob := flink, ls_moff := 0\<rparr> else st)"
  have same1: "ls_noff st1 = ls_noff st" "ls_next st1 = ls_next st" "ls_left st1 = ls_left st"
    by (simp_all add: st1_def)
  have avail1: "ls_moff st1 + ls_left st1 \<le> length (iobs_bytes (ls_iob st1))"
    using "1.prems"(5) Cons wfi by (auto simp add: st1_def iobs_bytes_Cons length_iob_bytes)
  then have "ls_iob st1 \<noteq> []" using pos by (auto simp: iobs_bytes_Nil same1)
  then obtain cur rest where cur: "ls_iob st1 = cur # rest" by (cases "ls_iob st1") auto
  have wf1: "list_all wf_iob (ls_iob st1)" using wfi wff Cons by (auto simp: st1_def)
  then have wfc: "wf_iob cur" using cur by simp
  have moff1: "ls_moff st1 \<le> io_len cur"
    using cur moff Cons by (auto simp: st1_def split: if_splits)
  define st2 where
    "st2 = (if ls_noff st1 = io_len (ls_next st1)
            then st1\<lparr>ls_done := ls_done st1 @ [ls_next st1],
                    ls_next := \<lparr>io_len = 0, io_data = iob_fresh cfg\<rparr>,
                    ls_noff := 0,
                    ls_nalloc := Suc (ls_nalloc st1)\<rparr>
            else st1)"
  have same2: "ls_iob st2 = ls_iob st1" "ls_moff st2 = ls_moff st1" "ls_left st2 = ls_left st1"
    by (simp_all add: st2_def)
  have inv2: "io_len (ls_next st2) - ls_noff st2 < ls_left st2"
     "ls_noff st2 \<le> io_len (ls_next st2)"
    using "1.prems" pos by (auto simp add: st2_def same1)
  define len where "len = min (io_len cur - ls_moff st2) (io_len (ls_next st2) - ls_noff st2)"
  define r where "r = crypt (ls_cipher st2) (take len (drop (ls_moff st2) (io_data cur)))"
  define st3 where "st3 = st2\<lparr>ls_next := (ls_next st2)\<lparr>io_data :=
                                     store (io_data (ls_next st2)) (ls_noff st2) (snd r)\<rparr>,
                                 ls_moff := ls_moff st2 + len,
                                 ls_noff := ls_noff st2 + len,
                                 ls_left := ls_left st2 - len,
                                 ls_cipher := fst r\<rparr>"
  have alt: "(fst y = Some Nospace \<and> (\<exists>n. \<not> alloc_ok env n)) \<or> bl crypt cfg env st3 = Some y"
    using "1.hyps" pos Cons cur moff1 inv2(2)
    by (cases st) (auto simp add: Let_def st1_def st2_def st3_def len_def r_def
          split: if_splits list.splits)
  have len_le: "len \<le> ls_left st2" "ls_moff st2 + len \<le> io_len cur"
    using inv2 moff1 by (auto simp: len_def same2)
  have inv3: "io_len (ls_next st3) - ls_noff st3 < ls_left st3"
     "ls_noff st3 \<le> io_len (ls_next st3)"
    using inv2 by (auto simp add: st3_def len_def)
  have p3: "list_all wf_iob (ls_iob st3)" using wf1 by (simp add: st3_def same2)
  have p4: "ls_iob st3 \<noteq> [] \<longrightarrow> ls_moff st3 \<le> io_len (hd (ls_iob st3))"
    using len_le cur by (simp add: st3_def same2)
  have p5: "ls_moff st3 + ls_left st3 \<le> length (iobs_bytes (ls_iob st3))"
    using avail1 len_le by (simp add: st3_def same2)
  from alt show ?case
  proof
    assume "bl crypt cfg env st3 = Some y"
    from "1.IH" [OF this inv3 p3 p4 p5] show ?thesis .
  qed
qed



lemma body_loop_diverges:
  assumes "\<forall>n. alloc_ok env n"
    and "io_len (ls_next st) - ls_noff st < ls_left st"
    and "ls_noff st \<le> io_len (ls_next st)"
    and "list_all wf_iob (ls_iob st)"
    and "ls_iob st \<noteq> [] \<longrightarrow> ls_moff st \<le> io_len (hd (ls_iob st))"
    and "ls_moff st + ls_left st \<le> length (iobs_bytes (ls_iob st))"
  shows "body_loop crypt cfg env st = None"
proof (cases "body_loop crypt cfg env st")
  case (Some y)
  from body_loop_short_room [OF Some assms(2-6)] assms(1) show ?thesis by blast
qed simp

lemma ccmp_encrypt_init_sel:
  "ls_iob (ccmp_encrypt_init P cfg F k1 ctx) = chain_iobs F"
  "ls_moff (ccmp_encrypt_init P cfg F k1 ctx) = ieee80211_get_hdrlen (io_data (io_head F))"
  "ls_noff (ccmp_encrypt_init P cfg F k1 ctx) = ieee80211_get_hdrlen (io_data (io_head F)) + 8"
  "ls_left (ccmp_encrypt_init P cfg F k1 ctx) = io_pktlen F - ieee80211_get_hdrlen (io_data (io_head F))"
  "io_len (ls_next (ccmp_encrypt_init P cfg F k1 ctx)) = first_len cfg (io_pktlen F + 8)"
  "ls_done (ccmp_encrypt_init P cfg F k1 ctx) = []"
  "ls_nalloc (ccmp_encrypt_init P cfg F k1 ctx) = 1"
  by (simp_all add: ccmp_encrypt_init_def Let_def IEEE80211_CCMP_HDRLEN_def)

lemma tkip_encrypt_init_sel:
  "ls_iob (tkip_encrypt_init cfg F k1 ctx) = chain_iobs F"
  "ls_moff (tkip_encrypt_init cfg F k1 ctx) = ieee80211_get_hdrlen (io_data (io_head F))"
  "ls_noff (tkip_encrypt_init cfg F k1 ctx) = ieee80211_get_hdrlen (io_data (io_head F)) + 8"
  "ls_left (tkip_encrypt_init cfg F k1 ctx) = io_pktlen F - ieee80211_get_hdrlen (io_data (io_head F))"
  "io_len (ls_next (tkip_encrypt_init cfg F k1 ctx)) = first_len cfg (io_pktlen F + 8)"
  "ls_done (tkip_encrypt_init cfg F k1 ctx) = []"
  "ls_nalloc (tkip_encrypt_init cfg F k1 ctx) = 1"
  by (simp_all add: tkip_encrypt_init_def Let_def IEEE80211_TKIP_HDRLEN_def)

lemma ccmp_encrypt_oversize:
  assumes big: "CONFIG_IEEE80211_BUFSIZE cfg < io_pktlen F + 8"
  shows "\<not> returns_frame (ieee80211_ccmp_encrypt P cfg env F k)"
proof
  assume "returns_frame (ieee80211_ccmp_encrypt P cfg env F k)"
  then obtain E k' where r: "ieee80211_ccmp_encrypt P cfg env F k = Some (Inr E, k')"
    using returns_frameD by blast
  then obtain ctx where priv: "k_priv k = Some (CCMP_ctx ctx)"
    by (auto simp add: ieee80211_ccmp_encrypt_def split: option.splits priv_ctx.splits)
  define st0 where "st0 = ccmp_encrypt_init P cfg F (k\<lparr>k_tsc := k_tsc k + 1\<rparr>) (rijndael ctx)"
  from r priv have fit: "ieee80211_get_hdrlen (io_data (io_head F)) + 8 \<le> CONFIG_IEEE80211_BUFSIZE cfg"
    by (auto simp add: ieee80211_ccmp_encrypt_def IEEE80211_CCMP_HDRLEN_def split: if_splits)
  from r priv obtain st where
    l: "body_loop (crypt_bytes (ccm_encrypt_byte P (rijndael ctx))) cfg env st0 = Some (None, st)"
    by (auto simp add: ieee80211_ccmp_encrypt_def Let_def st0_def
          split: option.splits if_splits prod.splits)
  have "io_len (ls_next st0) - ls_noff st0 < ls_left st0" "ls_noff st0 \<le> io_len (ls_next st0)"
    using fit big by (simp_all add: st0_def ccmp_encrypt_init_sel first_len_def)
  from body_loop_no_progress [OF l this] show False by simp
qed

lemma tkip_encrypt_oversize:
  assumes big: "CONFIG_IEEE80211_BUFSIZE cfg < io_pktlen F + 8"
  shows "\<not> returns_frame (ieee80211_tkip_encrypt P cfg env F k)"
proof
  assume "returns_frame (ieee80211_tkip_encrypt P cfg env F k)"
  then obtain E k' where r: "ieee80211_tkip_encrypt P cfg env F k = Some (Inr E, k')"
    using returns_frameD by blast
  then obtain ctx where priv: "k_priv k = Some (TKIP_ctx ctx)"
    by (auto simp add: ieee80211_tkip_encrypt_def split: option.splits priv_ctx.splits)
  define st0 where "st0 = tkip_encrypt_init cfg F (k\<lparr>k_tsc := k_tsc k + 1\<rparr>)
                 (tkip_tx_ttak ctx (k\<lparr>k_tsc := k_tsc k + 1\<rparr>) (io_data (io_head F)))"
  from r priv have fit: "ieee80211_get_hdrlen (io_data (io_head F)) + 8 \<le> CONFIG_IEEE80211_BUFSIZE cfg"
    by (auto simp add: ieee80211_tkip_encrypt_def IEEE80211_TKIP_HDRLEN_def split: if_splits)
  from r priv obtain st where
    l: "body_loop (tkip_encrypt_chunk P) cfg env st0 = Some (None, st)"
    by (auto simp add: ieee80211_tkip_encrypt_def Let_def st0_def
          split: option.splits if_splits prod.splits)
  have "io_len (ls_next st0) - ls_noff st0 < ls_left st0" "ls_noff st0 \<le> io_len (ls_next st0)"
    using fit big by (simp_all add: st0_def tkip_encrypt_init_sel first_len_def)
  from body_loop_no_progress [OF l this] show False by simp
qed

lemma ccmp_encrypt_diverges:
  assumes "\<forall>n. alloc_ok env n" and "clone_ok env"
    and "k_priv k = Some (CCMP_ctx ctx)"
    and "list_all wf_iob (chain_iobs F)"
    and "ieee80211_get_hdrlen (io_data (io_head F)) \<le> io_len (io_head F)"
    and "io_pktlen F \<le> length (chain_bytes F)"
    and "ieee80211_get_hdrlen (io_data (io_head F)) + 8 \<le> CONFIG_IEEE80211_BUFSIZE cfg"
    and "CONFIG_IEEE80211_BUFSIZE cfg < io_pktlen F + 8"
  shows "ieee80211_ccmp_encrypt P cfg env F k = None"
proof -
  have "body_loop (crypt_bytes (ccm_encrypt_byte P (rijndael ctx))) cfg env
              (ccmp_encrypt_init P cfg F (k\<lparr>k_tsc := k_tsc k + 1\<rparr>) (rijndael ctx)) = None"
    using assms
    by (intro body_loop_diverges)
       (simp_all add: ccmp_encrypt_init_sel first_len_def chain_bytes_def chain_iobs_def)
  then show ?thesis
    using assms by (simp add: ieee80211_ccmp_encrypt_def Let_def IEEE80211_CCMP_HDRLEN_def)
qed

lemma tkip_encrypt_diverges:
  assumes "\<forall>n. alloc_ok env n" and "clone_ok env"
    and "k_priv k = Some (TKIP_ctx ctx)"
    and "list_all wf_iob (chain_iobs F)"
    and "ieee80211_get_hdrlen (io_data (io_head F)) \<le> io_len (io_head F)"
    and "io_pktlen F \<le> length (chain_bytes F)"
    and "ieee80211_get_hdrlen (io_data (io_head F)) + 8 \<le> CONFIG_IEEE80211_BUFSIZE cfg"
    and "CONFIG_IEEE80211_BUFSIZE cfg < io_pktlen F + 8"
  shows "ieee80211_tkip_encrypt P cfg env F k = None"
proof -
  have "body_loop (tkip_encrypt_chunk P) cfg env
              (tkip_encrypt_init cfg F (k\<lparr>k_tsc := k_tsc k + 1\<rparr>)
                 (tkip_tx_ttak ctx (k\<lparr>k_tsc := k_tsc k + 1\<rparr>) (io_data (io_head F)))) = None"
    using assms
    by (intro body_loop_diverges)
       (simp_all add: tkip_encrypt_init_sel first_len_def chain_bytes_def chain_iobs_def)
  then show ?thesis
    using assms by (simp add: ieee80211_tkip_encrypt_def Let_def IEEE80211_TKIP_HDRLEN_def)
qed

text \<open>The frame \<open>frame60\<close>, and what the two functions return for it once the allocator
  has handed out three buffers.\<close>

lemma frame60_facts:
  "list_all wf_iob (chain_iobs frame60)"
  "ieee80211_get_hdrlen (io_data (io_head frame60)) = 24"
  "io_len (io_head frame60) = 60"
  "io_pktlen frame60 = 60"
  "length (chain_bytes frame60) = 60"
  "CONFIG_IEEE80211_BUFSIZE cfg64 = 64"
  by code_simp+

lemma ccmp_pool3: "map_option fst (ieee80211_ccmp_encrypt toy_prims cfg64 env_pool3 frame60 ccmp_key0) = Some (Inl Nospace)"
  by code_simp

lemma tkip_pool3: "map_option fst (ieee80211_tkip_encrypt toy_prims cfg64 env_pool3 frame60 tkip_key0) = Some (Inl Nospace)"
  by code_simp

subsection \<open>Output buffers\<close>

lemma length_iob_fresh: "length (iob_fresh cfg) = CONFIG_IEEE80211_BUFSIZE cfg"
  by (simp add: iob_fresh_def)

lemma length_bytes_at: "length (bytes_at wh off n) = n"
  by (simp add: bytes_at_def)

lemma bytes_at_take: "off + n \<le> length wh \<Longrightarrow> bytes_at wh off n = take n (drop off wh)"
  by (auto simp add: bytes_at_def list_eq_iff_nth_eq)

lemma take_store_full:
  "off + length xs \<le> length d \<Longrightarrow> take (off + length xs) (store d off xs) = take off d @ xs"
  by (simp add: store_def)

lemma take_store_below: "n \<le> off \<Longrightarrow> off \<le> length d \<Longrightarrow> take n (store d off xs) = take n d"
  by (simp add: store_def min_def)

lemma nth_store_below: "i < off \<Longrightarrow> off \<le> length d \<Longrightarrow> store d off xs ! i = d ! i"
  by (simp add: store_def nth_append)

lemma take_update_above: "n \<le> i \<Longrightarrow> take n (xs[i := v]) = take n xs"
  by simp

lemma append_tail_bytes:
  assumes "length (io_data next) = CONFIG_IEEE80211_BUFSIZE cfg"
    and "io_len next \<le> CONFIG_IEEE80211_BUFSIZE cfg"
    and "length t \<le> CONFIG_IEEE80211_BUFSIZE cfg"
  shows "iobs_bytes (append_tail cfg next t) = iob_bytes next @ t"
    and "list_all wf_iob (append_tail cfg next t)"
    and "io_len next \<le> io_len (hd (append_tail cfg next t))"
    and "take (io_len next) (io_data (hd (append_tail cfg next t))) = take (io_len next) (io_data next)"
  using assms
  by (auto simp add: append_tail_def IOB_FREESPACE_def iobs_bytes_def iob_bytes_def wf_iob_def
        take_store_full take_store length_store length_iob_fresh store_def)

lemma append_tail_ne: "append_tail cfg next t \<noteq> []"
  by (simp add: append_tail_def)

lemma first_len_fit: "n \<le> CONFIG_IEEE80211_BUFSIZE cfg \<Longrightarrow> first_len cfg n = n"
  by (simp add: first_len_def)

lemma chain_bytes_head:
  assumes "wf_iob (io_head F)" and "h \<le> io_len (io_head F)"
  shows "take h (chain_bytes F) = take h (io_data (io_head F))"
  using assms
  by (simp add: chain_bytes_def chain_iobs_def iobs_bytes_Cons iob_bytes_def wf_iob_def min_def)

text \<open>
  The body loop of the two encrypt functions for a frame that fits: the first output
  buffer ends up holding the header, the security header and the encrypted body.
\<close>

lemma tx_loop_fits:
  assumes str: "streaming crypt"
    and wf: "list_all wf_iob (chain_iobs F)"
    and hc: "h \<le> io_len (io_head F)"
    and pl: "io_pktlen F = length (chain_bytes F)"
    and fit: "io_pktlen F + 8 \<le> CONFIG_IEEE80211_BUFSIZE cfg"
    and lh: "length hdr = h" and li: "length ivp = 8"
    and s1: "ls_iob st = chain_iobs F" and s2: "ls_moff st = h" and s3: "ls_done st = []"
    and s4: "io_len (ls_next st) = first_len cfg (io_pktlen F + 8)"
    and s5: "io_data (ls_next st) = store (store (iob_fresh cfg) 0 hdr) h ivp"
    and s6: "ls_noff st = h + 8" and s7: "ls_left st = io_pktlen F - h"
    and s8: "ls_nalloc st = 1"
  shows "\<exists>st'. body_loop crypt cfg env st = Some (None, st') \<and>
       ls_done st' = [] \<and> ls_nalloc st' = 1 \<and>
       io_len (ls_next st') = io_pktlen F + 8 \<and>
       length (io_data (ls_next st')) = CONFIG_IEEE80211_BUFSIZE cfg \<and>
       iob_bytes (ls_next st') =
          hdr @ ivp @ snd (crypt (ls_cipher st) (drop h (chain_bytes F))) \<and>
       ls_cipher st' = fst (crypt (ls_cipher st) (drop h (chain_bytes F)))"
proof -
  note s3' = str[unfolded streaming_def, THEN conjunct2, THEN conjunct2, rule_format]
  have wfh: "wf_iob (io_head F)" using wf by (simp add: chain_iobs_def)
  have hp: "h \<le> io_pktlen F"
    using hc wfh pl
    by (simp add: chain_bytes_def chain_iobs_def iobs_bytes_Cons length_iob_bytes)
  have il: "io_len (ls_next st) = io_pktlen F + 8" using s4 fit by (simp add: first_len_fit)
  have ld: "length (io_data (ls_next st)) = CONFIG_IEEE80211_BUFSIZE cfg"
    using fit hp lh li by (simp add: s5 length_store length_iob_fresh)
  have p1: "list_all wf_iob (ls_iob st)" using wf s1 by simp
  have p2: "ls_iob st \<noteq> []" by (simp add: s1 chain_iobs_def)
  have p3: "ls_moff st \<le> io_len (hd (ls_iob st))" using hc by (simp add: s1 s2 chain_iobs_def)
  have p4: "ls_moff st + ls_left st \<le> length (iobs_bytes (ls_iob st))"
    using hp pl by (simp add: s1 s2 s7 chain_bytes_def)
  have p5: "ls_noff st + ls_left st = io_len (ls_next st)" using hp by (simp add: s6 s7 il)
  have p6: "io_len (ls_next st) \<le> length (io_data (ls_next st))" using fit by (simp add: il ld)
  from body_loop_fits [OF str p1 p2 p3 p4 p5 p6, of cfg env]
  obtain st' where res: "body_loop crypt cfg env st = Some (None, st')"
    and d: "ls_done st' = ls_done st" and na: "ls_nalloc st' = ls_nalloc st"
    and il': "io_len (ls_next st') = io_len (ls_next st)"
    and dat: "io_data (ls_next st') = store (io_data (ls_next st)) (ls_noff st)
          (snd (crypt (ls_cipher st)
                  (take (ls_left st) (drop (ls_moff st) (iobs_bytes (ls_iob st))))))"
    and ci: "ls_cipher st' = fst (crypt (ls_cipher st)
                  (take (ls_left st) (drop (ls_moff st) (iobs_bytes (ls_iob st)))))"
    by blast
  have body: "take (ls_left st) (drop (ls_moff st) (iobs_bytes (ls_iob st))) = drop h (chain_bytes F)"
    using pl by (simp add: s1 s2 s7 chain_bytes_def)
  define C where "C = snd (crypt (ls_cipher st) (drop h (chain_bytes F)))"
  have lC: "length C = io_pktlen F - h" by (simp add: C_def s3' pl)
  have dat': "io_data (ls_next st') = store (store (store (iob_fresh cfg) 0 hdr) h ivp) (h + 8) C"
    by (simp add: dat body C_def s5 s6)
  have st2: "store (store (iob_fresh cfg) 0 hdr) h ivp = store (iob_fresh cfg) 0 (hdr @ ivp)"
    using store_store [of 0 "iob_fresh cfg" hdr ivp] lh by simp
  have st3: "store (store (iob_fresh cfg) 0 (hdr @ ivp)) (h + 8) C
               = store (iob_fresh cfg) 0 (hdr @ ivp @ C)"
    using store_store [of 0 "iob_fresh cfg" "hdr @ ivp" C] lh li by simp
  have bytes: "iob_bytes (ls_next st') = hdr @ ivp @ C"
  proof -
    have "iob_bytes (ls_next st') = take (0 + length (hdr @ ivp @ C)) (store (iob_fresh cfg) 0 (hdr @ ivp @ C))"
      using hp by (simp add: iob_bytes_def il' il dat' st2 st3 lh li lC add.commute)
    also have "\<dots> = take 0 (iob_fresh cfg) @ (hdr @ ivp @ C)"
      using fit hp by (intro take_store_full) (simp add: lh li lC length_iob_fresh)
    finally show ?thesis by simp
  qed
  have ld': "length (io_data (ls_next st')) = CONFIG_IEEE80211_BUFSIZE cfg"
    using fit hp by (simp add: dat' st2 st3 length_store lh li lC length_iob_fresh)
  show ?thesis
    using res d na il' bytes ld' ci body
    by (intro exI [of _ st']) (simp add: s3 s8 il C_def)
qed

subsection \<open>Headers\<close>

text \<open>What the code reads of a header lies within its first \<^verbatim>\<open>hdrlen\<close> octets: two
  data areas that agree there give the same values.\<close>

lemma hdrlen_ge_24: "24 \<le> ieee80211_get_hdrlen wh"
  by (simp add: ieee80211_get_hdrlen_def)

lemma bytes_at_cong:
  "\<forall>i<h. wh' ! i = wh ! i \<Longrightarrow> off + n \<le> h \<Longrightarrow> bytes_at wh' off n = bytes_at wh off n"
  by (simp add: bytes_at_def)

lemma hdr_fc_cong:
  assumes "\<forall>i<ieee80211_get_hdrlen wh. wh' ! i = wh ! i"
  shows "i_fc0 wh' = i_fc0 wh" and "i_fc1 wh' = i_fc1 wh"
  using assms hdrlen_ge_24 [of wh] by (simp_all add: i_fc0_def i_fc1_def)

lemma has_cong:
  assumes "i_fc0 wh' = i_fc0 wh" and "i_fc1 wh' = i_fc1 wh"
  shows "ieee80211_has_addr4 wh' = ieee80211_has_addr4 wh"
    and "ieee80211_has_qos wh' = ieee80211_has_qos wh"
    and "ieee80211_has_htc wh' = ieee80211_has_htc wh"
    and "ieee80211_get_hdrlen wh' = ieee80211_get_hdrlen wh"
    and "ccmp_is_data wh' = ccmp_is_data wh"
  using assms
  by (simp_all add: ieee80211_has_addr4_def ieee80211_has_qos_def ieee80211_has_htc_def
        ieee80211_get_hdrlen_def ccmp_is_data_def)

lemma hdr_addr_cong:
  assumes "\<forall>i<ieee80211_get_hdrlen wh. wh' ! i = wh ! i"
  shows "i_addr1 wh' = i_addr1 wh" and "i_addr2 wh' = i_addr2 wh" and "i_addr3 wh' = i_addr3 wh"
    and "i_seq0 wh' = i_seq0 wh"
    and "ieee80211_has_addr4 wh \<Longrightarrow> i_addr4 wh' = i_addr4 wh"
    and "ieee80211_has_qos wh \<Longrightarrow> ieee80211_get_qos wh' = ieee80211_get_qos wh"
proof -
  note a = assms [rule_format]
  have h24: "24 \<le> ieee80211_get_hdrlen wh" by (rule hdrlen_ge_24)
  show "i_addr1 wh' = i_addr1 wh" "i_addr2 wh' = i_addr2 wh" "i_addr3 wh' = i_addr3 wh"
    using h24 assms
    by (simp_all add: i_addr1_def i_addr2_def i_addr3_def IEEE80211_ADDR_LEN_def bytes_at_def)
  show "i_seq0 wh' = i_seq0 wh" using h24 a [of 22] by (simp add: i_seq0_def)
  show "i_addr4 wh' = i_addr4 wh" if "ieee80211_has_addr4 wh"
  proof -
    from that have "30 \<le> ieee80211_get_hdrlen wh"
      by (simp add: ieee80211_get_hdrlen_def IEEE80211_ADDR_LEN_def)
    then show ?thesis using assms
      by (simp add: i_addr4_def IEEE80211_ADDR_LEN_def bytes_at_def)
  qed
  show "ieee80211_get_qos wh' = ieee80211_get_qos wh" if q: "ieee80211_has_qos wh"
  proof (cases "ieee80211_has_addr4 wh")
    case True
    with q have "32 \<le> ieee80211_get_hdrlen wh"
      by (simp add: ieee80211_get_hdrlen_def IEEE80211_ADDR_LEN_def)
    then have "wh' ! 30 = wh ! 30" "wh' ! 31 = wh ! 31" using a [of 30] a [of 31] by simp_all
    moreover have "ieee80211_has_addr4 wh'"
      using True has_cong(1) [OF hdr_fc_cong [OF assms]] by simp
    ultimately show ?thesis using True by (simp add: ieee80211_get_qos_def)
  next
    case False
    from q have "26 \<le> ieee80211_get_hdrlen wh"
      by (simp add: ieee80211_get_hdrlen_def)
    then have "wh' ! 24 = wh ! 24" "wh' ! 25 = wh ! 25" using a [of 24] a [of 25] by simp_all
    moreover have "\<not> ieee80211_has_addr4 wh'"
      using False has_cong(1) [OF hdr_fc_cong [OF assms]] by simp
    ultimately show ?thesis using False by (simp add: ieee80211_get_qos_def)
  qed
qed

lemma ccmp_hdr_cong:
  assumes "\<forall>i<ieee80211_get_hdrlen wh. wh' ! i = wh ! i"
  shows "ieee80211_ccmp_phase1 P ctx wh' pn lm = ieee80211_ccmp_phase1 P ctx wh pn lm"
    and "ccmp_prsc k wh' = ccmp_prsc k wh"
    and "ccmp_prsc_update k wh' pn = ccmp_prsc_update k wh pn"
    and "frame_tid wh' = frame_tid wh"
proof -
  note fc = hdr_fc_cong [OF assms]
  note has = has_cong [OF fc]
  note ad = hdr_addr_cong [OF assms]
  have tid: "ccmp_tid wh' = ccmp_tid wh"
    by (simp add: ccmp_tid_def has ad)
  show ft: "frame_tid wh' = frame_tid wh"
    by (simp add: frame_tid_def has ad)
  have aad: "ccmp_aad wh' = ccmp_aad wh"
    by (simp add: ccmp_aad_def fc has ad tid)
  have nonce: "ccmp_nonce wh' pn = ccmp_nonce wh pn"
    by (simp add: ccmp_nonce_def fc ad tid)
  show "ieee80211_ccmp_phase1 P ctx wh' pn lm = ieee80211_ccmp_phase1 P ctx wh pn lm"
    by (simp add: ieee80211_ccmp_phase1_def ccmp_auth_def aad nonce)
  show "ccmp_prsc k wh' = ccmp_prsc k wh" by (simp add: ccmp_prsc_def has ft)
  show "ccmp_prsc_update k wh' pn = ccmp_prsc_update k wh pn"
    by (simp add: ccmp_prsc_update_def has ft)
qed

lemma prefix_agree:
  assumes "take (h + m) wh' = take h wh @ xs" and "h \<le> length wh"
  shows "\<forall>i<h. wh' ! i = wh ! i"
proof (intro allI impI)
  fix i assume i: "i < h"
  then have "wh' ! i = take (h + m) wh' ! i" by simp
  also have "\<dots> = (take h wh @ xs) ! i" by (simp only: assms(1))
  also have "\<dots> = wh ! i" using i assms(2) by (simp add: nth_append)
  finally show "wh' ! i = wh ! i" .
qed

subsection \<open>CCMP: a frame that fits the first output buffer\<close>

lemma ccmp_encrypt_init_sel2:
  "io_data (ls_next (ccmp_encrypt_init P cfg F k1 ctx)) =
     store (store (iob_fresh cfg) 0
              (bytes_at (io_data (io_head F)) 0 (ieee80211_get_hdrlen (io_data (io_head F)))))
       (ieee80211_get_hdrlen (io_data (io_head F))) (ccmp_ivp (k_tsc k1) (k_id k1))"
  "ls_cipher (ccmp_encrypt_init P cfg F k1 ctx) =
     ccm_start P ctx (ieee80211_ccmp_phase1 P ctx (io_data (io_head F)) (k_tsc k1)
        (int (io_pktlen F) - int (ieee80211_get_hdrlen (io_data (io_head F)))))"
  by (simp_all add: ccmp_encrypt_init_def Let_def)

lemma length_ccm_mic: "length (ccm_mic P ctx c s0) = 8"
  by (simp add: ccm_mic_def Let_def IEEE80211_CCMP_MICLEN_def)

lemma ccmp_encrypt_tail_append:
  assumes "alloc_ok env (ls_nalloc st)"
  shows "ccmp_encrypt_tail P cfg env ctx s0 pktlen st =
           Inr (mk_chain (pktlen + 8)
                  (ls_done st @ append_tail cfg (ls_next st) (ccm_mic P ctx (ls_cipher st) s0)))"
  using assms
  by (simp add: ccmp_encrypt_tail_def append_tail_def Let_def length_ccm_mic
        IEEE80211_CCMP_MICLEN_def)

lemma chain_mk_chain:
  "bs \<noteq> [] \<Longrightarrow> chain_iobs (mk_chain n bs) = bs"
  "io_pktlen (mk_chain n bs) = n"
  "io_head (mk_chain n bs) = hd bs"
  by (simp_all add: chain_iobs_def mk_chain_def)

lemma ccmp_encrypt_fits:
  fixes P cfg env F k ctx
  defines "wh \<equiv> io_data (io_head F)"
  defines "h \<equiv> ieee80211_get_hdrlen wh"
  defines "k1 \<equiv> k\<lparr>k_tsc := k_tsc k + 1\<rparr>"
  defines "bas \<equiv> ieee80211_ccmp_phase1 P (rijndael ctx) wh (k_tsc k1) (int (io_pktlen F) - int h)"
  defines "r \<equiv> crypt_bytes (ccm_encrypt_byte P (rijndael ctx)) (ccm_start P (rijndael ctx) bas)
                 (drop h (chain_bytes F))"
  assumes priv: "k_priv k = Some (CCMP_ctx ctx)"
    and a0: "alloc_ok env 0" and cl: "clone_ok env" and a1: "alloc_ok env 1"
    and wf: "list_all wf_iob (chain_iobs F)"
    and hc: "h \<le> io_len (io_head F)"
    and pl: "io_pktlen F = length (chain_bytes F)"
    and fit: "io_pktlen F + 8 \<le> CONFIG_IEEE80211_BUFSIZE cfg"
  shows "\<exists>E. ieee80211_ccmp_encrypt P cfg env F k = Some (Inr E, k1) \<and>
           io_pktlen E = io_pktlen F + 16 \<and>
           list_all wf_iob (chain_iobs E) \<and>
           h + 8 \<le> io_len (io_head E) \<and>
           chain_bytes E = take h wh @ ccmp_ivp (k_tsc k1) (k_id k1) @ snd r @
                             ccm_mic P (rijndael ctx) (fst r) (snd (snd bas))"
proof -
  define st0 where "st0 = ccmp_encrypt_init P cfg F k1 (rijndael ctx)"
  define crypt where "crypt = crypt_bytes (ccm_encrypt_byte P (rijndael ctx))"
  have wfh: "wf_iob (io_head F)" using wf by (simp add: chain_iobs_def)
  have hl: "h \<le> length wh" using hc wfh by (simp add: wf_iob_def wh_def)
  have hp: "h \<le> io_pktlen F"
    using hc wfh pl
    by (simp add: chain_bytes_def chain_iobs_def iobs_bytes_Cons length_iob_bytes)
  have hdr: "bytes_at wh 0 h = take h wh" using hl by (simp add: bytes_at_take)
  have c0: "ls_cipher st0 = ccm_start P (rijndael ctx) bas"
    by (simp add: st0_def ccmp_encrypt_init_sel2 bas_def wh_def h_def)
  from tx_loop_fits [where crypt = crypt and F = F and h = h and cfg = cfg and env = env
      and hdr = "bytes_at wh 0 h" and ivp = "ccmp_ivp (k_tsc k1) (k_id k1)" and st = st0,
      OF _ wf hc pl fit]
  obtain st' where res: "body_loop crypt cfg env st0 = Some (None, st')"
    and d: "ls_done st' = []" and na: "ls_nalloc st' = 1"
    and il: "io_len (ls_next st') = io_pktlen F + 8"
    and ld: "length (io_data (ls_next st')) = CONFIG_IEEE80211_BUFSIZE cfg"
    and byt: "iob_bytes (ls_next st') = bytes_at wh 0 h @ ccmp_ivp (k_tsc k1) (k_id k1) @ snd r"
    and ci: "ls_cipher st' = fst r"
    unfolding crypt_def st0_def r_def c0 [unfolded st0_def, symmetric]
    by (auto simp add: streaming_crypt_bytes length_bytes_at length_ccmp_ivp
          ccmp_encrypt_init_sel ccmp_encrypt_init_sel2 wh_def h_def)
  define mic where "mic = ccm_mic P (rijndael ctx) (fst r) (snd (snd bas))"
  define E where "E = mk_chain (io_pktlen F + 8 + 8) (append_tail cfg (ls_next st') mic)"
  have lm: "length mic \<le> CONFIG_IEEE80211_BUFSIZE cfg"
    using fit by (simp add: mic_def length_ccm_mic)
  have iln: "io_len (ls_next st') \<le> CONFIG_IEEE80211_BUFSIZE cfg" using fit by (simp add: il)
  note at = append_tail_bytes [OF ld iln lm]
  have fitc: "\<not> CONFIG_IEEE80211_BUFSIZE cfg < ieee80211_get_hdrlen (io_data (io_head F)) + IEEE80211_CCMP_HDRLEN"
    using fit hp by (simp add: h_def wh_def IEEE80211_CCMP_HDRLEN_def)
  have run: "ieee80211_ccmp_encrypt P cfg env F k = Some (Inr E, k1)"
    unfolding ieee80211_ccmp_encrypt_def
    using priv a0 cl fitc res [unfolded crypt_def st0_def k1_def] a1
    by (simp add: Let_def ccmp_encrypt_tail_append na d E_def mic_def ci bas_def h_def wh_def
          k1_def IEEE80211_CCMP_HDRLEN_def)
  have e1: "io_pktlen E = io_pktlen F + 16" by (simp add: E_def chain_mk_chain)
  have e2: "chain_iobs E = append_tail cfg (ls_next st') mic"
    by (simp add: E_def chain_mk_chain append_tail_ne)
  have e3: "list_all wf_iob (chain_iobs E)" by (simp add: e2 at)
  have e4: "h + 8 \<le> io_len (io_head E)"
    using at(3) hp by (simp add: E_def chain_mk_chain il)
  have e5: "chain_bytes E = take h wh @ ccmp_ivp (k_tsc k1) (k_id k1) @ snd r @ mic"
    by (simp add: chain_bytes_def e2 at byt hdr)
  show ?thesis
    using run e1 e3 e4 e5 by (intro exI [of _ E]) (simp add: mic_def)
qed

lemma ccmp_decrypt_init_sel:
  "ls_iob (ccmp_decrypt_init P cfg E ctx pn n) = chain_iobs E"
  "ls_moff (ccmp_decrypt_init P cfg E ctx pn n) = ieee80211_get_hdrlen (io_data (io_head E)) + 8"
  "ls_noff (ccmp_decrypt_init P cfg E ctx pn n) = ieee80211_get_hdrlen (io_data (io_head E))"
  "ls_left (ccmp_decrypt_init P cfg E ctx pn n) = n - ieee80211_get_hdrlen (io_data (io_head E))"
  "io_len (ls_next (ccmp_decrypt_init P cfg E ctx pn n)) = first_len cfg n"
  "ls_done (ccmp_decrypt_init P cfg E ctx pn n) = []"
  "ls_nalloc (ccmp_decrypt_init P cfg E ctx pn n) = 1"
  "io_data (ls_next (ccmp_decrypt_init P cfg E ctx pn n)) =
     (store (iob_fresh cfg) 0
        (bytes_at (io_data (io_head E)) 0 (ieee80211_get_hdrlen (io_data (io_head E)))))
     [1 := store (iob_fresh cfg) 0
        (bytes_at (io_data (io_head E)) 0 (ieee80211_get_hdrlen (io_data (io_head E)))) ! 1
           AND NOT IEEE80211_FC1_PROTECTED]"
  "ls_cipher (ccmp_decrypt_init P cfg E ctx pn n) =
     ccm_start P ctx (ieee80211_ccmp_phase1 P ctx (io_data (io_head E)) pn
        (int n - int (ieee80211_get_hdrlen (io_data (io_head E)))))"
  by (simp_all add: ccmp_decrypt_init_def Let_def IEEE80211_CCMP_HDRLEN_def)

text \<open>The header as the decrypt functions copy it: the PROTECTED bit cleared.\<close>

lemma cleared_header:
  assumes "length H = h" and "1 < h" and "h \<le> CONFIG_IEEE80211_BUFSIZE cfg"
  shows "take h ((store (iob_fresh cfg) 0 H)[1 := store (iob_fresh cfg) 0 H ! 1 AND NOT x])
           = H[1 := H ! 1 AND NOT x]"
    and "length ((store (iob_fresh cfg) 0 H)[1 := store (iob_fresh cfg) 0 H ! 1 AND NOT x])
           = CONFIG_IEEE80211_BUFSIZE cfg"
  using assms by (simp_all add: store_def take_update_swap nth_append length_iob_fresh)

lemma ccmp_decrypt_wire:
  fixes P cfg env E k ctx H ivp C M
  defines "wh \<equiv> io_data (io_head E)"
  defines "h \<equiv> ieee80211_get_hdrlen wh"
  defines "pn \<equiv> ccmp_pn ivp"
  defines "bas \<equiv> ieee80211_ccmp_phase1 P (rijndael ctx) wh pn (int (length C))"
  defines "r \<equiv> crypt_bytes (ccm_decrypt_byte P (rijndael ctx)) (ccm_start P (rijndael ctx) bas) C"
  assumes priv: "k_priv k = Some (CCMP_ctx ctx)"
    and a0: "alloc_ok env 0" and cl: "clone_ok env"
    and wf: "list_all wf_iob (chain_iobs E)"
    and pl: "io_pktlen E = length (chain_bytes E)"
    and bytes: "chain_bytes E = H @ ivp @ C @ M"
    and lH: "length H = h" and li: "length ivp = 8" and lM: "length M = 8"
    and head: "h + 8 \<le> io_len (io_head E)"
    and fit: "h + length C \<le> CONFIG_IEEE80211_BUFSIZE cfg"
    and ext: "ivp ! 3 AND IEEE80211_WEP_EXTIV \<noteq> 0"
    and fresh: "ccmp_prsc k wh < pn"
    and mic: "M = ccm_mic P (rijndael ctx) (fst r) (snd (snd bas))"
  shows "\<exists>D. ieee80211_ccmp_decrypt P cfg env E k = Some (Inr D, ccmp_prsc_update k wh pn) \<and>
           io_pktlen D = h + length C \<and>
           chain_bytes D = H[1 := H ! 1 AND NOT IEEE80211_FC1_PROTECTED] @ snd r"
proof -
  define crypt where "crypt = crypt_bytes (ccm_decrypt_byte P (rijndael ctx))"
  define n where "n = h + length C"
  define st0 where "st0 = ccmp_decrypt_init P cfg E (rijndael ctx) pn n"
  have str: "streaming crypt" by (simp add: crypt_def streaming_crypt_bytes)
  have wfh: "wf_iob (io_head E)" using wf by (simp add: chain_iobs_def)
  have hl: "h + 8 \<le> length wh" using head wfh by (simp add: wf_iob_def wh_def)
  have "take (h + 8) (chain_bytes E) = take (h + 8) wh"
    unfolding wh_def using wfh head by (rule chain_bytes_head)
  then have pre: "take (h + 8) wh = H @ ivp" by (simp add: bytes lH li)
  have H: "bytes_at wh 0 h = H"
  proof -
    have "take h (take (h + 8) wh) = H" by (simp only: pre) (simp add: lH)
    then show ?thesis using hl by (simp add: bytes_at_take min_def)
  qed
  have ivp: "bytes_at wh h 8 = ivp"
  proof -
    have "drop h (take (h + 8) wh) = ivp" by (simp only: pre) (simp add: lH)
    then show ?thesis using hl by (simp add: bytes_at_take drop_take)
  qed
  have pn: "ccmp_frame_pn E = pn"
    unfolding ccmp_frame_pn_def IEEE80211_CCMP_HDRLEN_def wh_def [symmetric] h_def [symmetric]
    by (simp only: ivp pn_def)
  have tot: "io_pktlen E = h + 8 + length C + 8" by (simp add: pl bytes lH li lM)
  have n: "io_pktlen E - 16 = n"
    by (simp add: tot n_def)
  have whh: "io_data (io_head E) = wh" by (simp add: wh_def)
  have hh: "ieee80211_get_hdrlen wh = h" by (simp add: h_def)
  have h24: "24 \<le> h" by (simp add: h_def hdrlen_ge_24)
  have hB: "h \<le> CONFIG_IEEE80211_BUFSIZE cfg" using fit by simp
  note sel = ccmp_decrypt_init_sel [of P cfg E "rijndael ctx" pn n, folded st0_def wh_def,
      folded h_def, unfolded H]
  have il: "io_len (ls_next st0) = n" using fit by (simp add: sel first_len_fit n_def)
  have ld: "length (io_data (ls_next st0)) = CONFIG_IEEE80211_BUFSIZE cfg"
    using cleared_header(2) [OF lH _ hB] h24 by (simp add: sel)
  have p1: "list_all wf_iob (ls_iob st0)" using wf by (simp add: sel)
  have p2: "ls_iob st0 \<noteq> []" by (simp add: sel chain_iobs_def)
  have p3: "ls_moff st0 \<le> io_len (hd (ls_iob st0))" using head by (simp add: sel chain_iobs_def)
  have p4: "ls_moff st0 + ls_left st0 \<le> length (iobs_bytes (ls_iob st0))"
    using pl tot by (simp add: sel n_def chain_bytes_def)
  have p5: "ls_noff st0 + ls_left st0 = io_len (ls_next st0)" by (simp add: sel(3,4) il n_def)
  have p6: "io_len (ls_next st0) \<le> length (io_data (ls_next st0))"
    using fit by (simp add: il ld n_def)
  have src: "take (ls_left st0) (drop (ls_moff st0) (iobs_bytes (ls_iob st0))) = C"
    by (simp add: sel(1,2,4) n_def chain_bytes_def [symmetric] bytes lH li)
  have c0: "ls_cipher st0 = ccm_start P (rijndael ctx) bas"
    by (simp add: sel(9) bas_def n_def)
  from body_loop_fits [OF str p1 p2 p3 p4 p5 p6, of cfg env]
  obtain st' where res: "body_loop crypt cfg env st0 = Some (None, st')"
    and d: "ls_done st' = ls_done st0"
    and il': "io_len (ls_next st') = io_len (ls_next st0)"
    and dat: "io_data (ls_next st') = store (io_data (ls_next st0)) (ls_noff st0) (snd r)"
    and ci: "ls_cipher st' = fst r"
    and dr: "drop (ls_moff st') (iobs_bytes (ls_iob st')) =
               drop (ls_moff st0 + ls_left st0) (iobs_bytes (ls_iob st0))"
    unfolding src c0 r_def crypt_def by blast
  have lr: "length (snd r) = length C" by (simp add: r_def length_crypt_bytes)
  have mic_in: "iob_copyout (ls_iob st') (ls_moff st') 8 = M"
    by (simp add: iob_copyout_def dr sel(1,2,4) n_def chain_bytes_def [symmetric] bytes lH li lM)
  define D where "D = mk_chain n (ls_done st' @ [ls_next st'])"
  have chk: "\<not> io_pktlen E < h + 16"
    by (simp add: tot)
  have bas': "ieee80211_ccmp_phase1 P (rijndael ctx) wh pn (int n - int h) = bas"
    by (simp add: bas_def n_def)
  have run: "ieee80211_ccmp_decrypt P cfg env E k = Some (Inr D, ccmp_prsc_update k wh pn)"
    unfolding ieee80211_ccmp_decrypt_def
    using priv a0 cl chk ext fresh hB res [unfolded crypt_def st0_def] mic_in mic
    by (simp add: Let_def whh hh ivp pn n bas' ci D_def
          IEEE80211_CCMP_HDRLEN_def IEEE80211_CCMP_MICLEN_def not_le [symmetric])
  have D1: "io_pktlen D = n" by (simp add: D_def chain_mk_chain)
  have "chain_bytes D = take n (store (io_data (ls_next st0)) h (snd r))"
    by (simp add: D_def chain_bytes_def chain_mk_chain d sel(6) iobs_bytes_def iob_bytes_def
          il' il dat sel(3))
  also have "\<dots> = take (h + length (snd r)) (store (io_data (ls_next st0)) h (snd r))"
    by (simp add: n_def lr)
  also have "\<dots> = take h (io_data (ls_next st0)) @ snd r"
    using fit by (intro take_store_full) (simp add: ld lr)
  also have "take h (io_data (ls_next st0)) = H[1 := H ! 1 AND NOT IEEE80211_FC1_PROTECTED]"
    unfolding sel(8) using h24 by (intro cleared_header(1) [OF lH _ hB]) simp
  finally have D2: "chain_bytes D = H[1 := H ! 1 AND NOT IEEE80211_FC1_PROTECTED] @ snd r" .
  show ?thesis using run D1 D2 by (intro exI [of _ D]) (simp add: n_def)
qed

text \<open>Encapsulation followed by decapsulation, for a frame that fits.\<close>

lemma ccmp_roundtrip:
  fixes P cfg env F k ctx
  defines "x \<equiv> (chain_bytes F ! 1) AND NOT IEEE80211_FC1_PROTECTED"
  assumes priv: "k_priv k = Some (CCMP_ctx ctx)"
    and a0: "alloc_ok env 0" and cl: "clone_ok env" and a1: "alloc_ok env 1"
    and wf: "list_all wf_iob (chain_iobs F)"
    and hc: "ieee80211_get_hdrlen (io_data (io_head F)) \<le> io_len (io_head F)"
    and pl: "io_pktlen F = length (chain_bytes F)"
    and fit: "io_pktlen F + 8 \<le> CONFIG_IEEE80211_BUFSIZE cfg"
    and tsc: "k_tsc k < 2 ^ 48 - 1"
    and cnt: "ccmp_prsc k (io_data (io_head F)) \<le> k_tsc k"
  shows "\<exists>E D. ieee80211_ccmp_encrypt P cfg env F k = Some (Inr E, k\<lparr>k_tsc := k_tsc k + 1\<rparr>) \<and>
           ieee80211_ccmp_decrypt P cfg env E (k\<lparr>k_tsc := k_tsc k + 1\<rparr>) =
             Some (Inr D, ccmp_prsc_update (k\<lparr>k_tsc := k_tsc k + 1\<rparr>) (io_data (io_head F))
                            (k_tsc k + 1)) \<and>
           io_pktlen E = io_pktlen F + 16 \<and>
           io_pktlen D = io_pktlen F \<and>
           chain_bytes D = (chain_bytes F)[1 := x]"
proof -
  define wh where "wh = io_data (io_head F)"
  define h where "h = ieee80211_get_hdrlen wh"
  define k1 where "k1 = k\<lparr>k_tsc := k_tsc k + 1\<rparr>"
  define bas where
    "bas = ieee80211_ccmp_phase1 P (rijndael ctx) wh (k_tsc k1) (int (io_pktlen F) - int h)"
  define body where "body = drop h (chain_bytes F)"
  define r where "r = crypt_bytes (ccm_encrypt_byte P (rijndael ctx))
                        (ccm_start P (rijndael ctx) bas) body"
  define ivp where "ivp = ccmp_ivp (k_tsc k1) (k_id k1)"
  define M where "M = ccm_mic P (rijndael ctx) (fst r) (snd (snd bas))"
  have wfh: "wf_iob (io_head F)" using wf by (simp add: chain_iobs_def)
  have hc': "h \<le> io_len (io_head F)" using hc by (simp add: h_def wh_def)
  have hl: "h \<le> length wh" using hc' wfh by (simp add: wf_iob_def wh_def)
  have hp: "h \<le> io_pktlen F"
    using hc' wfh pl
    by (simp add: chain_bytes_def chain_iobs_def iobs_bytes_Cons length_iob_bytes)
  have h24: "24 \<le> h" by (simp add: h_def hdrlen_ge_24)
  from ccmp_encrypt_fits [OF priv a0 cl a1 wf hc pl fit, of P]
  obtain E where enc: "ieee80211_ccmp_encrypt P cfg env F k = Some (Inr E, k1)"
    and e1: "io_pktlen E = io_pktlen F + 16"
    and e3: "list_all wf_iob (chain_iobs E)"
    and e4: "h + 8 \<le> io_len (io_head E)"
    and e5: "chain_bytes E = take h wh @ ivp @ snd r @ M"
    unfolding k1_def h_def wh_def ivp_def M_def r_def bas_def body_def by blast
  define wh' where "wh' = io_data (io_head E)"
  have lr: "length (snd r) = io_pktlen F - h"
    by (simp add: r_def length_crypt_bytes body_def pl)
  have li: "length ivp = 8" by (simp add: ivp_def length_ccmp_ivp)
  have lM: "length M = 8" by (simp add: M_def length_ccm_mic)
  have lH: "length (take h wh) = h" using hl by simp
  have wfh': "wf_iob (io_head E)" using e3 by (simp add: chain_iobs_def)
  have "take (h + 8) (chain_bytes E) = take (h + 8) wh'"
    unfolding wh'_def using wfh' e4 by (rule chain_bytes_head)
  then have pre: "take (h + 8) wh' = take h wh @ ivp" using hl by (simp add: e5 li)
  have agree: "\<forall>i<ieee80211_get_hdrlen wh. wh' ! i = wh ! i"
    using prefix_agree [OF pre hl] by (simp add: h_def)
  note hcong = has_cong [OF hdr_fc_cong [OF agree]]
  note ccong = ccmp_hdr_cong [OF agree]
  have h': "ieee80211_get_hdrlen wh' = h" by (simp add: hcong h_def)
  have t1: "k_tsc k1 = k_tsc k + 1" by (simp add: k1_def)
  have pn: "ccmp_pn ivp = k_tsc k + 1"
    using tsc_succ_less [OF tsc] by (simp add: ivp_def ccmp_pn_ivp t1 take_bit_48_id)
  have fresh: "ccmp_prsc k1 wh' < ccmp_pn ivp"
  proof -
    have "ccmp_prsc k1 wh' = ccmp_prsc k wh"
      by (simp add: ccong) (simp add: ccmp_prsc_def k1_def)
    moreover have "k_tsc k < k_tsc k + 1" using tsc_succ_less [OF tsc] by simp
    ultimately show ?thesis using cnt by (simp add: pn wh_def)
  qed
  have lmi: "int (length (snd r)) = int (io_pktlen F) - int h" using hp by (simp add: lr)
  have bas': "ieee80211_ccmp_phase1 P (rijndael ctx) wh' (ccmp_pn ivp) (int (length (snd r))) = bas"
    by (simp add: ccong lmi bas_def pn t1)
  have dec_r: "crypt_bytes (ccm_decrypt_byte P (rijndael ctx)) (ccm_start P (rijndael ctx) bas) (snd r)
                 = (fst r, body)"
    unfolding r_def by (rule ccm_decrypt_encrypt)
  have pl': "io_pktlen E = length (chain_bytes E)" using hp hl by (simp add: e1 e5 li lM lr)
  have fit': "ieee80211_get_hdrlen wh' + length (snd r) \<le> CONFIG_IEEE80211_BUFSIZE cfg"
    using fit hp by (simp add: h' lr)
  from ccmp_decrypt_wire [where P = P and cfg = cfg and env = env and E = E and k = k1
      and ctx = ctx and H = "take h wh" and ivp = ivp and C = "snd r" and M = M,
      folded wh'_def, unfolded h' bas' dec_r]
  obtain D where dec: "ieee80211_ccmp_decrypt P cfg env E k1 =
        Some (Inr D, ccmp_prsc_update k1 wh' (ccmp_pn ivp))"
    and d1: "io_pktlen D = h + length (snd r)"
    and d2: "chain_bytes D = (take h wh)[1 := take h wh ! 1 AND NOT IEEE80211_FC1_PROTECTED] @ body"
    using priv a0 cl e3 pl' e5 lH li lM e4 fit' [unfolded h'] fresh
    by (auto simp add: k1_def ivp_def ccmp_ivp_extiv M_def)
  have cb: "chain_bytes F = take h wh @ body"
  proof -
    have "take h (chain_bytes F) = take h wh"
      unfolding wh_def using wfh hc' by (rule chain_bytes_head)
    then show ?thesis by (simp add: body_def) (metis append_take_drop_id)
  qed
  have x: "x = take h wh ! 1 AND NOT IEEE80211_FC1_PROTECTED"
    using h24 hl by (simp add: x_def cb nth_append)
  have d2': "chain_bytes D = (chain_bytes F)[1 := x]"
    using h24 hl by (simp add: d2 cb x list_update_append)
  have d1': "io_pktlen D = io_pktlen F" using hp by (simp add: d1 lr)
  show ?thesis
    using enc dec e1 d1' d2'
    by (intro exI [of _ E] exI [of _ D]) (simp add: k1_def ccong pn wh_def)
qed

subsection \<open>TKIP: a frame that fits the first output buffer\<close>

lemma tkip_encrypt_init_sel2:
  "io_data (ls_next (tkip_encrypt_init cfg F k1 ctx1)) =
     store (store (iob_fresh cfg) 0
              (bytes_at (io_data (io_head F)) 0 (ieee80211_get_hdrlen (io_data (io_head F)))))
       (ieee80211_get_hdrlen (io_data (io_head F))) (tkip_ivp (k_tsc k1) (k_id k1))"
  "ls_cipher (tkip_encrypt_init cfg F k1 ctx1) =
     (rc4_keysetup (Phase2 (k_key k1) (txttak ctx1) (ucast (k_tsc k1 AND 0xffff))) 16, NOT 0)"
  by (simp_all add: tkip_encrypt_init_def Let_def)

lemma length_tkip_mic: "length (ieee80211_tkip_mic P m off key) = 8"
  by (simp add: ieee80211_tkip_mic_def Let_def IEEE80211_TKIP_MICLEN_def)

lemma length_le32_bytes: "length (le32_bytes w) = 4"
  by (simp add: le32_bytes_def)

text \<open>The twelve octets \<^verbatim>\<open>ieee80211_tkip_encrypt\<close> appends: the MIC and the ICV, both
  through RC4.\<close>

lemma tkip_encrypt_tail_append:
  fixes P cfg env m0 txkey pktlen st
  defines "mic \<equiv> ieee80211_tkip_mic P m0 (ieee80211_get_hdrlen (io_data (io_head m0))) txkey"
  defines "icv \<equiv> le32_bytes (NOT (ether_crc32_le_update P (snd (ls_cipher st)) mic))"
  defines "t \<equiv> rc4_crypt P (fst (ls_cipher st)) (mic @ icv)"
  assumes "alloc_ok env (ls_nalloc st)"
    and "io_len (ls_next st) \<le> length (io_data (ls_next st))"
  shows "tkip_encrypt_tail P cfg env m0 txkey pktlen st =
           (Inr (mk_chain (pktlen + 12) (ls_done st @ append_tail cfg (ls_next st) (snd t))), fst t)"
proof -
  have lt: "length (snd t) = 12"
    by (simp add: t_def length_rc4_crypt mic_def icv_def length_tkip_mic length_le32_bytes)
  define r1 where "r1 = rc4_crypt P (fst (ls_cipher st)) mic"
  define r2 where "r2 = rc4_crypt P (fst r1) icv"
  have t: "t = (fst r2, snd r1 @ snd r2)"
    by (simp add: t_def rc4_crypt_append r1_def r2_def)
  have l1: "length (snd r1) = 8" by (simp add: r1_def length_rc4_crypt mic_def length_tkip_mic)
  have s0: "store (store (iob_fresh cfg) 0 (snd r1)) 8 (snd r2) = store (iob_fresh cfg) 0 (snd r1 @ snd r2)"
    using store_store [of 0 "iob_fresh cfg" "snd r1" "snd r2"] by (simp add: l1)
  have s1: "store (store (io_data (ls_next st)) (io_len (ls_next st)) (snd r1))
              (io_len (ls_next st) + 8) (snd r2)
            = store (io_data (ls_next st)) (io_len (ls_next st)) (snd r1 @ snd r2)"
    using store_store [OF assms(5), of "snd r1" "snd r2"] by (simp add: l1)
  show ?thesis
    unfolding tkip_encrypt_tail_def
    using assms(4) lt
    by (simp add: Let_def append_tail_def IEEE80211_TKIP_TAILLEN_def IEEE80211_TKIP_MICLEN_def
          IEEE80211_WEP_CRCLEN_def mic_def [symmetric] icv_def [symmetric] r1_def [symmetric]
          r2_def [symmetric] t s0 s1 add.assoc)
qed

lemma tkip_encrypt_fits:
  fixes P cfg env F k ctx
  defines "wh \<equiv> io_data (io_head F)"
  defines "h \<equiv> ieee80211_get_hdrlen wh"
  defines "k1 \<equiv> k\<lparr>k_tsc := k_tsc k + 1\<rparr>"
  defines "ctx1 \<equiv> tkip_tx_ttak ctx k1 wh"
  defines "c0 \<equiv> (rc4_keysetup (Phase2 (k_key k1) (txttak ctx1) (ucast (k_tsc k1 AND 0xffff))) 16,
                  NOT (0::u32b))"
  defines "r \<equiv> tkip_encrypt_chunk P c0 (drop h (chain_bytes F))"
  defines "mic \<equiv> ieee80211_tkip_mic P F h (michael_key_at k1 (txmic ctx1))"
  defines "icv \<equiv> le32_bytes (NOT (ether_crc32_le_update P (snd (fst r)) mic))"
  defines "t \<equiv> rc4_crypt P (fst (fst r)) (mic @ icv)"
  assumes priv: "k_priv k = Some (TKIP_ctx ctx)"
    and a0: "alloc_ok env 0" and cl: "clone_ok env" and a1: "alloc_ok env 1"
    and wf: "list_all wf_iob (chain_iobs F)"
    and hc: "h \<le> io_len (io_head F)"
    and pl: "io_pktlen F = length (chain_bytes F)"
    and fit: "io_pktlen F + 8 \<le> CONFIG_IEEE80211_BUFSIZE cfg"
  shows "\<exists>E. ieee80211_tkip_encrypt P cfg env F k =
               Some (Inr E, k1\<lparr>k_priv := Some (TKIP_ctx (ctx1\<lparr>rc4 := fst t\<rparr>))\<rparr>) \<and>
           io_pktlen E = io_pktlen F + 20 \<and>
           list_all wf_iob (chain_iobs E) \<and>
           h + 8 \<le> io_len (io_head E) \<and>
           chain_bytes E = take h wh @ tkip_ivp (k_tsc k1) (k_id k1) @ snd r @ snd t"
proof -
  define st0 where "st0 = tkip_encrypt_init cfg F k1 ctx1"
  have wfh: "wf_iob (io_head F)" using wf by (simp add: chain_iobs_def)
  have hl: "h \<le> length wh" using hc wfh by (simp add: wf_iob_def wh_def)
  have hp: "h \<le> io_pktlen F"
    using hc wfh pl
    by (simp add: chain_bytes_def chain_iobs_def iobs_bytes_Cons length_iob_bytes)
  have hdr: "bytes_at wh 0 h = take h wh" using hl by (simp add: bytes_at_take)
  have c0: "ls_cipher st0 = c0"
    by (simp add: st0_def tkip_encrypt_init_sel2 c0_def)
  from tx_loop_fits [where crypt = "tkip_encrypt_chunk P" and F = F and h = h and cfg = cfg
      and env = env and hdr = "bytes_at wh 0 h" and ivp = "tkip_ivp (k_tsc k1) (k_id k1)"
      and st = st0, OF streaming_tkip_encrypt wf hc pl fit]
  obtain st' where res: "body_loop (tkip_encrypt_chunk P) cfg env st0 = Some (None, st')"
    and d: "ls_done st' = []" and na: "ls_nalloc st' = 1"
    and il: "io_len (ls_next st') = io_pktlen F + 8"
    and ld: "length (io_data (ls_next st')) = CONFIG_IEEE80211_BUFSIZE cfg"
    and byt: "iob_bytes (ls_next st') = bytes_at wh 0 h @ tkip_ivp (k_tsc k1) (k_id k1) @ snd r"
    and ci: "ls_cipher st' = fst r"
    unfolding st0_def r_def c0 [unfolded st0_def, symmetric]
    by (auto simp add: length_bytes_at length_tkip_ivp
          tkip_encrypt_init_sel tkip_encrypt_init_sel2 wh_def h_def)
  define E where "E = mk_chain (io_pktlen F + 8 + 12) (append_tail cfg (ls_next st') (snd t))"
  have lt12: "length (snd t) = 12"
    by (simp add: t_def length_rc4_crypt mic_def icv_def length_tkip_mic length_le32_bytes)
  have hB: "h + 8 \<le> CONFIG_IEEE80211_BUFSIZE cfg" using fit hp by simp
  have h24: "24 \<le> h" by (simp add: h_def hdrlen_ge_24)
  have lt: "length (snd t) \<le> CONFIG_IEEE80211_BUFSIZE cfg"
    using hB h24 by (simp add: lt12)
  have iln: "io_len (ls_next st') \<le> CONFIG_IEEE80211_BUFSIZE cfg" using fit by (simp add: il)
  note at = append_tail_bytes [OF ld iln lt]
  have fitc: "\<not> CONFIG_IEEE80211_BUFSIZE cfg < ieee80211_get_hdrlen (io_data (io_head F)) + IEEE80211_TKIP_HDRLEN"
    using hB by (simp add: h_def wh_def IEEE80211_TKIP_HDRLEN_def)
  have a1': "alloc_ok env (ls_nalloc st')" using a1 by (simp add: na)
  have wfn: "io_len (ls_next st') \<le> length (io_data (ls_next st'))" using iln by (simp add: ld)
  have tail: "tkip_encrypt_tail P cfg env F (michael_key_at k1 (txmic ctx1)) (io_pktlen F + 8) st'
                = (Inr E, fst t)"
    by (simp add: tkip_encrypt_tail_append [OF a1' wfn] d E_def t_def icv_def mic_def ci
          h_def wh_def)
  have run: "ieee80211_tkip_encrypt P cfg env F k =
               Some (Inr E, k1\<lparr>k_priv := Some (TKIP_ctx (ctx1\<lparr>rc4 := fst t\<rparr>))\<rparr>)"
    unfolding ieee80211_tkip_encrypt_def
    using priv a0 cl fitc res [unfolded st0_def ctx1_def k1_def wh_def]
      tail [unfolded ctx1_def k1_def wh_def]
    by (simp add: Let_def k1_def ctx1_def wh_def IEEE80211_TKIP_HDRLEN_def)
  have e1: "io_pktlen E = io_pktlen F + 20" by (simp add: E_def chain_mk_chain)
  have e2: "chain_iobs E = append_tail cfg (ls_next st') (snd t)"
    by (simp add: E_def chain_mk_chain append_tail_ne)
  have e3: "list_all wf_iob (chain_iobs E)" by (simp add: e2 at)
  have e4: "h + 8 \<le> io_len (io_head E)"
    using at(3) hp by (simp add: E_def chain_mk_chain il)
  have e5: "chain_bytes E = take h wh @ tkip_ivp (k_tsc k1) (k_id k1) @ snd r @ snd t"
    by (simp add: chain_bytes_def e2 at byt hdr)
  show ?thesis
    using run e1 e3 e4 e5 by (intro exI [of _ E]) simp
qed

lemma tkip_decrypt_init_sel:
  "ls_iob (tkip_decrypt_init cfg E k ctx1) = chain_iobs E"
  "ls_moff (tkip_decrypt_init cfg E k ctx1) = tkip_frame_hdrlen E + 8"
  "ls_noff (tkip_decrypt_init cfg E k ctx1) = tkip_frame_hdrlen E"
  "ls_left (tkip_decrypt_init cfg E k ctx1) = tkip_rx_pktlen E - tkip_frame_hdrlen E"
  "io_len (ls_next (tkip_decrypt_init cfg E k ctx1)) = first_len cfg (tkip_rx_pktlen E)"
  "ls_done (tkip_decrypt_init cfg E k ctx1) = []"
  "ls_nalloc (tkip_decrypt_init cfg E k ctx1) = 1"
  "io_data (ls_next (tkip_decrypt_init cfg E k ctx1)) = tkip_decrypt_hdr cfg (io_data (io_head E))"
  "ls_cipher (tkip_decrypt_init cfg E k ctx1) =
     (rc4_keysetup (Phase2 (k_key k) (rxttak ctx1) (ucast (tkip_frame_tsc E AND 0xffff))) 16, NOT 0)"
  by (simp_all add: tkip_decrypt_init_def Let_def IEEE80211_TKIP_HDRLEN_def)

text \<open>
  \<^verbatim>\<open>ieee80211_tkip_decrypt\<close> on a well-formed chain whose octets are a header \<open>H\<close>, a
  TKIP header, a body \<open>C\<close> and a twelve-octet tail \<open>T\<close>, when ICV and MIC agree.
\<close>

lemma tkip_decrypt_wire:
  fixes P cfg env ic E k ctx H ivp C T
  defines "wh \<equiv> io_data (io_head E)"
  defines "h \<equiv> ieee80211_get_hdrlen wh"
  defines "tsc \<equiv> tkip_tsc ivp"
  defines "ctx1 \<equiv> tkip_rx_ctx1 cfg E k ctx"
  defines "c0 \<equiv> (rc4_keysetup (Phase2 (k_key k) (rxttak ctx1) (ucast (tsc AND 0xffff))) 16,
                  NOT (0::u32b))"
  defines "r \<equiv> tkip_decrypt_chunk P c0 C"
  defines "t \<equiv> rc4_crypt P (fst (fst r)) T"
  defines "D \<equiv> mk_chain (h + length C)
                  [\<lparr>io_len = h + length C, io_data = store (tkip_decrypt_hdr cfg wh) h (snd r)\<rparr>]"
  assumes priv: "k_priv k = Some (TKIP_ctx ctx)"
    and a0: "alloc_ok env 0" and cl: "clone_ok env"
    and wf: "list_all wf_iob (chain_iobs E)"
    and pl: "io_pktlen E = length (chain_bytes E)"
    and bytes: "chain_bytes E = H @ ivp @ C @ T"
    and lH: "length H = h" and li: "length ivp = 8" and lT: "length T = 12"
    and head: "h + 8 \<le> io_len (io_head E)"
    and fit: "h + length C \<le> CONFIG_IEEE80211_BUFSIZE cfg"
    and ext: "ivp ! 3 AND IEEE80211_WEP_EXTIV \<noteq> 0"
    and fresh: "k_rsc k (frame_tid wh) < tsc"
    and icv: "le32_word (drop 8 (snd t)) =
                NOT (ether_crc32_le_update P (snd (fst r)) (take 8 (snd t)))"
    and mic: "take 8 (snd t) = ieee80211_tkip_mic P D h (michael_key_at k (rxmic ctx))"
  shows "ieee80211_tkip_decrypt P cfg env ic E k =
           Some (Inr D,
                 k\<lparr>k_rsc := (k_rsc k)(frame_tid wh := tsc),
                   k_priv := Some (TKIP_ctx (ctx1\<lparr>rc4 := fst t, rxttak_ok := 1\<rparr>))\<rparr>,
                 ic)"
    and "chain_bytes D = H[1 := H ! 1 AND NOT IEEE80211_FC1_PROTECTED] @ snd r"
    and "io_pktlen D = h + length C"
proof -
  define crypt where "crypt = tkip_decrypt_chunk P"
  define n where "n = h + length C"
  define st0 where "st0 = tkip_decrypt_init cfg E k ctx1"
  have str: "streaming crypt" by (simp add: crypt_def streaming_tkip_decrypt)
  have wfh: "wf_iob (io_head E)" using wf by (simp add: chain_iobs_def)
  have hl: "h + 8 \<le> length wh" using head wfh by (simp add: wf_iob_def wh_def)
  have "take (h + 8) (chain_bytes E) = take (h + 8) wh"
    unfolding wh_def using wfh head by (rule chain_bytes_head)
  then have pre: "take (h + 8) wh = H @ ivp" by (simp add: bytes lH li)
  have H: "bytes_at wh 0 h = H"
  proof -
    have "take h (take (h + 8) wh) = H" by (simp only: pre) (simp add: lH)
    then show ?thesis using hl by (simp add: bytes_at_take min_def)
  qed
  have ivp: "bytes_at wh h 8 = ivp"
  proof -
    have "drop h (take (h + 8) wh) = ivp" by (simp only: pre) (simp add: lH)
    then show ?thesis using hl by (simp add: bytes_at_take drop_take)
  qed
  have fh: "tkip_frame_hdrlen E = h" by (simp add: tkip_frame_hdrlen_def h_def wh_def)
  have ft: "tkip_frame_tid E = frame_tid wh" by (simp add: tkip_frame_tid_def wh_def)
  have fs: "tkip_frame_tsc E = tsc"
    by (simp add: tkip_frame_tsc_def fh IEEE80211_TKIP_HDRLEN_def wh_def [symmetric] ivp tsc_def)
  have tot: "io_pktlen E = h + 8 + length C + 12" by (simp add: pl bytes lH li lT)
  have rp: "tkip_rx_pktlen E = n"
    by (simp add: tkip_rx_pktlen_def tot n_def IEEE80211_TKIP_OVHD_def IEEE80211_TKIP_HDRLEN_def
          IEEE80211_TKIP_TAILLEN_def IEEE80211_TKIP_MICLEN_def IEEE80211_WEP_CRCLEN_def)
  have h24: "24 \<le> h" by (simp add: h_def hdrlen_ge_24)
  have hB: "h \<le> CONFIG_IEEE80211_BUFSIZE cfg" using fit by simp
  have dh: "tkip_decrypt_hdr cfg wh =
              (store (iob_fresh cfg) 0 H)[1 := store (iob_fresh cfg) 0 H ! 1
                 AND NOT IEEE80211_FC1_PROTECTED]"
    by (simp add: tkip_decrypt_hdr_def Let_def h_def [symmetric] H)
  note sel = tkip_decrypt_init_sel [of cfg E k ctx1, folded st0_def, unfolded fh rp fs,
      folded wh_def]
  have il: "io_len (ls_next st0) = n" using fit by (simp add: sel first_len_fit n_def)
  have ld: "length (io_data (ls_next st0)) = CONFIG_IEEE80211_BUFSIZE cfg"
    using cleared_header(2) [OF lH _ hB] h24 by (simp add: sel dh)
  have p1: "list_all wf_iob (ls_iob st0)" using wf by (simp add: sel)
  have p2: "ls_iob st0 \<noteq> []" by (simp add: sel chain_iobs_def)
  have p3: "ls_moff st0 \<le> io_len (hd (ls_iob st0))" using head by (simp add: sel chain_iobs_def)
  have p4: "ls_moff st0 + ls_left st0 \<le> length (iobs_bytes (ls_iob st0))"
    using pl tot by (simp add: sel n_def chain_bytes_def)
  have p5: "ls_noff st0 + ls_left st0 = io_len (ls_next st0)" by (simp add: sel(3,4) il n_def)
  have p6: "io_len (ls_next st0) \<le> length (io_data (ls_next st0))"
    using fit by (simp add: il ld n_def)
  have src: "take (ls_left st0) (drop (ls_moff st0) (iobs_bytes (ls_iob st0))) = C"
    by (simp add: sel(1,2,4) n_def chain_bytes_def [symmetric] bytes lH li)
  have c0: "ls_cipher st0 = c0" by (simp add: sel(9) c0_def)
  from body_loop_fits [OF str p1 p2 p3 p4 p5 p6, of cfg env]
  obtain st' where res: "body_loop crypt cfg env st0 = Some (None, st')"
    and d: "ls_done st' = ls_done st0"
    and il': "io_len (ls_next st') = io_len (ls_next st0)"
    and dat: "io_data (ls_next st') = store (io_data (ls_next st0)) (ls_noff st0) (snd r)"
    and ci: "ls_cipher st' = fst r"
    and dr: "drop (ls_moff st') (iobs_bytes (ls_iob st')) =
               drop (ls_moff st0 + ls_left st0) (iobs_bytes (ls_iob st0))"
    unfolding src c0 r_def crypt_def by blast
  have lr: "length (snd r) = length C"
    by (simp add: r_def length_tkip_chunk)
  have tail_in: "iob_copyout (ls_iob st') (ls_moff st') IEEE80211_TKIP_TAILLEN = T"
    by (simp add: iob_copyout_def dr sel(1,2,4) n_def chain_bytes_def [symmetric] bytes lH li lT
          IEEE80211_TKIP_TAILLEN_def IEEE80211_TKIP_MICLEN_def IEEE80211_WEP_CRCLEN_def)
  have tb: "tkip_tail_buf P st' = t" by (simp add: tkip_tail_buf_def tail_in ci t_def)
  have nx: "ls_next st' = \<lparr>io_len = n, io_data = store (tkip_decrypt_hdr cfg wh) h (snd r)\<rparr>"
    using il' il dat by (cases "ls_next st'") (simp add: sel)
  have next0: "mk_chain (tkip_rx_pktlen E) (ls_done st' @ [ls_next st']) = D"
    by (simp add: rp d sel(6) nx D_def n_def)
  have chk: "tkip_decrypt_checks cfg env E k = None"
    using a0 cl ext fresh hB
    by (simp add: tkip_decrypt_checks_def Let_def fh ft fs tot wh_def [symmetric] ivp
          IEEE80211_TKIP_OVHD_def IEEE80211_TKIP_HDRLEN_def
          IEEE80211_TKIP_TAILLEN_def IEEE80211_TKIP_MICLEN_def IEEE80211_WEP_CRCLEN_def)
  have loop: "tkip_rx_loop P cfg env E k ctx = Some (None, st')"
    using res by (simp add: tkip_rx_loop_def crypt_def st0_def ctx1_def)
  have rx1: "rxmic (tkip_rx_ctx1 cfg E k ctx) = rxmic ctx"
    by (simp add: tkip_rx_ctx1_def tkip_rx_ttak_def)
  have tail: "tkip_decrypt_tail P cfg env ic E k ctx1 st' =
      (Inr D, k\<lparr>k_rsc := (k_rsc k)(frame_tid wh := tsc),
                k_priv := Some (TKIP_ctx (ctx1\<lparr>rc4 := fst t, rxttak_ok := 1\<rparr>))\<rparr>, ic)"
    using icv mic
    by (simp add: tkip_decrypt_tail_def Let_def tb next0 tkip_rx_crc_def tkip_rx_icv_def ci
          fh ft fs IEEE80211_TKIP_MICLEN_def ctx1_def rx1)
  show "ieee80211_tkip_decrypt P cfg env ic E k =
           Some (Inr D,
                 k\<lparr>k_rsc := (k_rsc k)(frame_tid wh := tsc),
                   k_priv := Some (TKIP_ctx (ctx1\<lparr>rc4 := fst t, rxttak_ok := 1\<rparr>))\<rparr>,
                 ic)"
    using priv chk loop tail by (simp add: ieee80211_tkip_decrypt_def ctx1_def)
  show "io_pktlen D = h + length C" by (simp add: D_def chain_mk_chain)
  have "chain_bytes D = take n (store (tkip_decrypt_hdr cfg wh) h (snd r))"
    by (simp add: D_def chain_bytes_def chain_mk_chain iobs_bytes_def iob_bytes_def n_def)
  also have "\<dots> = take (h + length (snd r)) (store (tkip_decrypt_hdr cfg wh) h (snd r))"
    by (simp add: n_def lr)
  also have "\<dots> = take h (tkip_decrypt_hdr cfg wh) @ snd r"
    using fit ld by (intro take_store_full) (simp add: sel lr)
  also have "take h (tkip_decrypt_hdr cfg wh) = H[1 := H ! 1 AND NOT IEEE80211_FC1_PROTECTED]"
    unfolding dh using h24 by (intro cleared_header(1) [OF lH _ hB]) simp
  finally show "chain_bytes D = H[1 := H ! 1 AND NOT IEEE80211_FC1_PROTECTED] @ snd r" .
qed

text \<open>The receive loop on a well-formed frame: it ends when the decapsulated frame fits
  one buffer, and never ends with the body copied when it does not.\<close>

lemma length_tkip_decrypt_hdr:
  "ieee80211_get_hdrlen wh \<le> CONFIG_IEEE80211_BUFSIZE cfg \<Longrightarrow>
   length (tkip_decrypt_hdr cfg wh) = CONFIG_IEEE80211_BUFSIZE cfg"
  by (simp add: tkip_decrypt_hdr_def Let_def length_store length_bytes_at length_iob_fresh)




text \<open>The Michael MIC of two chains with the same body whose headers agree but for the
  PROTECTED bit.\<close>

lemma dir_cases:
  "(x::byte) AND 3 = 0 \<or> x AND 3 = 1 \<or> x AND 3 = 2 \<or> x AND 3 = 3"
proof -
  have "x AND 3 \<le> 3" by (rule word_and_le1)
  then have "unat (x AND 3) \<le> 3" by (simp add: word_le_nat_alt)
  then have "unat (x AND 3) = 0 \<or> unat (x AND 3) = 1 \<or> unat (x AND 3) = 2 \<or> unat (x AND 3) = 3"
    by arith
  then show ?thesis by (auto simp add: word_unat_eq_iff)
qed

lemma tkip_decrypt_hdr_nth:
  assumes "i < ieee80211_get_hdrlen wh" and "ieee80211_get_hdrlen wh \<le> CONFIG_IEEE80211_BUFSIZE cfg"
  shows "tkip_decrypt_hdr cfg wh ! i =
           (if i = 1 then wh ! 1 AND NOT IEEE80211_FC1_PROTECTED else wh ! i)"
  using assms hdrlen_ge_24 [of wh]
  by (auto simp add: tkip_decrypt_hdr_def Let_def store_def nth_append length_iob_fresh
        bytes_at_def nth_list_update)

lemma tkip_mic_cong:
  assumes agree: "\<forall>i<ieee80211_get_hdrlen (io_data (io_head F)). i \<noteq> 1 \<longrightarrow>
                    io_data (io_head D) ! i = io_data (io_head F) ! i"
    and dir: "io_data (io_head D) ! 1 AND IEEE80211_FC1_DIR_MASK
                = io_data (io_head F) ! 1 AND IEEE80211_FC1_DIR_MASK"
    and body: "drop off (iob_bytes (io_head D)) @ iobs_bytes (io_flink D)
                = drop off (iob_bytes (io_head F)) @ iobs_bytes (io_flink F)"
  shows "ieee80211_tkip_mic P D off key = ieee80211_tkip_mic P F off key"
proof -
  define wh where "wh = io_data (io_head F)"
  define d where "d = io_data (io_head D)"
  note a = agree [folded wh_def d_def, rule_format]
  have h24: "24 \<le> ieee80211_get_hdrlen wh" by (rule hdrlen_ge_24)
  have fc0: "i_fc0 d = i_fc0 wh" using a [of 0] h24 by (simp add: i_fc0_def)
  have dirw: "i_fc1 d AND IEEE80211_FC1_DIR_MASK = i_fc1 wh AND IEEE80211_FC1_DIR_MASK"
    using dir by (simp add: i_fc1_def wh_def d_def)
  have qos: "ieee80211_has_qos d = ieee80211_has_qos wh"
    by (simp add: ieee80211_has_qos_def fc0)
  have a4: "ieee80211_has_addr4 d = ieee80211_has_addr4 wh"
    by (simp add: ieee80211_has_addr4_def dirw)
  have ad: "i_addr1 d = i_addr1 wh" "i_addr2 d = i_addr2 wh" "i_addr3 d = i_addr3 wh"
    using h24 a
    by (simp_all add: i_addr1_def i_addr2_def i_addr3_def IEEE80211_ADDR_LEN_def bytes_at_def)
  have ad4: "i_addr4 d = i_addr4 wh" if "ieee80211_has_addr4 wh"
  proof -
    from that have "30 \<le> ieee80211_get_hdrlen wh"
      by (simp add: ieee80211_get_hdrlen_def IEEE80211_ADDR_LEN_def)
    then show ?thesis using a
      by (simp add: i_addr4_def IEEE80211_ADDR_LEN_def bytes_at_def)
  qed
  have gq: "ieee80211_get_qos d = ieee80211_get_qos wh" if q: "ieee80211_has_qos wh"
  proof (cases "ieee80211_has_addr4 wh")
    case True
    with q have "32 \<le> ieee80211_get_hdrlen wh"
      by (simp add: ieee80211_get_hdrlen_def IEEE80211_ADDR_LEN_def)
    then have "d ! 30 = wh ! 30" "d ! 31 = wh ! 31" using a [of 30] a [of 31] by simp_all
    then show ?thesis using True a4 by (simp add: ieee80211_get_qos_def)
  next
    case False
    from q have "26 \<le> ieee80211_get_hdrlen wh"
      by (simp add: ieee80211_get_hdrlen_def)
    then have "d ! 24 = wh ! 24" "d ! 25 = wh ! 25" using a [of 24] a [of 25] by simp_all
    then show ?thesis using False a4 by (simp add: ieee80211_get_qos_def)
  qed
  have sa4: "i_addr4 d = i_addr4 wh"
    if "i_fc1 wh AND IEEE80211_FC1_DIR_MASK \<noteq> IEEE80211_FC1_DIR_NODS"
       "i_fc1 wh AND IEEE80211_FC1_DIR_MASK \<noteq> IEEE80211_FC1_DIR_TODS"
       "i_fc1 wh AND IEEE80211_FC1_DIR_MASK \<noteq> IEEE80211_FC1_DIR_FROMDS"
  proof -
    have "ieee80211_has_addr4 wh"
      using that dir_cases [of "i_fc1 wh"]
      by (simp add: ieee80211_has_addr4_def IEEE80211_FC1_DIR_MASK_def
            IEEE80211_FC1_DIR_NODS_def IEEE80211_FC1_DIR_TODS_def IEEE80211_FC1_DIR_FROMDS_def
            IEEE80211_FC1_DIR_DSTODS_def)
    then show ?thesis by (rule ad4)
  qed
  show ?thesis
    unfolding ieee80211_tkip_mic_def wh_def [symmetric] d_def [symmetric]
    using sa4 gq by (simp add: Let_def dirw ad qos body)
qed

text \<open>Encapsulation under one installation of a key followed by decapsulation under
  another installation \<open>k2\<close> of the same key, for a frame that fits.\<close>

lemma tkip_roundtrip:
  fixes P cfg env ic F k ctx k2 ctx2
  defines "wh \<equiv> io_data (io_head F)"
  defines "tsc1 \<equiv> k_tsc k + 1"
  defines "x \<equiv> (chain_bytes F ! 1) AND NOT IEEE80211_FC1_PROTECTED"
  assumes priv: "k_priv k = Some (TKIP_ctx ctx)"
    and priv2: "k_priv k2 = Some (TKIP_ctx ctx2)"
    and key: "k_key k2 = k_key k"
    and mk: "michael_key_at k2 (rxmic ctx2) = michael_key_at k (txmic ctx)"
    and a0: "alloc_ok env 0" and cl: "clone_ok env" and a1: "alloc_ok env 1"
    and wf: "list_all wf_iob (chain_iobs F)"
    and hc: "ieee80211_get_hdrlen wh \<le> io_len (io_head F)"
    and pl: "io_pktlen F = length (chain_bytes F)"
    and fit: "io_pktlen F + 8 \<le> CONFIG_IEEE80211_BUFSIZE cfg"
    and tsc: "k_tsc k < 2 ^ 48 - 1"
    and cnt: "k_rsc k2 (frame_tid wh) \<le> k_tsc k"
    and txc: "txttak_ok ctx \<noteq> 0 \<and> tsc1 AND 0xffff \<noteq> 0 \<longrightarrow>
                txttak ctx = Phase1 (k_key k) (i_addr2 wh) (ucast (drop_bit 16 tsc1))"
    and rxc: "\<not> tkip_rx_recompute ctx2 tsc1 (k_rsc k2 (frame_tid wh)) \<longrightarrow>
                rxttak ctx2 = Phase1 (k_key k) (i_addr2 wh) (ucast (drop_bit 16 tsc1))"
  shows "\<exists>E k1 D k2'.
           ieee80211_tkip_encrypt P cfg env F k = Some (Inr E, k1) \<and>
           ieee80211_tkip_decrypt P cfg env ic E k2 = Some (Inr D, k2', ic) \<and>
           io_pktlen E = io_pktlen F + 20 \<and>
           io_pktlen D = io_pktlen F \<and>
           chain_bytes D = (chain_bytes F)[1 := x] \<and>
           k_tsc k1 = tsc1 \<and> k_rsc k2' = (k_rsc k2)(frame_tid wh := tsc1)"
proof -
  define h where "h = ieee80211_get_hdrlen wh"
  define k1 where "k1 = k\<lparr>k_tsc := k_tsc k + 1\<rparr>"
  define ctx1 where "ctx1 = tkip_tx_ttak ctx k1 wh"
  define TT where "TT = Phase1 (k_key k) (i_addr2 wh) (ucast (drop_bit 16 tsc1))"
  define c0 where "c0 = (rc4_keysetup (Phase2 (k_key k) TT (ucast (tsc1 AND 0xffff))) 16,
                         NOT (0::u32b))"
  define body where "body = drop h (chain_bytes F)"
  define r where "r = tkip_encrypt_chunk P c0 body"
  define mic where "mic = ieee80211_tkip_mic P F h (michael_key_at k (txmic ctx))"
  define icv where "icv = le32_bytes (NOT (ether_crc32_le_update P (snd (fst r)) mic))"
  define t where "t = rc4_crypt P (fst (fst r)) (mic @ icv)"
  define ivp where "ivp = tkip_ivp tsc1 (k_id k)"
  have wfh: "wf_iob (io_head F)" using wf by (simp add: chain_iobs_def)
  have hc': "h \<le> io_len (io_head F)" using hc by (simp add: h_def)
  have hl: "h \<le> length wh" using hc' wfh by (simp add: wf_iob_def wh_def)
  have hp: "h \<le> io_pktlen F"
    using hc' wfh pl
    by (simp add: chain_bytes_def chain_iobs_def iobs_bytes_Cons length_iob_bytes)
  have h24: "24 \<le> h" by (simp add: h_def hdrlen_ge_24)
  have hB: "h \<le> CONFIG_IEEE80211_BUFSIZE cfg" using fit hp by simp
  have t1: "k_tsc k1 = tsc1" "k_key k1 = k_key k" "k_id k1 = k_id k"
    by (simp_all add: k1_def tsc1_def)
  have tt: "txttak ctx1 = TT"
    using txc by (auto simp add: ctx1_def tkip_tx_ttak_def t1 TT_def)
  have txm: "txmic ctx1 = txmic ctx" by (simp add: ctx1_def tkip_tx_ttak_def)
  have mk1: "michael_key_at k1 (txmic ctx1) = michael_key_at k (txmic ctx)"
    by (simp add: michael_key_at_def t1 txm)
  from tkip_encrypt_fits [OF priv a0 cl a1 wf hc [unfolded wh_def] pl fit, of P]
  obtain E where enc: "ieee80211_tkip_encrypt P cfg env F k =
        Some (Inr E, k1\<lparr>k_priv := Some (TKIP_ctx (ctx1\<lparr>rc4 := fst t\<rparr>))\<rparr>)"
    and e1: "io_pktlen E = io_pktlen F + 20"
    and e3: "list_all wf_iob (chain_iobs E)"
    and e4: "h + 8 \<le> io_len (io_head E)"
    and e5: "chain_bytes E = take h wh @ ivp @ snd r @ snd t"
    unfolding wh_def [symmetric] h_def [symmetric] k1_def [symmetric] ctx1_def [symmetric]
      t1 tt mk1 c0_def [symmetric] body_def [symmetric] r_def [symmetric] mic_def [symmetric]
      icv_def [symmetric] t_def [symmetric] ivp_def [symmetric]
    by blast
  define wh' where "wh' = io_data (io_head E)"
  have lr: "length (snd r) = io_pktlen F - h"
    by (simp add: r_def length_tkip_chunk body_def pl)
  have li: "length ivp = 8" by (simp add: ivp_def length_tkip_ivp)
  have lmic: "length mic = 8" by (simp add: mic_def length_tkip_mic)
  have licv: "length icv = 4" by (simp add: icv_def length_le32_bytes)
  have lT: "length (snd t) = 12" by (simp add: t_def length_rc4_crypt lmic licv)
  have lH: "length (take h wh) = h" using hl by simp
  have wfh': "wf_iob (io_head E)" using e3 by (simp add: chain_iobs_def)
  have hl': "h + 8 \<le> length wh'" using e4 wfh' by (simp add: wf_iob_def wh'_def)
  have "take (h + 8) (chain_bytes E) = take (h + 8) wh'"
    unfolding wh'_def using wfh' e4 by (rule chain_bytes_head)
  then have pre: "take (h + 8) wh' = take h wh @ ivp" using hl by (simp add: e5 li)
  have agree: "\<forall>i<ieee80211_get_hdrlen wh. wh' ! i = wh ! i"
    using prefix_agree [OF pre hl] by (simp add: h_def)
  note fc = hdr_fc_cong [OF agree]
  note hcong = has_cong [OF fc]
  note acong = hdr_addr_cong [OF agree]
  have h': "ieee80211_get_hdrlen wh' = h" by (simp add: hcong h_def)
  have ftid: "frame_tid wh' = frame_tid wh" by (rule ccmp_hdr_cong(4) [OF agree])
  have ivp': "bytes_at wh' h 8 = ivp"
  proof -
    have "drop h (take (h + 8) wh') = ivp" using hl by (simp only: pre) simp
    then show ?thesis using hl' by (simp add: bytes_at_take drop_take)
  qed
  have pn: "tkip_tsc ivp = tsc1"
    using tsc_succ_less [OF tsc] by (simp add: ivp_def tkip_tsc_ivp tsc1_def take_bit_48_id)
  have fh: "tkip_frame_hdrlen E = h" by (simp add: tkip_frame_hdrlen_def wh'_def [symmetric] h')
  have ft: "tkip_frame_tid E = frame_tid wh"
    by (simp add: tkip_frame_tid_def wh'_def [symmetric] ftid)
  have fs: "tkip_frame_tsc E = tsc1"
    by (simp add: tkip_frame_tsc_def fh IEEE80211_TKIP_HDRLEN_def wh'_def [symmetric] ivp' pn)
  have dh: "\<And>i. i < h \<Longrightarrow> tkip_decrypt_hdr cfg wh' ! i =
           (if i = 1 then wh ! 1 AND NOT IEEE80211_FC1_PROTECTED else wh ! i)"
    using tkip_decrypt_hdr_nth [of _ wh' cfg] hB h24 agree by (simp add: h' h_def [symmetric])
  have ad2: "i_addr2 (tkip_decrypt_hdr cfg wh') = i_addr2 wh"
    using h24 dh by (simp add: i_addr2_def bytes_at_def IEEE80211_ADDR_LEN_def)
  define ctx1' where "ctx1' = tkip_rx_ctx1 cfg E k2 ctx2"
  have rt: "rxttak ctx1' = TT"
    using rxc
    by (auto simp add: ctx1'_def tkip_rx_ctx1_def tkip_rx_ttak_def wh'_def [symmetric] fs ft ad2
          key TT_def)
  have c0': "(rc4_keysetup (Phase2 (k_key k2) (rxttak ctx1') (ucast (tkip_tsc ivp AND 0xffff))) 16,
               NOT (0::u32b)) = c0"
    by (simp add: c0_def rt key pn)
  have dec_r: "tkip_decrypt_chunk P c0 (snd r) = (fst r, body)"
    unfolding r_def by (rule tkip_decrypt_encrypt_chunk)
  have dec_t: "rc4_crypt P (fst (fst r)) (snd t) = (fst t, mic @ icv)"
    unfolding t_def by (rule rc4_crypt_inverse)
  have pl': "io_pktlen E = length (chain_bytes E)" using hp hl by (simp add: e1 e5 li lT lr)
  have fit': "h + length (snd r) \<le> CONFIG_IEEE80211_BUFSIZE cfg"
    using fit hp by (simp add: lr)
  have fresh: "k_rsc k2 (frame_tid wh') < tkip_tsc ivp"
  proof -
    have "k_tsc k < k_tsc k + 1" using tsc_succ_less [OF tsc] by simp
    then show ?thesis using cnt by (simp add: pn ftid tsc1_def)
  qed
  define r' where "r' = tkip_decrypt_chunk P c0 (snd r)"
  define t' where "t' = rc4_crypt P (fst (fst r')) (snd t)"
  have r': "r' = (fst r, body)" by (simp add: r'_def dec_r)
  have t': "t' = (fst t, mic @ icv)" by (simp add: t'_def r' dec_t)
  define D where "D = mk_chain (h + length (snd r))
                  [\<lparr>io_len = h + length (snd r),
                    io_data = store (tkip_decrypt_hdr cfg wh') h (snd r')\<rparr>]"
  have ldh: "length (tkip_decrypt_hdr cfg wh') = CONFIG_IEEE80211_BUFSIZE cfg"
    using hB by (simp add: length_tkip_decrypt_hdr h')
  have lb: "length body = io_pktlen F - h" by (simp add: body_def pl)
  have Dhead: "io_data (io_head D) = store (tkip_decrypt_hdr cfg wh') h body"
      "io_len (io_head D) = h + length (snd r)" "io_flink D = []"
    by (simp_all add: D_def mk_chain_def r')
  have Dnth: "\<And>i. i < h \<Longrightarrow> io_data (io_head D) ! i =
           (if i = 1 then wh ! 1 AND NOT IEEE80211_FC1_PROTECTED else wh ! i)"
    using dh hB by (simp add: Dhead nth_store_below ldh)
  have Dbody: "drop h (iob_bytes (io_head D)) @ iobs_bytes (io_flink D) = body"
  proof -
    have "iob_bytes (io_head D) = take (h + length body) (store (tkip_decrypt_hdr cfg wh') h body)"
      by (simp add: iob_bytes_def Dhead lr lb)
    also have "\<dots> = take h (tkip_decrypt_hdr cfg wh') @ body"
      using fit hp by (intro take_store_full) (simp add: ldh lb)
    finally show ?thesis using hB by (simp add: Dhead iobs_bytes_Nil ldh)
  qed
  have Fbody: "drop h (iob_bytes (io_head F)) @ iobs_bytes (io_flink F) = body"
    using hc' wfh
    by (simp add: body_def chain_bytes_def chain_iobs_def iobs_bytes_Cons length_iob_bytes)
  have micD: "ieee80211_tkip_mic P D h (michael_key_at k2 (rxmic ctx2)) = mic"
    unfolding mic_def mk
  proof (rule tkip_mic_cong)
    show "\<forall>i<ieee80211_get_hdrlen (io_data (io_head F)). i \<noteq> 1 \<longrightarrow>
            io_data (io_head D) ! i = io_data (io_head F) ! i"
      using Dnth by (simp add: wh_def [symmetric] h_def [symmetric])
    show "io_data (io_head D) ! 1 AND IEEE80211_FC1_DIR_MASK
            = io_data (io_head F) ! 1 AND IEEE80211_FC1_DIR_MASK"
      using Dnth [of 1] h24 by (simp add: wh_def [symmetric] protected_dir)
    show "drop h (iob_bytes (io_head D)) @ iobs_bytes (io_flink D)
            = drop h (iob_bytes (io_head F)) @ iobs_bytes (io_flink F)"
      by (simp only: Dbody Fbody)
  qed
  note Wa = tkip_decrypt_wire(1) [where P = P and cfg = cfg and env = env and ic = ic and E = E
      and k = k2 and ctx = ctx2 and H = "take h wh" and ivp = ivp and C = "snd r" and T = "snd t",
      folded wh'_def, unfolded h', folded ctx1'_def, unfolded c0', folded r'_def, folded t'_def,
      folded D_def,
      OF priv2 a0 cl e3 pl' e5 lH li lT e4 fit' tkip_ivp_extiv [of tsc1 "k_id k", folded ivp_def]
         fresh]
  note Wb = tkip_decrypt_wire(2,3) [where P = P and cfg = cfg and env = env and E = E
      and k = k2 and ctx = ctx2 and H = "take h wh" and ivp = ivp and C = "snd r" and T = "snd t",
      folded wh'_def, unfolded h', folded ctx1'_def, unfolded c0', folded r'_def, folded t'_def,
      folded D_def,
      OF priv2 a0 cl e3 pl' e5 lH li lT e4 fit' tkip_ivp_extiv [of tsc1 "k_id k", folded ivp_def]
         fresh]
  have icv_ok: "le32_word (drop 8 (snd t')) =
                NOT (ether_crc32_le_update P (snd (fst r')) (take 8 (snd t')))"
    by (simp add: r' t' lmic icv_def le32_roundtrip)
  have mic_ok: "take 8 (snd t') =
                  ieee80211_tkip_mic P D h (michael_key_at k2 (rxmic ctx2))"
    by (simp add: t' lmic micD)
  note W1 = Wa [OF icv_ok mic_ok] and W2 = Wb(1) [OF icv_ok mic_ok] and W3 = Wb(2) [OF icv_ok mic_ok]
  have cb: "chain_bytes F = take h wh @ body"
  proof -
    have "take h (chain_bytes F) = take h wh"
      unfolding wh_def using wfh hc' by (rule chain_bytes_head)
    then show ?thesis by (simp add: body_def) (metis append_take_drop_id)
  qed
  have x: "x = take h wh ! 1 AND NOT IEEE80211_FC1_PROTECTED"
    using h24 hl by (simp add: x_def cb nth_append)
  have d2: "chain_bytes D = (chain_bytes F)[1 := x]"
    using h24 hl W2 by (simp add: cb x list_update_append r')
  have d1: "io_pktlen D = io_pktlen F" using hp W3 by (simp add: lr)
  show ?thesis
    using enc W1 e1 d1 d2
    by (intro exI [of _ E] exI [of _ D] exI [of _ "k1\<lparr>k_priv := Some (TKIP_ctx (ctx1\<lparr>rc4 := fst t\<rparr>))\<rparr>"]
          exI [of _ "k2\<lparr>k_rsc := (k_rsc k2)(frame_tid wh' := tkip_tsc ivp),
                   k_priv := Some (TKIP_ctx (ctx1'\<lparr>rc4 := fst t', rxttak_ok := 1\<rparr>))\<rparr>"])
       (simp add: t1 ftid pn)
qed

section \<open>Properties\<close>

subsection \<open>Key mixing\<close>

text \<open>
  C8. For every temporal key, Phase1 output and 16-bit IV16, the Phase2 output has
  \<open>RC4KEY[0] = Hi8(IV16)\<close>, \<open>RC4KEY[2] = Lo8(IV16)\<close> and
  \<open>RC4KEY[1] = (RC4KEY[0] | 0x20) & 0x7F\<close>.
\<close>

theorem Phase2_wep_iv:
  "Phase2 TK P1K IV16 ! 0 = Hi8 IV16 \<and>
   Phase2 TK P1K IV16 ! 2 = Lo8 IV16 \<and>
   Phase2 TK P1K IV16 ! 1 = (Phase2 TK P1K IV16 ! 0 OR 0x20) AND 0x7F"
  by (simp add: Phase2_def Let_def)

text \<open>The IEEE test vector for the key mixing (TK \<open>00 .. 0F\<close>, TA \<open>10 22 33 44 55 66\<close>,
  IV32 and IV16 zero) checks the transcription of the S-box and of the two phases.\<close>

lemma Phase1_Phase2_test_vector:
  "Phase1 (map of_nat [0 ..< 16]) [0x10, 0x22, 0x33, 0x44, 0x55, 0x66] 0
     = [0x3DD2, 0x016E, 0x76F4, 0x8697, 0xB2E8]"
  "Phase2 (map of_nat [0 ..< 16]) [0x3DD2, 0x016E, 0x76F4, 0x8697, 0xB2E8] 0
     = [0x00, 0x20, 0x00, 0x33, 0xEA, 0x8D, 0x2F, 0x60, 0xCA, 0x6D, 0x13, 0x74, 0x23, 0x4A, 0x66, 0x0B]"
  by code_simp+

subsection \<open>Key installation\<close>

text \<open>
  C9. TKIP key install selects the Michael sub-keys by operating mode: in HostAP mode
  (which exists in a build with \<^verbatim>\<open>CONFIG_IEEE80211_AP\<close>) the transmit Michael key is
  key octets 16..23 and the receive key octets 24..31; in every other mode the receive
  key is octets 16..23 and the transmit key octets 24..31.
\<close>

theorem tkip_set_key_michael_keys:
  assumes "ieee80211_tkip_set_key cfg (Some mem) ic k = Inr k'"
  shows "\<exists>ctx. k_priv k' = Some (TKIP_ctx ctx) \<and>
     (CONFIG_IEEE80211_AP cfg \<and> ic_opmode ic = IEEE80211_M_HOSTAP \<longrightarrow>
        michael_key_at k' (txmic ctx) = bytes_at (k_key k) 16 8 \<and>
        michael_key_at k' (rxmic ctx) = bytes_at (k_key k) 24 8) \<and>
     (ic_opmode ic \<noteq> IEEE80211_M_HOSTAP \<longrightarrow>
        michael_key_at k' (rxmic ctx) = bytes_at (k_key k) 16 8 \<and>
        michael_key_at k' (txmic ctx) = bytes_at (k_key k) 24 8)"
  using assms by (auto simp: ieee80211_tkip_set_key_def michael_key_at_def Let_def)

theorem tkip_set_key_michael_keys_witness:
  "(\<exists>k'. ieee80211_tkip_set_key cfg64 (Some tkip_mem) ic_ap key0 = Inr k' \<and>
      CONFIG_IEEE80211_AP cfg64 \<and> ic_opmode ic_ap = IEEE80211_M_HOSTAP \<and>
      (\<exists>ctx. k_priv k' = Some (TKIP_ctx ctx) \<and>
         michael_key_at k' (txmic ctx) = map of_nat [16 ..< 24] \<and>
         michael_key_at k' (rxmic ctx) = map of_nat [24 ..< 32])) \<and>
   (\<exists>k'. ieee80211_tkip_set_key cfg64 (Some tkip_mem) ic_sta key0 = Inr k' \<and>
      ic_opmode ic_sta \<noteq> IEEE80211_M_HOSTAP \<and>
      (\<exists>ctx. k_priv k' = Some (TKIP_ctx ctx) \<and>
         michael_key_at k' (rxmic ctx) = map of_nat [16 ..< 24] \<and>
         michael_key_at k' (txmic ctx) = map of_nat [24 ..< 32]))"
proof -
  have kb: "bytes_at (k_key key0) 16 8 = map of_nat [16 ..< 24]"
    "bytes_at (k_key key0) 24 8 = map of_nat [24 ..< 32]"
    by code_simp+
  have ap: "CONFIG_IEEE80211_AP cfg64 \<and> ic_opmode ic_ap = IEEE80211_M_HOSTAP"
    by (simp add: cfg64_def ic_ap_def ic_sta_def)
  have sta: "ic_opmode ic_sta \<noteq> IEEE80211_M_HOSTAP"
    by (simp add: ic_sta_def)
  obtain k1 where k1: "ieee80211_tkip_set_key cfg64 (Some tkip_mem) ic_ap key0 = Inr k1"
    by (simp add: ieee80211_tkip_set_key_def Let_def)
  obtain k2 where k2: "ieee80211_tkip_set_key cfg64 (Some tkip_mem) ic_sta key0 = Inr k2"
    by (simp add: ieee80211_tkip_set_key_def Let_def)
  from tkip_set_key_michael_keys [OF k1] ap kb
  have a: "\<exists>ctx. k_priv k1 = Some (TKIP_ctx ctx) \<and>
         michael_key_at k1 (txmic ctx) = map of_nat [16 ..< 24] \<and>
         michael_key_at k1 (rxmic ctx) = map of_nat [24 ..< 32]"
    by auto
  from tkip_set_key_michael_keys [OF k2] sta kb
  have b: "\<exists>ctx. k_priv k2 = Some (TKIP_ctx ctx) \<and>
         michael_key_at k2 (rxmic ctx) = map of_nat [16 ..< 24] \<and>
         michael_key_at k2 (txmic ctx) = map of_nat [24 ..< 32]"
    by auto
  show ?thesis using k1 k2 a b ap sta by blast
qed

subsection \<open>CCMP additional authenticated data\<close>

lemma length_ccmp_aad:
  "length (ccmp_aad wh) =
     22 + (if ieee80211_has_addr4 wh then 6 else 0) + (if ieee80211_has_qos wh then 2 else 0)"
  by (simp add: ccmp_aad_def i_addr1_def i_addr2_def i_addr3_def i_addr4_def bytes_at_def
      IEEE80211_ADDR_LEN_def)

text \<open>
  C7. The AAD length \<open>l(a)\<close> is 22 for every frame with direction NODS and no QoS
  control field (with or without HTC), and 30 for every DSTODS (four-address) QoS
  frame; in all cases \<^verbatim>\<open>auth\<close> is the two octets of \<open>l(a)\<close>, the AAD, and zeros up to
  30 octets after \<open>l(a)\<close>.
\<close>

theorem ccmp_aad_length:
  "((i_fc1 wh AND IEEE80211_FC1_DIR_MASK) = IEEE80211_FC1_DIR_NODS \<and> \<not> ieee80211_has_qos wh
      \<longrightarrow> length (ccmp_aad wh) = 22 \<and> take 2 (ccmp_auth wh) = [0, 22]) \<and>
   ((i_fc1 wh AND IEEE80211_FC1_DIR_MASK) = IEEE80211_FC1_DIR_DSTODS \<and> ieee80211_has_qos wh
      \<longrightarrow> length (ccmp_aad wh) = 30 \<and> take 2 (ccmp_auth wh) = [0, 30]) \<and>
   length (ccmp_auth wh) = 32 \<and>
   ccmp_auth wh =
     take 2 (ccmp_auth wh) @ ccmp_aad wh @ replicate (30 - length (ccmp_aad wh)) 0"
  by (auto simp add: length_ccmp_aad ccmp_auth_def Let_def ieee80211_has_addr4_def
      IEEE80211_FC1_DIR_NODS_def IEEE80211_FC1_DIR_DSTODS_def)

theorem ccmp_aad_length_witness:
  "(i_fc1 hdr_nods AND IEEE80211_FC1_DIR_MASK) = IEEE80211_FC1_DIR_NODS \<and>
   \<not> ieee80211_has_qos hdr_nods \<and>
   length (ccmp_aad hdr_nods) = 22 \<and> take 2 (ccmp_auth hdr_nods) = [0, 22] \<and>
   (i_fc1 hdr_dstods_qos AND IEEE80211_FC1_DIR_MASK) = IEEE80211_FC1_DIR_DSTODS \<and>
   ieee80211_has_qos hdr_dstods_qos \<and>
   length (ccmp_aad hdr_dstods_qos) = 30 \<and> take 2 (ccmp_auth hdr_dstods_qos) = [0, 30] \<and>
   length (ccmp_auth hdr_nods) = 32 \<and> length (ccmp_auth hdr_dstods_qos) = 32"
proof -
  have h1: "(i_fc1 hdr_nods AND IEEE80211_FC1_DIR_MASK) = IEEE80211_FC1_DIR_NODS \<and>
            \<not> ieee80211_has_qos hdr_nods"
    by code_simp
  have h2: "(i_fc1 hdr_dstods_qos AND IEEE80211_FC1_DIR_MASK) = IEEE80211_FC1_DIR_DSTODS \<and>
            ieee80211_has_qos hdr_dstods_qos"
    by code_simp
  show ?thesis
    using h1 h2 ccmp_aad_length [of hdr_nods] ccmp_aad_length [of hdr_dstods_qos]
    by simp
qed

subsection \<open>Countermeasures\<close>

lemma tkip_deauth_flags: "ic_flags (foldl ieee80211_tkip_deauth ic nodes) = ic_flags ic"
  by (induction nodes arbitrary: ic) (simp_all add: ieee80211_tkip_deauth_def)

lemma tkip_deauth_opmode: "ic_opmode (foldl ieee80211_tkip_deauth ic nodes) = ic_opmode ic"
  by (induction nodes arbitrary: ic) (simp_all add: ieee80211_tkip_deauth_def)

lemma F_COUNTERM_set: "(w OR IEEE80211_F_COUNTERM) AND IEEE80211_F_COUNTERM \<noteq> 0"
  by (simp add: IEEE80211_F_COUNTERM_def word_bw_assocs word_ao_absorbs)

lemma michael_mic_failure_flags:
  "(ic_flags (ieee80211_michael_mic_failure cfg t ic tsc) AND IEEE80211_F_COUNTERM = 0) \<longleftrightarrow>
     (ic_flags ic AND IEEE80211_F_COUNTERM = 0 \<and>
      \<not> (CONFIG_IEEE80211_AP cfg \<and> ic_opmode ic = IEEE80211_M_HOSTAP \<and>
          ic_tkip_micfail ic \<noteq> 0 \<and> sint (t - (ic_tkip_micfail ic + 60 * hz cfg)) < 0))"
  using F_COUNTERM_set [of "ic_flags ic"]
  by (auto simp: ieee80211_michael_mic_failure_def Let_def tkip_deauth_flags)

lemma michael_mic_failure_tick:
  "ic_flags ic AND IEEE80211_F_COUNTERM = 0 \<Longrightarrow>
   ic_tkip_micfail (ieee80211_michael_mic_failure cfg t ic tsc) = t"
  by (simp add: ieee80211_michael_mic_failure_def Let_def)

lemma michael_mic_failure_opmode:
  "ic_opmode (ieee80211_michael_mic_failure cfg t ic tsc) = ic_opmode ic"
  by (simp add: ieee80211_michael_mic_failure_def Let_def tkip_deauth_opmode)

lemma michael_mic_failure_sta_flags:
  "ic_opmode ic = IEEE80211_M_STA \<Longrightarrow>
   ic_flags (ieee80211_michael_mic_failure cfg t ic tsc) = ic_flags ic"
  by (simp add: ieee80211_michael_mic_failure_def Let_def)

lemma michael_mic_failure_sta_calls:
  assumes "ic_opmode ic = IEEE80211_M_STA" and "ic_flags ic AND IEEE80211_F_COUNTERM = 0"
    and "ic_tkip_micfail ic \<noteq> 0" and "sint (t - (ic_tkip_micfail ic + 60 * hz cfg)) < 0"
  shows "ic_calls (ieee80211_michael_mic_failure cfg t ic tsc) =
           ic_calls ic @
             [Send_eapol_key_req (ic_bss ic) (ic_tkip_micfail_last_tsc ic),
              Send_eapol_key_req (ic_bss ic) tsc,
              Send_deauth_mic_failure (ic_bss ic),
              New_state_scan]"
  using assms by (simp add: ieee80211_michael_mic_failure_def Let_def)

text \<open>The test of the code when nothing wraps: the signed value of the 32-bit result is
  the integer \<open>ticks - (ic_tkip_micfail + 60 * hz)\<close> whenever that integer is an \<^verbatim>\<open>int\<close>.\<close>

lemma ticks_window:
  fixes t m h :: s32b
  assumes "- (2 ^ 31) \<le> sint t - (sint m + 60 * sint h)"
    and "sint t - (sint m + 60 * sint h) < 2 ^ 31"
  shows "sint (t - (m + 60 * h)) = sint t - (sint m + 60 * sint h)"
proof -
  have "t - (m + 60 * h) = word_of_int (sint t - (sint m + 60 * sint h))"
    by simp
  then have "sint (t - (m + 60 * h)) = signed_take_bit 31 (sint t - (sint m + 60 * sint h))"
    by (simp only: sint_sbintrunc') simp
  also have "\<dots> = sint t - (sint m + 60 * sint h)"
    using assms by (simp add: signed_take_bit_int_eq_self)
  finally show ?thesis .
qed

text \<open>
  C5, as the code has it. The flag is set by the MIC-failure handler in HostAP mode
  only: after a report the \<^verbatim>\<open>IEEE80211_F_COUNTERM\<close> bit is set iff it was set before,
  or the mode is HostAP (in a build with \<^verbatim>\<open>CONFIG_IEEE80211_AP\<close>), a previous failure
  is on record (the last-failure tick is not 0) and the \<^verbatim>\<open>int\<close>
  \<^verbatim>\<open>ticks - (ic_tkip_micfail + 60 * hz)\<close>, computed with 32-bit wrap-around, is negative;
  when the integer difference fits an \<^verbatim>\<open>int\<close> that is: fewer than \<open>60 * hz\<close> ticks have
  passed. For two reports in a row, at ticks \<open>t1\<close> and \<open>t2\<close>, starting with the bit clear:
  the bit is set after the second iff it was set after the first, or the mode is HostAP,
  \<open>t1\<close> is not 0 and the second report is inside the window of the first. In station
  mode the handler never changes the flags; a second failure inside the window asks for
  two EAPOL-Key requests (the previous TSC, then this one), a deauthentication and a
  scan, in this order.
\<close>

theorem michael_mic_failure_counterm:
  "((ic_flags (ieee80211_michael_mic_failure cfg t ic tsc) AND IEEE80211_F_COUNTERM = 0) \<longleftrightarrow>
      (ic_flags ic AND IEEE80211_F_COUNTERM = 0 \<and>
       \<not> (CONFIG_IEEE80211_AP cfg \<and> ic_opmode ic = IEEE80211_M_HOSTAP \<and>
           ic_tkip_micfail ic \<noteq> 0 \<and> sint (t - (ic_tkip_micfail ic + 60 * hz cfg)) < 0))) \<and>
   (- (2 ^ 31) \<le> sint t - (sint (ic_tkip_micfail ic) + 60 * sint (hz cfg)) \<and>
    sint t - (sint (ic_tkip_micfail ic) + 60 * sint (hz cfg)) < 2 ^ 31 \<longrightarrow>
      (sint (t - (ic_tkip_micfail ic + 60 * hz cfg)) < 0 \<longleftrightarrow>
       sint t - sint (ic_tkip_micfail ic) < 60 * sint (hz cfg))) \<and>
   (ic_flags ic AND IEEE80211_F_COUNTERM = 0 \<longrightarrow>
      ((ic_flags (ieee80211_michael_mic_failure cfg t2
            (ieee80211_michael_mic_failure cfg t1 ic tsc1) tsc2) AND IEEE80211_F_COUNTERM = 0) \<longleftrightarrow>
       (ic_flags (ieee80211_michael_mic_failure cfg t1 ic tsc1) AND IEEE80211_F_COUNTERM = 0 \<and>
        \<not> (CONFIG_IEEE80211_AP cfg \<and> ic_opmode ic = IEEE80211_M_HOSTAP \<and>
            t1 \<noteq> 0 \<and> sint (t2 - (t1 + 60 * hz cfg)) < 0)))) \<and>
   (ic_opmode ic = IEEE80211_M_STA \<longrightarrow>
      ic_flags (ieee80211_michael_mic_failure cfg t ic tsc) = ic_flags ic) \<and>
   (ic_opmode ic = IEEE80211_M_STA \<and> ic_flags ic AND IEEE80211_F_COUNTERM = 0 \<and>
    ic_tkip_micfail ic \<noteq> 0 \<and> sint (t - (ic_tkip_micfail ic + 60 * hz cfg)) < 0 \<longrightarrow>
      ic_calls (ieee80211_michael_mic_failure cfg t ic tsc) =
        ic_calls ic @
          [Send_eapol_key_req (ic_bss ic) (ic_tkip_micfail_last_tsc ic),
           Send_eapol_key_req (ic_bss ic) tsc,
           Send_deauth_mic_failure (ic_bss ic),
           New_state_scan])"
proof (intro conjI impI)
  show "(ic_flags (ieee80211_michael_mic_failure cfg t ic tsc) AND IEEE80211_F_COUNTERM = 0) \<longleftrightarrow>
      (ic_flags ic AND IEEE80211_F_COUNTERM = 0 \<and>
       \<not> (CONFIG_IEEE80211_AP cfg \<and> ic_opmode ic = IEEE80211_M_HOSTAP \<and>
           ic_tkip_micfail ic \<noteq> 0 \<and> sint (t - (ic_tkip_micfail ic + 60 * hz cfg)) < 0))"
    by (rule michael_mic_failure_flags)
next
  assume "- (2 ^ 31) \<le> sint t - (sint (ic_tkip_micfail ic) + 60 * sint (hz cfg)) \<and>
    sint t - (sint (ic_tkip_micfail ic) + 60 * sint (hz cfg)) < 2 ^ 31"
  then have "sint (t - (ic_tkip_micfail ic + 60 * hz cfg)) =
               sint t - (sint (ic_tkip_micfail ic) + 60 * sint (hz cfg))"
    by (intro ticks_window) simp_all
  then show "sint (t - (ic_tkip_micfail ic + 60 * hz cfg)) < 0 \<longleftrightarrow>
       sint t - sint (ic_tkip_micfail ic) < 60 * sint (hz cfg)"
    by (simp only:) arith
next
  assume clear: "ic_flags ic AND IEEE80211_F_COUNTERM = 0"
  let ?ic1 = "ieee80211_michael_mic_failure cfg t1 ic tsc1"
  have "ic_tkip_micfail ?ic1 = t1" using clear by (rule michael_mic_failure_tick)
  moreover have "ic_opmode ?ic1 = ic_opmode ic" by (rule michael_mic_failure_opmode)
  ultimately show "(ic_flags (ieee80211_michael_mic_failure cfg t2 ?ic1 tsc2)
        AND IEEE80211_F_COUNTERM = 0) \<longleftrightarrow>
       (ic_flags ?ic1 AND IEEE80211_F_COUNTERM = 0 \<and>
        \<not> (CONFIG_IEEE80211_AP cfg \<and> ic_opmode ic = IEEE80211_M_HOSTAP \<and>
            t1 \<noteq> 0 \<and> sint (t2 - (t1 + 60 * hz cfg)) < 0))"
    by (simp add: michael_mic_failure_flags [of cfg t2 ?ic1 tsc2])
next
  assume "ic_opmode ic = IEEE80211_M_STA"
  then show "ic_flags (ieee80211_michael_mic_failure cfg t ic tsc) = ic_flags ic"
    by (rule michael_mic_failure_sta_flags)
next
  assume "ic_opmode ic = IEEE80211_M_STA \<and> ic_flags ic AND IEEE80211_F_COUNTERM = 0 \<and>
    ic_tkip_micfail ic \<noteq> 0 \<and> sint (t - (ic_tkip_micfail ic + 60 * hz cfg)) < 0"
  then show "ic_calls (ieee80211_michael_mic_failure cfg t ic tsc) =
        ic_calls ic @
          [Send_eapol_key_req (ic_bss ic) (ic_tkip_micfail_last_tsc ic),
           Send_eapol_key_req (ic_bss ic) tsc,
           Send_deauth_mic_failure (ic_bss ic),
           New_state_scan]"
    by (intro michael_mic_failure_sta_calls) simp_all
qed

text \<open>Access point, 100 ticks a second: a second report 30 seconds after the first sets
  the flag, one 90 seconds after does not; nor does one 100 seconds after a first report
  at tick 2147483000, the clock having wrapped in between. Station: a second report one
  second after the first leaves the flags as they were and makes the four requests.\<close>

theorem michael_mic_failure_counterm_witness:
  "ic_flags ic_ap AND IEEE80211_F_COUNTERM = 0 \<and>
   ic_flags (ieee80211_michael_mic_failure cfg64 100 ic_ap 1) AND IEEE80211_F_COUNTERM = 0 \<and>
   ic_flags (ieee80211_michael_mic_failure cfg64 3100
      (ieee80211_michael_mic_failure cfg64 100 ic_ap 1) 2) AND IEEE80211_F_COUNTERM \<noteq> 0 \<and>
   ic_flags (ieee80211_michael_mic_failure cfg64 9100
      (ieee80211_michael_mic_failure cfg64 100 ic_ap 1) 2) AND IEEE80211_F_COUNTERM = 0 \<and>
   ic_flags (ieee80211_michael_mic_failure cfg64 (- 2147474296)
      (ieee80211_michael_mic_failure cfg64 2147483000 ic_ap 1) 2) AND IEEE80211_F_COUNTERM = 0 \<and>
   (sint (3100 - (100 + 60 * hz cfg64)) < 0 \<longleftrightarrow> (3100 :: int) - 100 < 60 * 100) \<and>
   ic_flags (ieee80211_michael_mic_failure cfg64 200 ic_sta_failed 2) = ic_flags ic_sta_failed \<and>
   ic_calls (ieee80211_michael_mic_failure cfg64 200 ic_sta_failed 2) =
     [Send_eapol_key_req node0 1, Send_eapol_key_req node0 2,
      Send_deauth_mic_failure node0, New_state_scan]"
proof -
  have c: "ic_flags ic_ap AND IEEE80211_F_COUNTERM = 0"
    and m: "ic_tkip_micfail ic_ap = 0"
    and ap: "CONFIG_IEEE80211_AP cfg64" "ic_opmode ic_ap = IEEE80211_M_HOSTAP" "hz cfg64 = 100"
    by (simp_all add: ic_ap_def ic_sta_def cfg64_def)
  have w: "sint (3100 - (100 + 60 * 100 :: s32b)) < 0"
      "\<not> sint (9100 - (100 + 60 * 100 :: s32b)) < 0"
      "\<not> sint (- 2147474296 - (2147483000 + 60 * 100 :: s32b)) < 0"
      "sint (200 - (100 + 60 * 100 :: s32b)) < 0"
      "sint (3100 :: s32b) = 3100" "sint (100 :: s32b) = 100"
    by simp_all
  have s: "ic_opmode ic_sta_failed = IEEE80211_M_STA"
      "ic_flags ic_sta_failed AND IEEE80211_F_COUNTERM = 0"
      "ic_tkip_micfail ic_sta_failed = 100" "ic_tkip_micfail_last_tsc ic_sta_failed = 1"
      "ic_bss ic_sta_failed = node0" "ic_calls ic_sta_failed = []"
    by (simp_all add: ic_sta_failed_def ic_sta_def)
  note A = michael_mic_failure_counterm
            [where cfg = cfg64 and t = 3100 and ic = "ic_ap\<lparr>ic_tkip_micfail := 100\<rparr>" and tsc = 1
               and ?t1.0 = 100 and ?tsc1.0 = 1 and ?t2.0 = 3100 and ?tsc2.0 = 2]
  note B = michael_mic_failure_counterm
            [where cfg = cfg64 and t = 100 and ic = ic_ap and tsc = 1
               and ?t1.0 = 100 and ?tsc1.0 = 1 and ?t2.0 = 3100 and ?tsc2.0 = 2]
  note C = michael_mic_failure_counterm
            [where cfg = cfg64 and t = 100 and ic = ic_ap and tsc = 1
               and ?t1.0 = 100 and ?tsc1.0 = 1 and ?t2.0 = 9100 and ?tsc2.0 = 2]
  note D = michael_mic_failure_counterm
            [where cfg = cfg64 and t = 2147483000 and ic = ic_ap and tsc = 1
               and ?t1.0 = 2147483000 and ?tsc1.0 = 1 and ?t2.0 = "- 2147474296" and ?tsc2.0 = 2]
  note S = michael_mic_failure_counterm
            [where cfg = cfg64 and t = 200 and ic = ic_sta_failed and tsc = 2]
  have 1: "ic_flags (ieee80211_michael_mic_failure cfg64 100 ic_ap 1) AND IEEE80211_F_COUNTERM = 0"
    using B [THEN conjunct1] c m by simp
  have 2: "ic_flags (ieee80211_michael_mic_failure cfg64 3100
      (ieee80211_michael_mic_failure cfg64 100 ic_ap 1) 2) AND IEEE80211_F_COUNTERM \<noteq> 0"
    using B [THEN conjunct2, THEN conjunct2, THEN conjunct1] c 1 ap w by simp
  have 3: "ic_flags (ieee80211_michael_mic_failure cfg64 9100
      (ieee80211_michael_mic_failure cfg64 100 ic_ap 1) 2) AND IEEE80211_F_COUNTERM = 0"
    using C [THEN conjunct2, THEN conjunct2, THEN conjunct1] c 1 ap w by simp
  have 4: "ic_flags (ieee80211_michael_mic_failure cfg64 (- 2147474296)
      (ieee80211_michael_mic_failure cfg64 2147483000 ic_ap 1) 2) AND IEEE80211_F_COUNTERM = 0"
    using D [THEN conjunct2, THEN conjunct2, THEN conjunct1]
      D [THEN conjunct1] c m ap w by simp
  have 5: "sint (3100 - (100 + 60 * hz cfg64)) < 0 \<longleftrightarrow> (3100 :: int) - 100 < 60 * 100"
    using A [THEN conjunct2, THEN conjunct1] ap w by simp
  have 6: "ic_flags (ieee80211_michael_mic_failure cfg64 200 ic_sta_failed 2) = ic_flags ic_sta_failed"
    using S [THEN conjunct2, THEN conjunct2, THEN conjunct2, THEN conjunct1] s by simp
  have 7: "ic_calls (ieee80211_michael_mic_failure cfg64 200 ic_sta_failed 2) =
     [Send_eapol_key_req node0 1, Send_eapol_key_req node0 2,
      Send_deauth_mic_failure node0, New_state_scan]"
    using S [THEN conjunct2, THEN conjunct2, THEN conjunct2, THEN conjunct2] s ap w by simp
  show ?thesis using c 1 2 3 4 5 6 7 by simp
qed

text \<open>In station mode two reports one second apart leave the flag clear: the claim
  "set iff two failures within 60 seconds, in any operating mode" fails there.\<close>

theorem michael_mic_failure_sta_counterexample:
  "ic_flags (ieee80211_michael_mic_failure cfg64 200
      (ieee80211_michael_mic_failure cfg64 100 ic_sta 1) 2) AND IEEE80211_F_COUNTERM = 0 \<and>
   ic_calls (ieee80211_michael_mic_failure cfg64 200
      (ieee80211_michael_mic_failure cfg64 100 ic_sta 1) 2) =
     [Send_eapol_key_req node0 1, Send_eapol_key_req node0 2,
      Send_deauth_mic_failure node0, New_state_scan]"
  by (simp add: ieee80211_michael_mic_failure_def ic_sta_def cfg64_def Let_def
      IEEE80211_F_COUNTERM_def)
subsection \<open>What a call leaves in the key\<close>



lemma ccmp_decrypt_accept:
  "ieee80211_ccmp_decrypt P cfg env m k = Some (Inr F, k') \<Longrightarrow>
     ccmp_prsc k (io_data (io_head m)) < ccmp_frame_pn m \<and>
     k' = ccmp_prsc_update k (io_data (io_head m)) (ccmp_frame_pn m)"
  unfolding ieee80211_ccmp_decrypt_def
  by (simp add: Let_def split: option.splits priv_ctx.splits if_splits prod.splits)

lemma ccmp_decrypt_reject:
  "ieee80211_ccmp_decrypt P cfg env m k = Some (Inl e, k') \<Longrightarrow> k' = k"
  unfolding ieee80211_ccmp_decrypt_def
  by (simp add: Let_def split: option.splits priv_ctx.splits if_splits prod.splits)

lemma ccmp_prsc_update_read: "ccmp_prsc (ccmp_prsc_update k wh pn) wh = pn"
  by (simp add: ccmp_prsc_def ccmp_prsc_update_def)

subsection \<open>Runs on the concrete inputs\<close>



lemma ccmp_dec1:
  "returns_frame (ieee80211_ccmp_decrypt toy_prims cfg64 env_ok ccmp_wire0 ccmp_key1) \<and>
   ccmp_is_data (io_data (io_head ccmp_wire0)) \<and> frame_tid (io_data (io_head ccmp_wire0)) = 0 \<and>
   ccmp_frame_pn ccmp_wire0 = 6"
  by code_simp

lemma ccmp_dec2:
  "returns_fail Replay (ieee80211_ccmp_decrypt toy_prims cfg64 env_ok ccmp_wire0 ccmp_key2)"
  by code_simp

lemma tkip_enc0:
  "map_option fst (ieee80211_tkip_encrypt toy_prims cfg64 env_ok frame30 tkip_key0)
     = Some (Inr tkip_wire0)"
  by code_simp


lemma tkip_dec_peer:
  "returns_frame (ieee80211_tkip_decrypt toy_prims cfg64 env_ok ic_sta tkip_wire0 tkip_peer0)"
  by code_simp

lemma tkip_dec_replay:
  "returns_fail Replay (ieee80211_tkip_decrypt toy_prims cfg64 env_ok ic_sta tkip_wire0 tkip_peer1)"
  by code_simp

lemma tkip_dec_same_key:
  "returns_fail Michael_failure
     (ieee80211_tkip_decrypt toy_prims cfg64 env_ok ic_sta tkip_wire0 tkip_key0)"
  by code_simp

lemma map_fst_SomeD: "map_option fst r = Some x \<Longrightarrow> r = Some (x, snd (the r))"
  by (cases r) auto


lemma tkip_enc0_eq:
  "ieee80211_tkip_encrypt toy_prims cfg64 env_ok frame30 tkip_key0 = Some (Inr tkip_wire0, tkip_key1)"
  using map_fst_SomeD [OF tkip_enc0] by (simp add: tkip_key1_def)

lemma ccmp_dec1_eq:
  "\<exists>F. ieee80211_ccmp_decrypt toy_prims cfg64 env_ok ccmp_wire0 ccmp_key1 = Some (Inr F, ccmp_key2)"
proof -
  from returns_frameD [OF ccmp_dec1 [THEN conjunct1]] obtain F k' where
    d: "ieee80211_ccmp_decrypt toy_prims cfg64 env_ok ccmp_wire0 ccmp_key1 = Some (Inr F, k')"
    by blast
  from ccmp_decrypt_accept [OF d] ccmp_dec1 have "k' = ccmp_key2"
    by (simp add: ccmp_prsc_update_def ccmp_key2_def)
  with d show ?thesis by blast
qed

lemma tkip_dec_peer_eq:
  "\<exists>F ic'. ieee80211_tkip_decrypt toy_prims cfg64 env_ok ic_sta tkip_wire0 tkip_peer0
             = Some (Inr F, tkip_peer1, ic')"
proof -
  have "snd (the (ieee80211_tkip_decrypt toy_prims cfg64 env_ok ic_sta tkip_wire0 tkip_peer0))
        = (tkip_peer1, snd (snd (the (ieee80211_tkip_decrypt toy_prims cfg64 env_ok ic_sta
                                        tkip_wire0 tkip_peer0))))"
    by (simp add: tkip_peer1_def)
  with returns_frameD [OF tkip_dec_peer] show ?thesis by metis
qed


subsection \<open>Management and QoS frames, a wrong MIC\<close>

lemma ccmp_enc_mgt:
  "map_option fst (ieee80211_ccmp_encrypt toy_prims cfg64 env_ok frame_mgt ccmp_key0)
     = Some (Inr ccmp_wire_mgt)"
  by code_simp

lemma ccmp_enc_qos:
  "map_option fst (ieee80211_ccmp_encrypt toy_prims cfg64 env_ok frame_qos ccmp_key0)
     = Some (Inr ccmp_wire_qos)"
  by code_simp

lemma tkip_enc_mgt:
  "map_option fst (ieee80211_tkip_encrypt toy_prims cfg64 env_ok frame_mgt tkip_key0)
     = Some (Inr tkip_wire_mgt)"
  by code_simp

lemma tkip_enc_qos:
  "map_option fst (ieee80211_tkip_encrypt toy_prims cfg64 env_ok frame_qos tkip_key0)
     = Some (Inr tkip_wire_qos)"
  by code_simp

lemma ccmp_dec_qos:
  "returns_frame (ieee80211_ccmp_decrypt toy_prims cfg64 env_ok ccmp_wire_qos ccmp_key1) \<and>
   ccmp_is_data (io_data (io_head ccmp_wire_qos)) \<and>
   frame_tid (io_data (io_head ccmp_wire_qos)) = 5 \<and> ccmp_frame_pn ccmp_wire_qos = 6"
  by code_simp

lemma ccmp_dec_mgt:
  "returns_frame (ieee80211_ccmp_decrypt toy_prims cfg64 env_ok ccmp_wire_mgt ccmp_key1) \<and>
   \<not> ccmp_is_data (io_data (io_head ccmp_wire_mgt)) \<and> ccmp_frame_pn ccmp_wire_mgt = 6"
  by code_simp

lemma ccmp_dec_bad:
  "returns_fail Bad_mic (ieee80211_ccmp_decrypt toy_prims cfg64 env_ok ccmp_wire0_bad ccmp_key1)"
  by code_simp

lemma ccmp_bad_run:
  "(case body_loop (crypt_bytes (ccm_decrypt_byte toy_prims (take 16 (k_key key0)))) cfg64 env_ok
           (ccmp_decrypt_init toy_prims cfg64 ccmp_wire0_bad (take 16 (k_key key0))
              (ccmp_frame_pn ccmp_wire0_bad)
              (io_pktlen ccmp_wire0_bad - (IEEE80211_CCMP_HDRLEN + IEEE80211_CCMP_MICLEN))) of
      Some (None, st) \<Rightarrow>
        iob_copyout (ls_iob st) (ls_moff st) IEEE80211_CCMP_MICLEN \<noteq>
          ccm_mic toy_prims (take 16 (k_key key0)) (ls_cipher st)
            (snd (snd (ieee80211_ccmp_phase1 toy_prims (take 16 (k_key key0))
                         (io_data (io_head ccmp_wire0_bad)) (ccmp_frame_pn ccmp_wire0_bad)
                         (int (io_pktlen ccmp_wire0_bad
                                 - (IEEE80211_CCMP_HDRLEN + IEEE80211_CCMP_MICLEN))
                          - int (ieee80211_get_hdrlen (io_data (io_head ccmp_wire0_bad)))))))
    | _ \<Rightarrow> False)"
  by code_simp

lemma tkip_dec_qos:
  "returns_frame (ieee80211_tkip_decrypt toy_prims cfg64 env_ok ic_sta tkip_wire_qos tkip_peer0) \<and>
   tkip_frame_tid tkip_wire_qos = 5 \<and> tkip_frame_tsc tkip_wire_qos = 6"
  by code_simp

lemma tkip_dec_mgt:
  "returns_frame (ieee80211_tkip_decrypt toy_prims cfg64 env_ok ic_sta tkip_wire_mgt tkip_peer_mgt) \<and>
   (i_fc0 (io_data (io_head tkip_wire_mgt)) AND IEEE80211_FC0_TYPE_MASK) = IEEE80211_FC0_TYPE_MGT \<and>
   tkip_frame_tid tkip_wire_mgt = 0 \<and> tkip_frame_tsc tkip_wire_mgt = 6"
  by code_simp
subsection \<open>Transmit counter\<close>












subsection \<open>Receive counters\<close>

lemma tkip_decrypt_tail_accept:
  "tkip_decrypt_tail P cfg env ic m k ctx1 st = (Inr F, k', ic') \<Longrightarrow>
     k_rsc k' = (k_rsc k)(tkip_frame_tid m := tkip_frame_tsc m) \<and>
     k_mgmt_rsc k' = k_mgmt_rsc k \<and> k_tsc k' = k_tsc k \<and> ic' = ic \<and>
     k_priv k' = Some (TKIP_ctx (ctx1\<lparr>rc4 := fst (tkip_tail_buf P st), rxttak_ok := 1\<rparr>))"
  unfolding tkip_decrypt_tail_def
  by (auto simp add: Let_def split: if_splits)

lemma tkip_decrypt_tail_reject:
  "tkip_decrypt_tail P cfg env ic m k ctx1 st = (Inl e, k', ic') \<Longrightarrow>
     k_rsc k' = k_rsc k \<and> k_mgmt_rsc k' = k_mgmt_rsc k \<and> k_tsc k' = k_tsc k \<and>
     k_priv k' = Some (TKIP_ctx (ctx1\<lparr>rc4 := fst (tkip_tail_buf P st)\<rparr>)) \<and>
     (e = Bad_icv \<or> e = Michael_failure) \<and>
     (e = Bad_icv \<longrightarrow> ic' = ic) \<and>
     (e = Michael_failure \<longrightarrow>
        ic' = ieee80211_michael_mic_failure cfg (ticks env) ic (tkip_frame_tsc m))"
  unfolding tkip_decrypt_tail_def
  by (auto simp add: Let_def split: if_splits)

lemma tkip_decrypt_checks_pass:
  "tkip_decrypt_checks cfg env m k = None \<Longrightarrow> k_rsc k (tkip_frame_tid m) < tkip_frame_tsc m"
  unfolding tkip_decrypt_checks_def
  by (simp add: Let_def split: if_splits)

lemma tkip_decrypt_accept:
  assumes "ieee80211_tkip_decrypt P cfg env ic m k = Some (Inr F, k', ic')"
  shows "k_rsc k (tkip_frame_tid m) < tkip_frame_tsc m \<and>
     k_rsc k' = (k_rsc k)(tkip_frame_tid m := tkip_frame_tsc m) \<and>
     k_mgmt_rsc k' = k_mgmt_rsc k \<and> ic' = ic \<and>
     (\<exists>ctx'. k_priv k' = Some (TKIP_ctx ctx') \<and> rxttak_ok ctx' = 1)"
  using assms unfolding ieee80211_tkip_decrypt_def
  by (auto simp add: Let_def dest!: tkip_decrypt_tail_accept tkip_decrypt_checks_pass
      split: option.splits priv_ctx.splits prod.splits)

lemma tkip_decrypt_reject:
  assumes "ieee80211_tkip_decrypt P cfg env ic m k = Some (Inl e, k', ic')"
  shows "k_rsc k' = k_rsc k \<and> k_mgmt_rsc k' = k_mgmt_rsc k \<and> k_tsc k' = k_tsc k"
  using assms unfolding ieee80211_tkip_decrypt_def
  by (auto simp add: Let_def dest!: tkip_decrypt_tail_reject
      split: option.splits priv_ctx.splits prod.splits)

lemma ccmp_decrypt_mic:
  assumes "ieee80211_ccmp_decrypt P cfg env m k = Some (Inr F, k')"
  shows "\<exists>ctx st. k_priv k = Some (CCMP_ctx ctx) \<and>
     body_loop (crypt_bytes (ccm_decrypt_byte P (rijndael ctx))) cfg env
       (ccmp_decrypt_init P cfg m (rijndael ctx) (ccmp_frame_pn m)
          (io_pktlen m - (IEEE80211_CCMP_HDRLEN + IEEE80211_CCMP_MICLEN))) = Some (None, st) \<and>
     iob_copyout (ls_iob st) (ls_moff st) IEEE80211_CCMP_MICLEN =
       ccm_mic P (rijndael ctx) (ls_cipher st)
         (snd (snd (ieee80211_ccmp_phase1 P (rijndael ctx) (io_data (io_head m)) (ccmp_frame_pn m)
                      (int (io_pktlen m - (IEEE80211_CCMP_HDRLEN + IEEE80211_CCMP_MICLEN))
                       - int (ieee80211_get_hdrlen (io_data (io_head m)))))))"
  using assms unfolding ieee80211_ccmp_decrypt_def
  by (auto simp add: Let_def split: option.splits priv_ctx.splits if_splits prod.splits)

lemma ccmp_decrypt_bad_mic:
  assumes "k_priv k = Some (CCMP_ctx ctx)"
    and "body_loop (crypt_bytes (ccm_decrypt_byte P (rijndael ctx))) cfg env
       (ccmp_decrypt_init P cfg m (rijndael ctx) (ccmp_frame_pn m)
          (io_pktlen m - (IEEE80211_CCMP_HDRLEN + IEEE80211_CCMP_MICLEN))) = Some (None, st)"
    and "iob_copyout (ls_iob st) (ls_moff st) IEEE80211_CCMP_MICLEN \<noteq>
       ccm_mic P (rijndael ctx) (ls_cipher st)
         (snd (snd (ieee80211_ccmp_phase1 P (rijndael ctx) (io_data (io_head m)) (ccmp_frame_pn m)
                      (int (io_pktlen m - (IEEE80211_CCMP_HDRLEN + IEEE80211_CCMP_MICLEN))
                       - int (ieee80211_get_hdrlen (io_data (io_head m)))))))"
    and "ieee80211_ccmp_decrypt P cfg env m k = Some (r, k')"
  shows "k' = k \<and> (\<exists>e. r = Inl e)"
  using assms unfolding ieee80211_ccmp_decrypt_def
  by (auto simp add: Let_def split: if_splits)

lemma tkip_decrypt_tail_mic:
  "tkip_decrypt_tail P cfg env ic m k ctx1 st = (Inr F, k', ic') \<Longrightarrow>
     tkip_rx_crc P st = tkip_rx_icv P st \<and>
     take IEEE80211_TKIP_MICLEN (snd (tkip_tail_buf P st)) =
       ieee80211_tkip_mic P (mk_chain (tkip_rx_pktlen m) (ls_done st @ [ls_next st]))
         (tkip_frame_hdrlen m) (michael_key_at k (rxmic ctx1))"
  unfolding tkip_decrypt_tail_def
  by (auto simp add: Let_def split: if_splits)

lemma tkip_decrypt_mic:
  assumes "ieee80211_tkip_decrypt P cfg env ic m k = Some (Inr F, k', ic')"
  shows "\<exists>ctx st. k_priv k = Some (TKIP_ctx ctx) \<and>
     tkip_rx_loop P cfg env m k ctx = Some (None, st) \<and>
     tkip_rx_crc P st = tkip_rx_icv P st \<and>
     take IEEE80211_TKIP_MICLEN (snd (tkip_tail_buf P st)) =
       ieee80211_tkip_mic P (mk_chain (tkip_rx_pktlen m) (ls_done st @ [ls_next st]))
         (tkip_frame_hdrlen m) (michael_key_at k (rxmic ctx))"
  using assms unfolding ieee80211_tkip_decrypt_def
  by (auto simp add: Let_def tkip_rx_ctx1_def tkip_rx_ttak_def dest!: tkip_decrypt_tail_mic
      split: option.splits priv_ctx.splits prod.splits if_splits)

text \<open>
  C2, as the code has it. For every receive CCMP or TKIP decrypt accepts, the packet
  number in the cipher header is greater than the counter the function reads, that
  counter holds the packet number afterwards and no other counter changes. CCMP reads
  the counter of the frame's TID for a data frame and the management counter otherwise;
  TKIP reads the counter of the frame's TID for every frame (TID 0 without a QoS control
  field, management frames included) and never the management counter. The counter is
  written after the MIC comparison only: an accepted CCMP receive is one whose body loop
  ended and whose received MIC equals the computed one, and when they differ no frame
  is returned and the key is as before; an accepted TKIP receive is one whose body loop
  ended with the ICV equal to the CRC and the received Michael MIC equal to the computed
  one. On every rejected receive the counters are as before.
\<close>

theorem receive_counter:
  "(ieee80211_ccmp_decrypt P cfg env m k = Some (Inr F, k') \<longrightarrow>
      ccmp_prsc k (io_data (io_head m)) < ccmp_frame_pn m \<and>
      ccmp_prsc k' (io_data (io_head m)) = ccmp_frame_pn m \<and>
      k' = ccmp_prsc_update k (io_data (io_head m)) (ccmp_prsc k' (io_data (io_head m))) \<and>
      (\<exists>ctx st. k_priv k = Some (CCMP_ctx ctx) \<and>
         body_loop (crypt_bytes (ccm_decrypt_byte P (rijndael ctx))) cfg env
           (ccmp_decrypt_init P cfg m (rijndael ctx) (ccmp_frame_pn m)
              (io_pktlen m - (IEEE80211_CCMP_HDRLEN + IEEE80211_CCMP_MICLEN))) = Some (None, st) \<and>
         iob_copyout (ls_iob st) (ls_moff st) IEEE80211_CCMP_MICLEN =
           ccm_mic P (rijndael ctx) (ls_cipher st)
             (snd (snd (ieee80211_ccmp_phase1 P (rijndael ctx) (io_data (io_head m))
                          (ccmp_frame_pn m)
                          (int (io_pktlen m - (IEEE80211_CCMP_HDRLEN + IEEE80211_CCMP_MICLEN))
                           - int (ieee80211_get_hdrlen (io_data (io_head m))))))))) \<and>
   (k_priv k = Some (CCMP_ctx cx) \<and>
    body_loop (crypt_bytes (ccm_decrypt_byte P (rijndael cx))) cfg env
      (ccmp_decrypt_init P cfg m (rijndael cx) (ccmp_frame_pn m)
         (io_pktlen m - (IEEE80211_CCMP_HDRLEN + IEEE80211_CCMP_MICLEN))) = Some (None, sx) \<and>
    iob_copyout (ls_iob sx) (ls_moff sx) IEEE80211_CCMP_MICLEN \<noteq>
      ccm_mic P (rijndael cx) (ls_cipher sx)
        (snd (snd (ieee80211_ccmp_phase1 P (rijndael cx) (io_data (io_head m))
                     (ccmp_frame_pn m)
                     (int (io_pktlen m - (IEEE80211_CCMP_HDRLEN + IEEE80211_CCMP_MICLEN))
                      - int (ieee80211_get_hdrlen (io_data (io_head m))))))) \<and>
    ieee80211_ccmp_decrypt P cfg env m k = Some (r, kx)
      \<longrightarrow> kx = k \<and> (\<exists>e. r = Inl e)) \<and>
   (ieee80211_ccmp_decrypt P cfg env m k = Some (Inl e, k') \<longrightarrow> k' = k) \<and>
   (ieee80211_tkip_decrypt P cfg env ic m t = Some (Inr G, t', ic') \<longrightarrow>
      k_rsc t (tkip_frame_tid m) < tkip_frame_tsc m \<and>
      k_rsc t' (tkip_frame_tid m) = tkip_frame_tsc m \<and>
      k_rsc t' = (k_rsc t)(tkip_frame_tid m := k_rsc t' (tkip_frame_tid m)) \<and>
      k_mgmt_rsc t' = k_mgmt_rsc t \<and>
      (\<exists>ctx st. k_priv t = Some (TKIP_ctx ctx) \<and>
         tkip_rx_loop P cfg env m t ctx = Some (None, st) \<and>
         tkip_rx_crc P st = tkip_rx_icv P st \<and>
         take IEEE80211_TKIP_MICLEN (snd (tkip_tail_buf P st)) =
           ieee80211_tkip_mic P (mk_chain (tkip_rx_pktlen m) (ls_done st @ [ls_next st]))
             (tkip_frame_hdrlen m) (michael_key_at t (rxmic ctx)))) \<and>
   (ieee80211_tkip_decrypt P cfg env ic m t = Some (Inl e2, t', ic') \<longrightarrow>
      k_rsc t' = k_rsc t \<and> k_mgmt_rsc t' = k_mgmt_rsc t)"
proof (intro conjI impI)
  assume a: "ieee80211_ccmp_decrypt P cfg env m k = Some (Inr F, k')"
  note r = ccmp_decrypt_accept [OF a]
  show "ccmp_prsc k (io_data (io_head m)) < ccmp_frame_pn m" using r by simp
  show g: "ccmp_prsc k' (io_data (io_head m)) = ccmp_frame_pn m"
    using r ccmp_prsc_update_read by metis
  show "k' = ccmp_prsc_update k (io_data (io_head m)) (ccmp_prsc k' (io_data (io_head m)))"
    using r g by simp
  show "\<exists>ctx st. k_priv k = Some (CCMP_ctx ctx) \<and>
         body_loop (crypt_bytes (ccm_decrypt_byte P (rijndael ctx))) cfg env
           (ccmp_decrypt_init P cfg m (rijndael ctx) (ccmp_frame_pn m)
              (io_pktlen m - (IEEE80211_CCMP_HDRLEN + IEEE80211_CCMP_MICLEN))) = Some (None, st) \<and>
         iob_copyout (ls_iob st) (ls_moff st) IEEE80211_CCMP_MICLEN =
           ccm_mic P (rijndael ctx) (ls_cipher st)
             (snd (snd (ieee80211_ccmp_phase1 P (rijndael ctx) (io_data (io_head m))
                          (ccmp_frame_pn m)
                          (int (io_pktlen m - (IEEE80211_CCMP_HDRLEN + IEEE80211_CCMP_MICLEN))
                           - int (ieee80211_get_hdrlen (io_data (io_head m)))))))"
    using a by (rule ccmp_decrypt_mic)
next
  assume "k_priv k = Some (CCMP_ctx cx) \<and>
    body_loop (crypt_bytes (ccm_decrypt_byte P (rijndael cx))) cfg env
      (ccmp_decrypt_init P cfg m (rijndael cx) (ccmp_frame_pn m)
         (io_pktlen m - (IEEE80211_CCMP_HDRLEN + IEEE80211_CCMP_MICLEN))) = Some (None, sx) \<and>
    iob_copyout (ls_iob sx) (ls_moff sx) IEEE80211_CCMP_MICLEN \<noteq>
      ccm_mic P (rijndael cx) (ls_cipher sx)
        (snd (snd (ieee80211_ccmp_phase1 P (rijndael cx) (io_data (io_head m))
                     (ccmp_frame_pn m)
                     (int (io_pktlen m - (IEEE80211_CCMP_HDRLEN + IEEE80211_CCMP_MICLEN))
                      - int (ieee80211_get_hdrlen (io_data (io_head m))))))) \<and>
    ieee80211_ccmp_decrypt P cfg env m k = Some (r, kx)"
  then have "kx = k \<and> (\<exists>e. r = Inl e)"
    by (elim conjE) (rule ccmp_decrypt_bad_mic)
  then show "kx = k" "\<exists>e. r = Inl e" by simp_all
next
  assume "ieee80211_ccmp_decrypt P cfg env m k = Some (Inl e, k')"
  then show "k' = k" by (rule ccmp_decrypt_reject)
next
  assume a: "ieee80211_tkip_decrypt P cfg env ic m t = Some (Inr G, t', ic')"
  note r = tkip_decrypt_accept [OF a]
  show "k_rsc t (tkip_frame_tid m) < tkip_frame_tsc m" using r by simp
  show g: "k_rsc t' (tkip_frame_tid m) = tkip_frame_tsc m" using r by simp
  show "k_rsc t' = (k_rsc t)(tkip_frame_tid m := k_rsc t' (tkip_frame_tid m))" using r g by simp
  show "k_mgmt_rsc t' = k_mgmt_rsc t" using r by simp
  show "\<exists>ctx st. k_priv t = Some (TKIP_ctx ctx) \<and>
         tkip_rx_loop P cfg env m t ctx = Some (None, st) \<and>
         tkip_rx_crc P st = tkip_rx_icv P st \<and>
         take IEEE80211_TKIP_MICLEN (snd (tkip_tail_buf P st)) =
           ieee80211_tkip_mic P (mk_chain (tkip_rx_pktlen m) (ls_done st @ [ls_next st]))
             (tkip_frame_hdrlen m) (michael_key_at t (rxmic ctx))"
    using a by (rule tkip_decrypt_mic)
next
  assume a: "ieee80211_tkip_decrypt P cfg env ic m t = Some (Inl e2, t', ic')"
  note r = tkip_decrypt_reject [OF a]
  show "k_rsc t' = k_rsc t" using r by simp
  show "k_mgmt_rsc t' = k_mgmt_rsc t" using r by simp
qed

text \<open>
  CCMP under \<open>ccmp_key1\<close> (all counters 0): the data frame \<open>ccmp_wire0\<close> with packet
  number 6 is accepted and counter 0 becomes 6, after which the same frame is a replay;
  the QoS frame with TID 5 moves counter 5 only, the management frame the management
  counter only; with a wrong MIC the key is left as it was. TKIP under the peer's key:
  \<open>tkip_wire0\<close> is accepted once, the QoS frame moves counter 5 only.
\<close>

theorem receive_counter_witness:
  "(\<exists>F. ieee80211_ccmp_decrypt toy_prims cfg64 env_ok ccmp_wire0 ccmp_key1 = Some (Inr F, ccmp_key2) \<and>
        ccmp_prsc ccmp_key1 (io_data (io_head ccmp_wire0)) < ccmp_frame_pn ccmp_wire0 \<and>
        ccmp_prsc ccmp_key2 (io_data (io_head ccmp_wire0)) = ccmp_frame_pn ccmp_wire0) \<and>
   (\<exists>F k'. ieee80211_ccmp_decrypt toy_prims cfg64 env_ok ccmp_wire_qos ccmp_key1 = Some (Inr F, k') \<and>
        frame_tid (io_data (io_head ccmp_wire_qos)) = 5 \<and>
        k_rsc k' 5 = 6 \<and> k_rsc k' 0 = 0 \<and> k_mgmt_rsc k' = 0) \<and>
   (\<exists>F k'. ieee80211_ccmp_decrypt toy_prims cfg64 env_ok ccmp_wire_mgt ccmp_key1 = Some (Inr F, k') \<and>
        \<not> ccmp_is_data (io_data (io_head ccmp_wire_mgt)) \<and>
        k_mgmt_rsc k' = 6 \<and> k_rsc k' 0 = 0) \<and>
   ieee80211_ccmp_decrypt toy_prims cfg64 env_ok ccmp_wire0_bad ccmp_key1
     = Some (Inl Bad_mic, ccmp_key1) \<and>
   (\<exists>k'. ieee80211_ccmp_decrypt toy_prims cfg64 env_ok ccmp_wire0 ccmp_key2 = Some (Inl Replay, k') \<and>
        k' = ccmp_key2) \<and>
   (\<exists>G ic'. ieee80211_tkip_decrypt toy_prims cfg64 env_ok ic_sta tkip_wire0 tkip_peer0
               = Some (Inr G, tkip_peer1, ic') \<and>
        k_rsc tkip_peer0 (tkip_frame_tid tkip_wire0) < tkip_frame_tsc tkip_wire0 \<and>
        k_rsc tkip_peer1 (tkip_frame_tid tkip_wire0) = tkip_frame_tsc tkip_wire0) \<and>
   (\<exists>G t' ic'. ieee80211_tkip_decrypt toy_prims cfg64 env_ok ic_sta tkip_wire_qos tkip_peer0
               = Some (Inr G, t', ic') \<and>
        tkip_frame_tid tkip_wire_qos = 5 \<and> k_rsc t' 5 = 6 \<and> k_rsc t' 0 = 0 \<and>
        k_mgmt_rsc t' = 0) \<and>
   (\<exists>t' ic'. ieee80211_tkip_decrypt toy_prims cfg64 env_ok ic_sta tkip_wire0 tkip_peer1
               = Some (Inl Replay, t', ic') \<and>
        k_rsc t' = k_rsc tkip_peer1 \<and> k_mgmt_rsc t' = k_mgmt_rsc tkip_peer1)"
proof -
  note T = receive_counter [where P = toy_prims and cfg = cfg64 and env = env_ok]
  have z: "k_rsc ccmp_key1 = (\<lambda>tid. 0)" "k_mgmt_rsc ccmp_key1 = 0"
      "k_rsc tkip_peer0 = (\<lambda>tid. 0)" "k_mgmt_rsc tkip_peer0 = 0"
    by (simp_all add: ccmp_key1_def ccmp_key0_def tkip_peer0_def key0_def)
  obtain F where c1:
    "ieee80211_ccmp_decrypt toy_prims cfg64 env_ok ccmp_wire0 ccmp_key1 = Some (Inr F, ccmp_key2)"
    using ccmp_dec1_eq by blast
  note a = T [where m = ccmp_wire0 and k = ccmp_key1 and F = F and k' = ccmp_key2,
      THEN conjunct1, rule_format, OF c1]
  have w1: "\<exists>F. ieee80211_ccmp_decrypt toy_prims cfg64 env_ok ccmp_wire0 ccmp_key1
                  = Some (Inr F, ccmp_key2) \<and>
        ccmp_prsc ccmp_key1 (io_data (io_head ccmp_wire0)) < ccmp_frame_pn ccmp_wire0 \<and>
        ccmp_prsc ccmp_key2 (io_data (io_head ccmp_wire0)) = ccmp_frame_pn ccmp_wire0"
    using a c1 by blast
  obtain Fq kq where cq:
    "ieee80211_ccmp_decrypt toy_prims cfg64 env_ok ccmp_wire_qos ccmp_key1 = Some (Inr Fq, kq)"
    using returns_frameD [OF ccmp_dec_qos [THEN conjunct1]] by blast
  note aq = T [where m = ccmp_wire_qos and k = ccmp_key1 and F = Fq and k' = kq,
      THEN conjunct1, rule_format, OF cq]
  have "ccmp_prsc kq (io_data (io_head ccmp_wire_qos)) = 6"
    using aq ccmp_dec_qos by simp
  then have "ccmp_prsc_update ccmp_key1 (io_data (io_head ccmp_wire_qos))
               (ccmp_prsc kq (io_data (io_head ccmp_wire_qos)))
             = ccmp_prsc_update ccmp_key1 (io_data (io_head ccmp_wire_qos)) 6"
    by (simp only:)
  with aq [THEN conjunct2, THEN conjunct2, THEN conjunct1]
  have kq: "kq = ccmp_prsc_update ccmp_key1 (io_data (io_head ccmp_wire_qos)) 6"
    by (rule trans)
  have w2: "\<exists>F k'. ieee80211_ccmp_decrypt toy_prims cfg64 env_ok ccmp_wire_qos ccmp_key1
                     = Some (Inr F, k') \<and>
        frame_tid (io_data (io_head ccmp_wire_qos)) = 5 \<and>
        k_rsc k' 5 = 6 \<and> k_rsc k' 0 = 0 \<and> k_mgmt_rsc k' = 0"
    using cq ccmp_dec_qos z by (intro exI [of _ Fq] exI [of _ kq]) (simp add: kq ccmp_prsc_update_def)
  obtain Fm km where cm:
    "ieee80211_ccmp_decrypt toy_prims cfg64 env_ok ccmp_wire_mgt ccmp_key1 = Some (Inr Fm, km)"
    using returns_frameD [OF ccmp_dec_mgt [THEN conjunct1]] by blast
  note am = T [where m = ccmp_wire_mgt and k = ccmp_key1 and F = Fm and k' = km,
      THEN conjunct1, rule_format, OF cm]
  have "ccmp_prsc km (io_data (io_head ccmp_wire_mgt)) = 6"
    using am ccmp_dec_mgt by simp
  then have "ccmp_prsc_update ccmp_key1 (io_data (io_head ccmp_wire_mgt))
               (ccmp_prsc km (io_data (io_head ccmp_wire_mgt)))
             = ccmp_prsc_update ccmp_key1 (io_data (io_head ccmp_wire_mgt)) 6"
    by (simp only:)
  with am [THEN conjunct2, THEN conjunct2, THEN conjunct1]
  have km: "km = ccmp_prsc_update ccmp_key1 (io_data (io_head ccmp_wire_mgt)) 6"
    by (rule trans)
  have w3: "\<exists>F k'. ieee80211_ccmp_decrypt toy_prims cfg64 env_ok ccmp_wire_mgt ccmp_key1
                     = Some (Inr F, k') \<and>
        \<not> ccmp_is_data (io_data (io_head ccmp_wire_mgt)) \<and>
        k_mgmt_rsc k' = 6 \<and> k_rsc k' 0 = 0"
    using cm ccmp_dec_mgt z by (intro exI [of _ Fm] exI [of _ km]) (simp add: km ccmp_prsc_update_def)
  have pk: "k_priv ccmp_key1 = Some (CCMP_ctx \<lparr>rijndael = take 16 (k_key key0)\<rparr>)"
    by (simp add: ccmp_key1_def ccmp_key0_def)
  from ccmp_bad_run obtain sx where
    lx: "body_loop (crypt_bytes (ccm_decrypt_byte toy_prims (take 16 (k_key key0)))) cfg64 env_ok
           (ccmp_decrypt_init toy_prims cfg64 ccmp_wire0_bad (take 16 (k_key key0))
              (ccmp_frame_pn ccmp_wire0_bad)
              (io_pktlen ccmp_wire0_bad - (IEEE80211_CCMP_HDRLEN + IEEE80211_CCMP_MICLEN)))
          = Some (None, sx)"
    and mx: "iob_copyout (ls_iob sx) (ls_moff sx) IEEE80211_CCMP_MICLEN \<noteq>
          ccm_mic toy_prims (take 16 (k_key key0)) (ls_cipher sx)
            (snd (snd (ieee80211_ccmp_phase1 toy_prims (take 16 (k_key key0))
                         (io_data (io_head ccmp_wire0_bad)) (ccmp_frame_pn ccmp_wire0_bad)
                         (int (io_pktlen ccmp_wire0_bad
                                 - (IEEE80211_CCMP_HDRLEN + IEEE80211_CCMP_MICLEN))
                          - int (ieee80211_get_hdrlen (io_data (io_head ccmp_wire0_bad)))))))"
    by (rule loop_caseE)
  obtain kb where cb:
    "ieee80211_ccmp_decrypt toy_prims cfg64 env_ok ccmp_wire0_bad ccmp_key1 = Some (Inl Bad_mic, kb)"
    using returns_failD [OF ccmp_dec_bad] by blast
  note ab = T [where m = ccmp_wire0_bad and k = ccmp_key1
      and cx = "\<lparr>rijndael = take 16 (k_key key0)\<rparr>" and sx = sx and r = "Inl Bad_mic" and kx = kb,
      THEN conjunct2, THEN conjunct1, rule_format]
  have "kb = ccmp_key1 \<and> (\<exists>e. (Inl Bad_mic :: fail + iob_chain) = Inl e)"
    using pk lx mx cb by (intro ab) simp
  then have w4: "ieee80211_ccmp_decrypt toy_prims cfg64 env_ok ccmp_wire0_bad ccmp_key1
     = Some (Inl Bad_mic, ccmp_key1)"
    using cb by simp
  obtain k' where c2:
    "ieee80211_ccmp_decrypt toy_prims cfg64 env_ok ccmp_wire0 ccmp_key2 = Some (Inl Replay, k')"
    using returns_failD [OF ccmp_dec2] by blast
  note b = T [where m = ccmp_wire0 and k = ccmp_key2 and e = Replay and k' = k',
      THEN conjunct2, THEN conjunct2, THEN conjunct1, rule_format, OF c2]
  have w5: "\<exists>k'. ieee80211_ccmp_decrypt toy_prims cfg64 env_ok ccmp_wire0 ccmp_key2
                   = Some (Inl Replay, k') \<and> k' = ccmp_key2"
    using b c2 by blast
  obtain G ic1 where t1:
    "ieee80211_tkip_decrypt toy_prims cfg64 env_ok ic_sta tkip_wire0 tkip_peer0
       = Some (Inr G, tkip_peer1, ic1)"
    using tkip_dec_peer_eq by blast
  note c = T [where m = tkip_wire0 and ic = ic_sta and t = tkip_peer0 and G = G
      and t' = tkip_peer1 and ic' = ic1,
      THEN conjunct2, THEN conjunct2, THEN conjunct2, THEN conjunct1, rule_format, OF t1]
  have w6: "\<exists>G ic'. ieee80211_tkip_decrypt toy_prims cfg64 env_ok ic_sta tkip_wire0 tkip_peer0
               = Some (Inr G, tkip_peer1, ic') \<and>
        k_rsc tkip_peer0 (tkip_frame_tid tkip_wire0) < tkip_frame_tsc tkip_wire0 \<and>
        k_rsc tkip_peer1 (tkip_frame_tid tkip_wire0) = tkip_frame_tsc tkip_wire0"
    using c t1 by blast
  obtain Gq tq iq where tq:
    "ieee80211_tkip_decrypt toy_prims cfg64 env_ok ic_sta tkip_wire_qos tkip_peer0
       = Some (Inr Gq, tq, iq)"
    using returns_frameD [OF tkip_dec_qos [THEN conjunct1]] by (metis prod.collapse)
  note cq' = T [where m = tkip_wire_qos and ic = ic_sta and t = tkip_peer0 and G = Gq
      and t' = tq and ic' = iq,
      THEN conjunct2, THEN conjunct2, THEN conjunct2, THEN conjunct1, rule_format, OF tq]
  have eq: "k_rsc tq = (k_rsc tkip_peer0)(tkip_frame_tid tkip_wire_qos :=
                          k_rsc tq (tkip_frame_tid tkip_wire_qos))"
    using cq' by blast
  have rq: "k_rsc tq 5 = 6" "k_mgmt_rsc tq = 0"
    using cq' tkip_dec_qos z by simp_all
  have rq0: "k_rsc tq 0 = 0"
    using fun_cong [OF eq, of 0] tkip_dec_qos z by simp
  have w7: "\<exists>G t' ic'. ieee80211_tkip_decrypt toy_prims cfg64 env_ok ic_sta tkip_wire_qos tkip_peer0
               = Some (Inr G, t', ic') \<and>
        tkip_frame_tid tkip_wire_qos = 5 \<and> k_rsc t' 5 = 6 \<and> k_rsc t' 0 = 0 \<and>
        k_mgmt_rsc t' = 0"
    using tq tkip_dec_qos rq rq0 by (intro exI [of _ Gq] exI [of _ tq] exI [of _ iq]) simp
  obtain t' ic2 where t2:
    "ieee80211_tkip_decrypt toy_prims cfg64 env_ok ic_sta tkip_wire0 tkip_peer1
       = Some (Inl Replay, t', ic2)"
    using returns_failD [OF tkip_dec_replay] by (metis prod.collapse)
  note d = T [where m = tkip_wire0 and ic = ic_sta and t = tkip_peer1 and ?e2.0 = Replay
      and t' = t' and ic' = ic2,
      THEN conjunct2, THEN conjunct2, THEN conjunct2, THEN conjunct2, rule_format, OF t2]
  have w8: "\<exists>t' ic'. ieee80211_tkip_decrypt toy_prims cfg64 env_ok ic_sta tkip_wire0 tkip_peer1
               = Some (Inl Replay, t', ic') \<and>
        k_rsc t' = k_rsc tkip_peer1 \<and> k_mgmt_rsc t' = k_mgmt_rsc tkip_peer1"
    using d t2 by blast
  show ?thesis
    by (intro conjI) (rule w1 w2 w3 w4 w5 w6 w7 w8)+
qed

text \<open>
  The management-frame clause of the claim fails for TKIP: the management frame
  \<open>tkip_wire_mgt\<close> carries TSC 6, the key's management counter is 100, and the frame is
  accepted; afterwards the management counter is still 100 and counter 0 is 6.
\<close>

theorem tkip_management_counter:
  "\<exists>G t' ic'.
     ieee80211_tkip_decrypt toy_prims cfg64 env_ok ic_sta tkip_wire_mgt tkip_peer_mgt
       = Some (Inr G, t', ic') \<and>
     (i_fc0 (io_data (io_head tkip_wire_mgt)) AND IEEE80211_FC0_TYPE_MASK)
       = IEEE80211_FC0_TYPE_MGT \<and>
     tkip_frame_tsc tkip_wire_mgt = 6 \<and> k_mgmt_rsc tkip_peer_mgt = 100 \<and>
     \<not> k_mgmt_rsc tkip_peer_mgt < tkip_frame_tsc tkip_wire_mgt \<and>
     k_mgmt_rsc t' = 100 \<and> k_rsc t' 0 = 6"
proof -
  obtain G t' ic' where d:
    "ieee80211_tkip_decrypt toy_prims cfg64 env_ok ic_sta tkip_wire_mgt tkip_peer_mgt
       = Some (Inr G, t', ic')"
    using returns_frameD [OF tkip_dec_mgt [THEN conjunct1]] by (metis prod.collapse)
  have m: "k_mgmt_rsc tkip_peer_mgt = 100" by (simp add: tkip_peer_mgt_def)
  note r = tkip_decrypt_accept [OF d]
  have "k_mgmt_rsc t' = 100" "k_rsc t' 0 = 6"
    using r tkip_dec_mgt m by simp_all
  then show ?thesis
    using d tkip_dec_mgt m by (intro exI [of _ G] exI [of _ t'] exI [of _ ic']) simp
qed

subsection \<open>TKIP receive: ICV, Michael MIC and the cached TTAK\<close>










lemma rx_same_key_checks:
  "tkip_decrypt_checks cfg64 env_ok tkip_wire0 tkip_key0 = None \<and>
   tkip_frame_tsc tkip_wire0 = 6 \<and>
   tkip_rx_recompute (tkip_mem\<lparr>rxmic := 16, txmic := 24\<rparr>) 6
     (k_rsc tkip_key0 (tkip_frame_tid tkip_wire0))"
  by code_simp





lemma tkip_big_enc:
  "map_option (\<lambda>r. case fst r of Inr E \<Rightarrow> chain_bytes E | Inl e \<Rightarrow> [])
     (ieee80211_tkip_encrypt toy_prims cfg128 env_ok frame68 tkip_key0)
   = Some (chain_bytes tkip_wire_big)"
  by code_simp




lemma tkip_rx_ctx1_recompute:
  "tkip_rx_recompute ctx (tkip_frame_tsc m) (k_rsc k (tkip_frame_tid m)) \<Longrightarrow>
     rxttak_ok (tkip_rx_ctx1 cfg m k ctx) = 0 \<and>
     rxttak (tkip_rx_ctx1 cfg m k ctx) =
       Phase1 (k_key k) (i_addr2 (tkip_decrypt_hdr cfg (io_data (io_head m))))
         (ucast (drop_bit 16 (tkip_frame_tsc m)))"
  by (simp add: tkip_rx_ctx1_def tkip_rx_ttak_def)

lemma tkip_rx_ctx1_cases:
  "rxttak_ok (tkip_rx_ctx1 cfg m k ctx) = 0 \<or> tkip_rx_ctx1 cfg m k ctx = ctx"
  by (simp add: tkip_rx_ctx1_def tkip_rx_ttak_def)

lemma tkip_decrypt_reject_ctx:
  assumes "k_priv k = Some (TKIP_ctx ctx)"
    and "ieee80211_tkip_decrypt P cfg env ic m k = Some (Inl e, k', ic')"
  shows "\<exists>ctx'. k_priv k' = Some (TKIP_ctx ctx') \<and>
     (if tkip_decrypt_checks cfg env m k = None
      then rxttak_ok ctx' = rxttak_ok (tkip_rx_ctx1 cfg m k ctx) \<and>
           rxttak ctx' = rxttak (tkip_rx_ctx1 cfg m k ctx)
      else ctx' = ctx)"
  using assms unfolding ieee80211_tkip_decrypt_def
  by (auto simp add: Let_def dest!: tkip_decrypt_tail_reject
      split: option.splits prod.splits)

text \<open>
  C10. A decrypt that returns a frame leaves \<^verbatim>\<open>rxttak_ok\<close> set to 1. A decrypt that
  recomputes Phase1 (the flag was clear, or the upper 32 bits of the TSC differ from
  those of the stored counter) and then fails leaves the flag 0, with the recomputed
  TTAK in the cache, so that the next decrypt recomputes Phase1 whatever its TSC. No
  failing decrypt turns the flag on: afterwards the flag is 0, or flag and TTAK are as
  they were.
\<close>

theorem tkip_rxttak_ok_flag:
  "(ieee80211_tkip_decrypt P cfg env ic m k = Some (Inr F, k', ic')
      \<longrightarrow> (\<exists>ctx'. k_priv k' = Some (TKIP_ctx ctx') \<and> rxttak_ok ctx' = 1)) \<and>
   (k_priv k = Some (TKIP_ctx ctx) \<and> tkip_decrypt_checks cfg env m k = None \<and>
    tkip_rx_recompute ctx (tkip_frame_tsc m) (k_rsc k (tkip_frame_tid m)) \<and>
    ieee80211_tkip_decrypt P cfg env ic m k = Some (Inl e, k', ic')
      \<longrightarrow> (\<exists>ctx'. k_priv k' = Some (TKIP_ctx ctx') \<and> rxttak_ok ctx' = 0 \<and>
             rxttak ctx' =
               Phase1 (k_key k) (i_addr2 (tkip_decrypt_hdr cfg (io_data (io_head m))))
                 (ucast (drop_bit 16 (tkip_frame_tsc m))) \<and>
             tkip_rx_recompute ctx' tsc2 prsc2)) \<and>
   (k_priv k = Some (TKIP_ctx ctx) \<and>
    ieee80211_tkip_decrypt P cfg env ic m k = Some (Inl e, k', ic')
      \<longrightarrow> (\<exists>ctx'. k_priv k' = Some (TKIP_ctx ctx') \<and>
             (rxttak_ok ctx' = 0 \<or>
              rxttak_ok ctx' = rxttak_ok ctx \<and> rxttak ctx' = rxttak ctx)))"
proof (intro conjI impI; (elim conjE)?)
  assume "ieee80211_tkip_decrypt P cfg env ic m k = Some (Inr F, k', ic')"
  from tkip_decrypt_accept [OF this]
  show "\<exists>ctx'. k_priv k' = Some (TKIP_ctx ctx') \<and> rxttak_ok ctx' = 1" by blast
next
  assume p: "k_priv k = Some (TKIP_ctx ctx)" and c: "tkip_decrypt_checks cfg env m k = None"
    and r: "tkip_rx_recompute ctx (tkip_frame_tsc m) (k_rsc k (tkip_frame_tid m))"
    and d: "ieee80211_tkip_decrypt P cfg env ic m k = Some (Inl e, k', ic')"
  from tkip_decrypt_reject_ctx [OF p d] c obtain ctx' where
    k': "k_priv k' = Some (TKIP_ctx ctx')"
    and f: "rxttak_ok ctx' = rxttak_ok (tkip_rx_ctx1 cfg m k ctx)"
           "rxttak ctx' = rxttak (tkip_rx_ctx1 cfg m k ctx)"
    by auto
  show "\<exists>ctx'. k_priv k' = Some (TKIP_ctx ctx') \<and> rxttak_ok ctx' = 0 \<and>
             rxttak ctx' =
               Phase1 (k_key k) (i_addr2 (tkip_decrypt_hdr cfg (io_data (io_head m))))
                 (ucast (drop_bit 16 (tkip_frame_tsc m))) \<and>
             tkip_rx_recompute ctx' tsc2 prsc2"
    using k' f tkip_rx_ctx1_recompute [OF r, of cfg]
    by (simp add: tkip_rx_recompute_def)
next
  assume p: "k_priv k = Some (TKIP_ctx ctx)"
    and d: "ieee80211_tkip_decrypt P cfg env ic m k = Some (Inl e, k', ic')"
  from tkip_decrypt_reject_ctx [OF p d] obtain ctx' where
    k': "k_priv k' = Some (TKIP_ctx ctx')"
    and f: "if tkip_decrypt_checks cfg env m k = None
      then rxttak_ok ctx' = rxttak_ok (tkip_rx_ctx1 cfg m k ctx) \<and>
           rxttak ctx' = rxttak (tkip_rx_ctx1 cfg m k ctx)
      else ctx' = ctx"
    by blast
  have "rxttak_ok ctx' = 0 \<or> rxttak_ok ctx' = rxttak_ok ctx \<and> rxttak ctx' = rxttak ctx"
    using f tkip_rx_ctx1_cases [of cfg m k ctx] by (auto split: if_splits)
  with k' show "\<exists>ctx'. k_priv k' = Some (TKIP_ctx ctx') \<and>
             (rxttak_ok ctx' = 0 \<or>
              rxttak_ok ctx' = rxttak_ok ctx \<and> rxttak ctx' = rxttak ctx)" by blast
qed

theorem tkip_rxttak_ok_flag_witness:
  "(\<exists>F ic' ctx'. ieee80211_tkip_decrypt toy_prims cfg64 env_ok ic_sta tkip_wire0 tkip_peer0
                   = Some (Inr F, tkip_peer1, ic') \<and>
       k_priv tkip_peer1 = Some (TKIP_ctx ctx') \<and> rxttak_ok ctx' = 1) \<and>
   (\<exists>k' ic' ctx'. ieee80211_tkip_decrypt toy_prims cfg64 env_ok ic_sta tkip_wire0 tkip_key0
                   = Some (Inl Michael_failure, k', ic') \<and>
       tkip_decrypt_checks cfg64 env_ok tkip_wire0 tkip_key0 = None \<and>
       tkip_rx_recompute (tkip_mem\<lparr>rxmic := 16, txmic := 24\<rparr>) 6
         (k_rsc tkip_key0 (tkip_frame_tid tkip_wire0)) \<and>
       k_priv k' = Some (TKIP_ctx ctx') \<and> rxttak_ok ctx' = 0 \<and>
       tkip_rx_recompute ctx' 7 6)"
proof -
  let ?cs = "tkip_mem\<lparr>rxmic := 16, txmic := 24\<rparr>"
  obtain F ic1 where s:
    "ieee80211_tkip_decrypt toy_prims cfg64 env_ok ic_sta tkip_wire0 tkip_peer0
       = Some (Inr F, tkip_peer1, ic1)"
    using tkip_dec_peer_eq by blast
  note A = tkip_rxttak_ok_flag [where P = toy_prims and cfg = cfg64 and env = env_ok
      and ic = ic_sta and m = tkip_wire0 and k = tkip_peer0 and F = F and k' = tkip_peer1
      and ic' = ic1, THEN conjunct1, rule_format, OF s]
  have ps: "k_priv tkip_key0 = Some (TKIP_ctx ?cs)"
    by (simp add: tkip_key0_def key0_def)
  obtain k' ic2 where f:
    "ieee80211_tkip_decrypt toy_prims cfg64 env_ok ic_sta tkip_wire0 tkip_key0
       = Some (Inl Michael_failure, k', ic2)"
    using returns_failD [OF tkip_dec_same_key] by (metis prod.collapse)
  have c: "tkip_decrypt_checks cfg64 env_ok tkip_wire0 tkip_key0 = None"
    and t6: "tkip_frame_tsc tkip_wire0 = 6"
    and r6: "tkip_rx_recompute ?cs 6 (k_rsc tkip_key0 (tkip_frame_tid tkip_wire0))"
    using rx_same_key_checks by blast+
  have r: "tkip_rx_recompute ?cs (tkip_frame_tsc tkip_wire0)
              (k_rsc tkip_key0 (tkip_frame_tid tkip_wire0))"
    using r6 by (simp only: t6)
  note B = tkip_rxttak_ok_flag [where P = toy_prims and cfg = cfg64 and env = env_ok
      and ic = ic_sta and m = tkip_wire0 and k = tkip_key0 and ctx = ?cs
      and e = Michael_failure and k' = k' and ic' = ic2 and ?tsc2.0 = 7 and ?prsc2.0 = 6,
      THEN conjunct2, THEN conjunct1, rule_format]
  have b: "\<exists>ctx'. k_priv k' = Some (TKIP_ctx ctx') \<and> rxttak_ok ctx' = 0 \<and>
             rxttak ctx' =
               Phase1 (k_key tkip_key0)
                 (i_addr2 (tkip_decrypt_hdr cfg64 (io_data (io_head tkip_wire0))))
                 (ucast (drop_bit 16 (tkip_frame_tsc tkip_wire0))) \<and>
             tkip_rx_recompute ctx' 7 6"
    using ps c r f by (intro B conjI)
  note C = tkip_rxttak_ok_flag [where P = toy_prims and cfg = cfg64 and env = env_ok
      and ic = ic_sta and m = tkip_wire0 and k = tkip_key0 and ctx = ?cs
      and e = Michael_failure and k' = k' and ic' = ic2,
      THEN conjunct2, THEN conjunct2, rule_format]
  have c3: "\<exists>ctx'. k_priv k' = Some (TKIP_ctx ctx') \<and>
             (rxttak_ok ctx' = 0 \<or>
              rxttak_ok ctx' = rxttak_ok ?cs \<and> rxttak ctx' = rxttak ?cs)"
    using ps f by (intro C conjI)
  show ?thesis using s A f b c r6 c3 by blast
qed

subsection \<open>Frames that do not fit the first output buffer\<close>

text \<open>
  C4 claims that the CCMP and TKIP encrypt operations always terminate, the loop that
  extends the output chain making progress. The code does otherwise. A buffer allocated
  in the loop gets \<^verbatim>\<open>io_len = 0\<close> (the clamp \<^verbatim>\<open>if (next->io_len > left)\<close> that follows
  compares 0 with \<^verbatim>\<open>left\<close>), so \<^verbatim>\<open>len\<close> is 0 in every later round and \<^verbatim>\<open>left\<close> never
  changes. For a well-formed frame whose length plus the 8-octet security header
  exceeds \<^verbatim>\<open>CONFIG_IEEE80211_BUFSIZE\<close>, under an allocator that never fails, neither
  \<^verbatim>\<open>ieee80211_ccmp_encrypt\<close> nor \<^verbatim>\<open>ieee80211_tkip_encrypt\<close> returns.
\<close>

theorem encrypt_extension_never_returns:
  assumes "\<forall>n. alloc_ok env n" and "clone_ok env"
    and "list_all wf_iob (chain_iobs F)"
    and "ieee80211_get_hdrlen (io_data (io_head F)) \<le> io_len (io_head F)"
    and "io_pktlen F \<le> length (chain_bytes F)"
    and "ieee80211_get_hdrlen (io_data (io_head F)) + 8 \<le> CONFIG_IEEE80211_BUFSIZE cfg"
    and "CONFIG_IEEE80211_BUFSIZE cfg < io_pktlen F + 8"
  shows "(\<forall>ctx. k_priv k = Some (CCMP_ctx ctx) \<longrightarrow>
            ieee80211_ccmp_encrypt P cfg env F k = None) \<and>
         (\<forall>ctx. k_priv k = Some (TKIP_ctx ctx) \<longrightarrow>
            ieee80211_tkip_encrypt P cfg env F k = None)"
  using assms by (blast intro: ccmp_encrypt_diverges tkip_encrypt_diverges)

theorem encrypt_extension_never_returns_witness:
  "ieee80211_ccmp_encrypt toy_prims cfg64 env_ok frame60 ccmp_key0 = None \<and>
   ieee80211_tkip_encrypt toy_prims cfg64 env_ok frame60 tkip_key0 = None"
proof -
  have a: "\<forall>n. alloc_ok env_ok n" "clone_ok env_ok" by (simp_all add: env_ok_def)
  have f: "ieee80211_get_hdrlen (io_data (io_head frame60)) \<le> io_len (io_head frame60)"
    "io_pktlen frame60 \<le> length (chain_bytes frame60)"
    "ieee80211_get_hdrlen (io_data (io_head frame60)) + 8 \<le> CONFIG_IEEE80211_BUFSIZE cfg64"
    "CONFIG_IEEE80211_BUFSIZE cfg64 < io_pktlen frame60 + 8"
    by (simp_all add: frame60_facts)
  note t = encrypt_extension_never_returns
    [where env = env_ok and F = frame60 and cfg = cfg64 and P = toy_prims,
     OF a frame60_facts(1) f]
  have "k_priv ccmp_key0 = Some (CCMP_ctx \<lparr>rijndael = take 16 (k_key key0)\<rparr>)"
    by (simp add: ccmp_key0_def)
  moreover have "k_priv tkip_key0 = Some (TKIP_ctx (tkip_mem\<lparr>rxmic := 16, txmic := 24\<rparr>))"
    by (simp add: tkip_key0_def)
  ultimately show ?thesis
    using t [of ccmp_key0, THEN conjunct1] t [of tkip_key0, THEN conjunct2] by blast
qed

text \<open>The same holds for every allocator as far as a returned frame goes: when the
  frame does not fit, neither function returns one.\<close>

lemma encrypt_extension_no_frame:
  assumes "CONFIG_IEEE80211_BUFSIZE cfg < io_pktlen F + 8"
  shows "\<not> returns_frame (ieee80211_ccmp_encrypt P cfg env F k) \<and>
         \<not> returns_frame (ieee80211_tkip_encrypt P cfg env F k)"
  using assms by (simp add: ccmp_encrypt_oversize tkip_encrypt_oversize)

subsection \<open>Encapsulation followed by decapsulation\<close>

lemma tkip_dec_own_key:
  "returns_fail Michael_failure
     (ieee80211_tkip_decrypt toy_prims cfg64 env_ok ic_sta tkip_wire0 tkip_key1)"
  by code_simp

lemma frame30_shape:
  "list_all wf_iob (chain_iobs frame30) \<and>
   ieee80211_get_hdrlen (io_data (io_head frame30)) \<le> io_len (io_head frame30) \<and>
   io_pktlen frame30 = length (chain_bytes frame30) \<and>
   io_pktlen frame30 + 8 \<le> CONFIG_IEEE80211_BUFSIZE cfg64 \<and>
   frame_tid (io_data (io_head frame30)) = 0 \<and>
   ccmp_is_data (io_data (io_head frame30)) \<and>
   i_fc1 (io_data (io_head frame30)) AND IEEE80211_FC1_PROTECTED \<noteq> 0 \<and>
   (chain_bytes frame30)[1 := chain_bytes frame30 ! 1 AND NOT IEEE80211_FC1_PROTECTED]
     = [8, 0, 0, 0, 1, 1, 1, 1, 1, 1, 2, 2, 2, 2, 2, 2, 3, 3, 3, 3, 3, 3, 16, 0,
        10, 11, 12, 13, 14, 15]"
  by code_simp

text \<open>
  C1, as the code has it. Take a well-formed frame \<open>F\<close> (every buffer filled within its
  data area, the 802.11 header in the first buffer, the packet length the number of
  octets in the chain) that fits the first output buffer with its security header
  (\<open>io_pktlen F + 8\<close> at most \<^verbatim>\<open>CONFIG_IEEE80211_BUFSIZE\<close>), allocations that succeed, and
  a transmit counter below \<open>2 ^ 48 - 1\<close>.

  CCMP: when the receive counter the frame selects is at most the transmit counter of
  \<open>K\<close>, encrypt returns a chain \<open>E\<close>, and decrypt of \<open>E\<close> under the key as encrypt left it
  returns a chain whose octets are those of \<open>F\<close> with the PROTECTED bit of the second
  octet cleared.

  TKIP: the same holds for decrypt under an installation \<open>K2\<close> of the same key material
  whose receive Michael key is the transmit Michael key of \<open>K\<close> (the two halves are
  directional: this is the peer's installation, not \<open>K\<close> itself unless the two halves of
  the key coincide), whose counter for the frame's TID is at most the transmit counter
  of \<open>K\<close>, and with cached TTAKs that are right where they are used.
\<close>

theorem encrypt_decrypt_roundtrip:
  "(k_priv k = Some (CCMP_ctx cctx) \<and>
    alloc_ok env 0 \<and> clone_ok env \<and> alloc_ok env 1 \<and>
    list_all wf_iob (chain_iobs F) \<and>
    ieee80211_get_hdrlen (io_data (io_head F)) \<le> io_len (io_head F) \<and>
    io_pktlen F = length (chain_bytes F) \<and>
    io_pktlen F + 8 \<le> CONFIG_IEEE80211_BUFSIZE cfg \<and>
    k_tsc k < 2 ^ 48 - 1 \<and>
    ccmp_prsc k (io_data (io_head F)) \<le> k_tsc k
      \<longrightarrow> (\<exists>E k1 D k'.
             ieee80211_ccmp_encrypt P cfg env F k = Some (Inr E, k1) \<and>
             ieee80211_ccmp_decrypt P cfg env E k1 = Some (Inr D, k') \<and>
             io_pktlen D = io_pktlen F \<and>
             chain_bytes D =
               (chain_bytes F)[1 := chain_bytes F ! 1 AND NOT IEEE80211_FC1_PROTECTED])) \<and>
   (k_priv t = Some (TKIP_ctx tctx) \<and> k_priv t2 = Some (TKIP_ctx tctx2) \<and>
    k_key t2 = k_key t \<and>
    michael_key_at t2 (rxmic tctx2) = michael_key_at t (txmic tctx) \<and>
    alloc_ok env 0 \<and> clone_ok env \<and> alloc_ok env 1 \<and>
    list_all wf_iob (chain_iobs F) \<and>
    ieee80211_get_hdrlen (io_data (io_head F)) \<le> io_len (io_head F) \<and>
    io_pktlen F = length (chain_bytes F) \<and>
    io_pktlen F + 8 \<le> CONFIG_IEEE80211_BUFSIZE cfg \<and>
    k_tsc t < 2 ^ 48 - 1 \<and>
    k_rsc t2 (frame_tid (io_data (io_head F))) \<le> k_tsc t \<and>
    (txttak_ok tctx \<noteq> 0 \<and> (k_tsc t + 1) AND 0xffff \<noteq> 0 \<longrightarrow>
       txttak tctx = Phase1 (k_key t) (i_addr2 (io_data (io_head F)))
                       (ucast (drop_bit 16 (k_tsc t + 1)))) \<and>
    (\<not> tkip_rx_recompute tctx2 (k_tsc t + 1) (k_rsc t2 (frame_tid (io_data (io_head F)))) \<longrightarrow>
       rxttak tctx2 = Phase1 (k_key t) (i_addr2 (io_data (io_head F)))
                        (ucast (drop_bit 16 (k_tsc t + 1))))
      \<longrightarrow> (\<exists>E t1 D t2'.
             ieee80211_tkip_encrypt P cfg env F t = Some (Inr E, t1) \<and>
             ieee80211_tkip_decrypt P cfg env ic E t2 = Some (Inr D, t2', ic) \<and>
             io_pktlen D = io_pktlen F \<and>
             chain_bytes D =
               (chain_bytes F)[1 := chain_bytes F ! 1 AND NOT IEEE80211_FC1_PROTECTED]))"
proof (intro conjI impI)
  assume h: "k_priv k = Some (CCMP_ctx cctx) \<and>
    alloc_ok env 0 \<and> clone_ok env \<and> alloc_ok env 1 \<and>
    list_all wf_iob (chain_iobs F) \<and>
    ieee80211_get_hdrlen (io_data (io_head F)) \<le> io_len (io_head F) \<and>
    io_pktlen F = length (chain_bytes F) \<and>
    io_pktlen F + 8 \<le> CONFIG_IEEE80211_BUFSIZE cfg \<and>
    k_tsc k < 2 ^ 48 - 1 \<and>
    ccmp_prsc k (io_data (io_head F)) \<le> k_tsc k"
  then have "\<exists>E D. ieee80211_ccmp_encrypt P cfg env F k = Some (Inr E, k\<lparr>k_tsc := k_tsc k + 1\<rparr>) \<and>
           ieee80211_ccmp_decrypt P cfg env E (k\<lparr>k_tsc := k_tsc k + 1\<rparr>) =
             Some (Inr D, ccmp_prsc_update (k\<lparr>k_tsc := k_tsc k + 1\<rparr>) (io_data (io_head F))
                            (k_tsc k + 1)) \<and>
           io_pktlen E = io_pktlen F + 16 \<and>
           io_pktlen D = io_pktlen F \<and>
           chain_bytes D = (chain_bytes F)[1 := chain_bytes F ! 1 AND NOT IEEE80211_FC1_PROTECTED]"
    by (intro ccmp_roundtrip) simp_all
  then show "\<exists>E k1 D k'.
             ieee80211_ccmp_encrypt P cfg env F k = Some (Inr E, k1) \<and>
             ieee80211_ccmp_decrypt P cfg env E k1 = Some (Inr D, k') \<and>
             io_pktlen D = io_pktlen F \<and>
             chain_bytes D =
               (chain_bytes F)[1 := chain_bytes F ! 1 AND NOT IEEE80211_FC1_PROTECTED]"
    by blast
next
  assume h: "k_priv t = Some (TKIP_ctx tctx) \<and> k_priv t2 = Some (TKIP_ctx tctx2) \<and>
    k_key t2 = k_key t \<and>
    michael_key_at t2 (rxmic tctx2) = michael_key_at t (txmic tctx) \<and>
    alloc_ok env 0 \<and> clone_ok env \<and> alloc_ok env 1 \<and>
    list_all wf_iob (chain_iobs F) \<and>
    ieee80211_get_hdrlen (io_data (io_head F)) \<le> io_len (io_head F) \<and>
    io_pktlen F = length (chain_bytes F) \<and>
    io_pktlen F + 8 \<le> CONFIG_IEEE80211_BUFSIZE cfg \<and>
    k_tsc t < 2 ^ 48 - 1 \<and>
    k_rsc t2 (frame_tid (io_data (io_head F))) \<le> k_tsc t \<and>
    (txttak_ok tctx \<noteq> 0 \<and> (k_tsc t + 1) AND 0xffff \<noteq> 0 \<longrightarrow>
       txttak tctx = Phase1 (k_key t) (i_addr2 (io_data (io_head F)))
                       (ucast (drop_bit 16 (k_tsc t + 1)))) \<and>
    (\<not> tkip_rx_recompute tctx2 (k_tsc t + 1) (k_rsc t2 (frame_tid (io_data (io_head F)))) \<longrightarrow>
       rxttak tctx2 = Phase1 (k_key t) (i_addr2 (io_data (io_head F)))
                        (ucast (drop_bit 16 (k_tsc t + 1))))"
  then have "\<exists>E k1 D k2'.
           ieee80211_tkip_encrypt P cfg env F t = Some (Inr E, k1) \<and>
           ieee80211_tkip_decrypt P cfg env ic E t2 = Some (Inr D, k2', ic) \<and>
           io_pktlen E = io_pktlen F + 20 \<and>
           io_pktlen D = io_pktlen F \<and>
           chain_bytes D = (chain_bytes F)[1 := chain_bytes F ! 1 AND NOT IEEE80211_FC1_PROTECTED] \<and>
           k_tsc k1 = k_tsc t + 1 \<and>
           k_rsc k2' = (k_rsc t2)(frame_tid (io_data (io_head F)) := k_tsc t + 1)"
    by (intro tkip_roundtrip [where ctx = tctx and ?ctx2.0 = tctx2]) simp_all
  then show "\<exists>E t1 D t2'.
             ieee80211_tkip_encrypt P cfg env F t = Some (Inr E, t1) \<and>
             ieee80211_tkip_decrypt P cfg env ic E t2 = Some (Inr D, t2', ic) \<and>
             io_pktlen D = io_pktlen F \<and>
             chain_bytes D =
               (chain_bytes F)[1 := chain_bytes F ! 1 AND NOT IEEE80211_FC1_PROTECTED]"
    by blast
qed

text \<open>\<open>frame30\<close> under \<open>ccmp_key0\<close>, and under \<open>tkip_key0\<close> with the peer's installation
  \<open>tkip_peer0\<close> on the receiving side: the frame comes back with the second octet 0
  instead of \<open>0x40\<close>.\<close>

theorem encrypt_decrypt_roundtrip_witness:
  "(\<exists>E k1 D k'.
      ieee80211_ccmp_encrypt toy_prims cfg64 env_ok frame30 ccmp_key0 = Some (Inr E, k1) \<and>
      ieee80211_ccmp_decrypt toy_prims cfg64 env_ok E k1 = Some (Inr D, k') \<and>
      io_pktlen D = 30 \<and>
      chain_bytes D = [8, 0, 0, 0, 1, 1, 1, 1, 1, 1, 2, 2, 2, 2, 2, 2, 3, 3, 3, 3, 3, 3, 16, 0,
                       10, 11, 12, 13, 14, 15]) \<and>
   (\<exists>E t1 D t2'.
      ieee80211_tkip_encrypt toy_prims cfg64 env_ok frame30 tkip_key0 = Some (Inr E, t1) \<and>
      ieee80211_tkip_decrypt toy_prims cfg64 env_ok ic_sta E tkip_peer0 = Some (Inr D, t2', ic_sta) \<and>
      io_pktlen D = 30 \<and>
      chain_bytes D = [8, 0, 0, 0, 1, 1, 1, 1, 1, 1, 2, 2, 2, 2, 2, 2, 3, 3, 3, 3, 3, 3, 16, 0,
                       10, 11, 12, 13, 14, 15])"
proof -
  note s = frame30_shape
  have e: "alloc_ok env_ok 0" "clone_ok env_ok" "alloc_ok env_ok 1" by (simp_all add: env_ok_def)
  have p30: "io_pktlen frame30 = 30" by (simp add: frame30_def)
  have ck: "k_priv ccmp_key0 = Some (CCMP_ctx \<lparr>rijndael = take 16 (k_key key0)\<rparr>)"
      "k_tsc ccmp_key0 < 2 ^ 48 - 1"
      "ccmp_prsc ccmp_key0 (io_data (io_head frame30)) \<le> k_tsc ccmp_key0"
    by (simp_all add: ccmp_key0_def key0_def ccmp_prsc_def)
  have tk: "k_priv tkip_key0 = Some (TKIP_ctx (tkip_mem\<lparr>rxmic := 16, txmic := 24\<rparr>))"
      "k_priv tkip_peer0 = Some (TKIP_ctx (tkip_mem\<lparr>txmic := 16, rxmic := 24\<rparr>))"
      "k_key tkip_peer0 = k_key tkip_key0"
      "michael_key_at tkip_peer0 (rxmic (tkip_mem\<lparr>txmic := 16, rxmic := 24\<rparr>))
         = michael_key_at tkip_key0 (txmic (tkip_mem\<lparr>rxmic := 16, txmic := 24\<rparr>))"
      "k_tsc tkip_key0 < 2 ^ 48 - 1"
      "k_rsc tkip_peer0 (frame_tid (io_data (io_head frame30))) \<le> k_tsc tkip_key0"
      "txttak_ok (tkip_mem\<lparr>rxmic := 16, txmic := 24\<rparr>) = 0"
      "tkip_rx_recompute (tkip_mem\<lparr>txmic := 16, rxmic := 24\<rparr>) (k_tsc tkip_key0 + 1)
         (k_rsc tkip_peer0 (frame_tid (io_data (io_head frame30))))"
    by (simp_all add: tkip_key0_def tkip_peer0_def key0_def michael_key_at_def tkip_mem_def
          tkip_rx_recompute_def)
  note T = encrypt_decrypt_roundtrip [where P = toy_prims and cfg = cfg64 and env = env_ok
      and F = frame30 and ic = ic_sta]
  have hc: "k_priv ccmp_key0 = Some (CCMP_ctx \<lparr>rijndael = take 16 (k_key key0)\<rparr>) \<and>
    alloc_ok env_ok 0 \<and> clone_ok env_ok \<and> alloc_ok env_ok 1 \<and>
    list_all wf_iob (chain_iobs frame30) \<and>
    ieee80211_get_hdrlen (io_data (io_head frame30)) \<le> io_len (io_head frame30) \<and>
    io_pktlen frame30 = length (chain_bytes frame30) \<and>
    io_pktlen frame30 + 8 \<le> CONFIG_IEEE80211_BUFSIZE cfg64 \<and>
    k_tsc ccmp_key0 < 2 ^ 48 - 1 \<and>
    ccmp_prsc ccmp_key0 (io_data (io_head frame30)) \<le> k_tsc ccmp_key0"
    using ck e s by blast
  have c: "\<exists>E k1 D k'.
      ieee80211_ccmp_encrypt toy_prims cfg64 env_ok frame30 ccmp_key0 = Some (Inr E, k1) \<and>
      ieee80211_ccmp_decrypt toy_prims cfg64 env_ok E k1 = Some (Inr D, k') \<and>
      io_pktlen D = io_pktlen frame30 \<and>
      chain_bytes D =
        (chain_bytes frame30)[1 := chain_bytes frame30 ! 1 AND NOT IEEE80211_FC1_PROTECTED]"
    using T [where k = ccmp_key0 and cctx = "\<lparr>rijndael = take 16 (k_key key0)\<rparr>",
             THEN conjunct1, rule_format, OF hc] .
  have ht: "k_priv tkip_key0 = Some (TKIP_ctx (tkip_mem\<lparr>rxmic := 16, txmic := 24\<rparr>)) \<and>
    k_priv tkip_peer0 = Some (TKIP_ctx (tkip_mem\<lparr>txmic := 16, rxmic := 24\<rparr>)) \<and>
    k_key tkip_peer0 = k_key tkip_key0 \<and>
    michael_key_at tkip_peer0 (rxmic (tkip_mem\<lparr>txmic := 16, rxmic := 24\<rparr>))
      = michael_key_at tkip_key0 (txmic (tkip_mem\<lparr>rxmic := 16, txmic := 24\<rparr>)) \<and>
    alloc_ok env_ok 0 \<and> clone_ok env_ok \<and> alloc_ok env_ok 1 \<and>
    list_all wf_iob (chain_iobs frame30) \<and>
    ieee80211_get_hdrlen (io_data (io_head frame30)) \<le> io_len (io_head frame30) \<and>
    io_pktlen frame30 = length (chain_bytes frame30) \<and>
    io_pktlen frame30 + 8 \<le> CONFIG_IEEE80211_BUFSIZE cfg64 \<and>
    k_tsc tkip_key0 < 2 ^ 48 - 1 \<and>
    k_rsc tkip_peer0 (frame_tid (io_data (io_head frame30))) \<le> k_tsc tkip_key0 \<and>
    (txttak_ok (tkip_mem\<lparr>rxmic := 16, txmic := 24\<rparr>) \<noteq> 0 \<and>
       (k_tsc tkip_key0 + 1) AND 0xffff \<noteq> 0 \<longrightarrow>
       txttak (tkip_mem\<lparr>rxmic := 16, txmic := 24\<rparr>) =
         Phase1 (k_key tkip_key0) (i_addr2 (io_data (io_head frame30)))
           (ucast (drop_bit 16 (k_tsc tkip_key0 + 1)))) \<and>
    (\<not> tkip_rx_recompute (tkip_mem\<lparr>txmic := 16, rxmic := 24\<rparr>) (k_tsc tkip_key0 + 1)
          (k_rsc tkip_peer0 (frame_tid (io_data (io_head frame30)))) \<longrightarrow>
       rxttak (tkip_mem\<lparr>txmic := 16, rxmic := 24\<rparr>) =
         Phase1 (k_key tkip_key0) (i_addr2 (io_data (io_head frame30)))
           (ucast (drop_bit 16 (k_tsc tkip_key0 + 1))))"
    using tk e s by blast
  have t: "\<exists>E t1 D t2'.
      ieee80211_tkip_encrypt toy_prims cfg64 env_ok frame30 tkip_key0 = Some (Inr E, t1) \<and>
      ieee80211_tkip_decrypt toy_prims cfg64 env_ok ic_sta E tkip_peer0 = Some (Inr D, t2', ic_sta) \<and>
      io_pktlen D = io_pktlen frame30 \<and>
      chain_bytes D =
        (chain_bytes frame30)[1 := chain_bytes frame30 ! 1 AND NOT IEEE80211_FC1_PROTECTED]"
    using T [where t = tkip_key0 and tctx = "tkip_mem\<lparr>rxmic := 16, txmic := 24\<rparr>"
               and ?t2.0 = tkip_peer0 and ?tctx2.0 = "tkip_mem\<lparr>txmic := 16, rxmic := 24\<rparr>",
             THEN conjunct2, rule_format, OF ht] .
  have b: "(chain_bytes frame30)[1 := chain_bytes frame30 ! 1 AND NOT IEEE80211_FC1_PROTECTED]
     = [8, 0, 0, 0, 1, 1, 1, 1, 1, 1, 2, 2, 2, 2, 2, 2, 3, 3, 3, 3, 3, 3, 16, 0,
        10, 11, 12, 13, 14, 15]"
    using s by blast
  show ?thesis using c t unfolding b p30 by blast
qed

text \<open>
  The claim as it reads, with decrypt under the key \<open>K\<close> that encrypted, fails for TKIP:
  \<open>frame30\<close> has the PROTECTED bit set and the receive counter of its TID, 0, is below
  the transmit counter, 5; encrypt under \<open>tkip_key0\<close> returns \<open>tkip_wire0\<close> and leaves the
  key \<open>tkip_key1\<close>, and decrypt of \<open>tkip_wire0\<close> under \<open>tkip_key0\<close> or \<open>tkip_key1\<close> drops the
  frame as a Michael MIC failure. It fails for both ciphers on a frame that does not fit
  the first output buffer: encrypt of \<open>frame60\<close> returns nothing to decrypt.
\<close>

theorem roundtrip_same_key_counterexample:
  "ieee80211_tkip_encrypt toy_prims cfg64 env_ok frame30 tkip_key0
     = Some (Inr tkip_wire0, tkip_key1) \<and>
   i_fc1 (io_data (io_head frame30)) AND IEEE80211_FC1_PROTECTED \<noteq> 0 \<and>
   k_rsc tkip_key0 (frame_tid (io_data (io_head frame30))) < k_tsc tkip_key0 \<and>
   (\<exists>k' ic'. ieee80211_tkip_decrypt toy_prims cfg64 env_ok ic_sta tkip_wire0 tkip_key0
                = Some (Inl Michael_failure, k', ic')) \<and>
   (\<exists>k' ic'. ieee80211_tkip_decrypt toy_prims cfg64 env_ok ic_sta tkip_wire0 tkip_key1
                = Some (Inl Michael_failure, k', ic')) \<and>
   ieee80211_ccmp_encrypt toy_prims cfg64 env_ok frame60 ccmp_key0 = None \<and>
   ieee80211_tkip_encrypt toy_prims cfg64 env_ok frame60 tkip_key0 = None"
proof -
  note s = frame30_shape
  have r: "k_rsc tkip_key0 (frame_tid (io_data (io_head frame30))) < k_tsc tkip_key0"
    by (simp add: tkip_key0_def key0_def)
  have a: "\<exists>k' ic'. ieee80211_tkip_decrypt toy_prims cfg64 env_ok ic_sta tkip_wire0 tkip_key0
                = Some (Inl Michael_failure, k', ic')"
    using returns_failD [OF tkip_dec_same_key] by (metis prod.collapse)
  have b: "\<exists>k' ic'. ieee80211_tkip_decrypt toy_prims cfg64 env_ok ic_sta tkip_wire0 tkip_key1
                = Some (Inl Michael_failure, k', ic')"
    using returns_failD [OF tkip_dec_own_key] by (metis prod.collapse)
  have all: "\<forall>n. alloc_ok env_ok n" "clone_ok env_ok" by (simp_all add: env_ok_def)
  have f: "ieee80211_get_hdrlen (io_data (io_head frame60)) \<le> io_len (io_head frame60)"
    "io_pktlen frame60 \<le> length (chain_bytes frame60)"
    "ieee80211_get_hdrlen (io_data (io_head frame60)) + 8 \<le> CONFIG_IEEE80211_BUFSIZE cfg64"
    "CONFIG_IEEE80211_BUFSIZE cfg64 < io_pktlen frame60 + 8"
    by (simp_all add: frame60_facts)
  have c: "ieee80211_ccmp_encrypt toy_prims cfg64 env_ok frame60 ccmp_key0 = None"
    by (rule ccmp_encrypt_diverges [OF all _ frame60_facts(1) f]) (simp add: ccmp_key0_def)
  have d: "ieee80211_tkip_encrypt toy_prims cfg64 env_ok frame60 tkip_key0 = None"
    by (rule tkip_encrypt_diverges [OF all _ frame60_facts(1) f]) (simp add: tkip_key0_def)
  show ?thesis using tkip_enc0_eq s r a b c d by blast
qed


end
